theory Spec2Isabelle
  imports Main "HOL-Library.Word" "HOL-Library.Sublist"
begin

section \<open>Go library functions the reconciler calls\<close>

text \<open>
  Go strings are byte sequences, so a Go \<^verbatim>\<open>string\<close> is a \<^typ>\<open>string\<close> (a list of
  8-bit characters) and \<^verbatim>\<open>len\<close> is \<^const>\<open>length\<close>. The functions of this section
  belong to the Go standard library (\<^verbatim>\<open>strings\<close>, \<^verbatim>\<open>path/filepath\<close>); they are written
  out so that the code that calls them can be evaluated.
\<close>

subsection \<open>strings.ToLower\<close>

text \<open>
  The kinds compared by the dispatcher are ASCII identifiers: the ASCII letters are
  mapped, every other byte is kept. An upper-case ASCII letter has bit 5
  clear; adding \<^verbatim>\<open>'a' - 'A'\<close> = 32 sets it. This is Go's function on the strings
  without a byte above \<^verbatim>\<open>0x7f\<close>, which Go lowers byte by byte; a string with such a
  byte is lowered by rune in Go, with the tables of package \<^verbatim>\<open>unicode\<close>, which the
  model does not contain. \<open>ascii\<close> holds of the strings of the first sort.
\<close>

definition toLowerByte :: "char \<Rightarrow> char" where
  "toLowerByte c =
     (if 65 \<le> (of_char c :: nat) \<and> (of_char c :: nat) \<le> 90
      then (case c of Char b0 b1 b2 b3 b4 b5 b6 b7 \<Rightarrow> Char b0 b1 b2 b3 b4 True b6 b7)
      else c)"

definition ToLower :: "string \<Rightarrow> string" where
  "ToLower s = map toLowerByte s"


subsection \<open>strings.Split\<close>

text \<open>
  \<^verbatim>\<open>strings.Split(s, sep)\<close> for a non-empty separator: the pieces between the
  non-overlapping occurrences of \<open>sep\<close>, found from the left. The scan keeps the piece
  read so far (reversed) and the number of bytes of a matched separator that are still
  to be skipped. (An empty separator, which Go splits at every rune, is never passed by
  the reconciler; the scan then returns the string whole.)
\<close>

fun split_scan :: "string \<Rightarrow> nat \<Rightarrow> string \<Rightarrow> string \<Rightarrow> string list" where
  "split_scan sep k acc [] = [rev acc]"
| "split_scan sep (Suc k) acc (c # cs) = split_scan sep k acc cs"
| "split_scan sep 0 acc (c # cs) =
     (if sep \<noteq> [] \<and> prefix sep (c # cs)
      then rev acc # split_scan sep (length sep - 1) [] cs
      else split_scan sep 0 (c # acc) cs)"

definition Split :: "string \<Rightarrow> string \<Rightarrow> string list" where
  "Split s sep = split_scan sep 0 [] s"

subsection \<open>strings.TrimSpace\<close>

text \<open>
  \<^verbatim>\<open>strings.TrimSpace\<close> removes the leading and trailing runes that satisfy
  \<^verbatim>\<open>unicode.IsSpace\<close>. On the bytes of the string these are the UTF-8 encodings below:
  the six ASCII white-space characters, U+0085, U+00A0, U+1680, U+2000 to U+200A,
  U+2028, U+2029, U+202F, U+205F and U+3000.
\<close>

definition spaceRunes :: "string list" where
  "spaceRunes =
     [[CHR 0x09], [CHR 0x0A], [CHR 0x0B], [CHR 0x0C], [CHR 0x0D], [CHR 0x20],
      [CHR 0xC2, CHR 0x85], [CHR 0xC2, CHR 0xA0],
      [CHR 0xE1, CHR 0x9A, CHR 0x80],
      [CHR 0xE2, CHR 0x80, CHR 0x80], [CHR 0xE2, CHR 0x80, CHR 0x81],
      [CHR 0xE2, CHR 0x80, CHR 0x82], [CHR 0xE2, CHR 0x80, CHR 0x83],
      [CHR 0xE2, CHR 0x80, CHR 0x84], [CHR 0xE2, CHR 0x80, CHR 0x85],
      [CHR 0xE2, CHR 0x80, CHR 0x86], [CHR 0xE2, CHR 0x80, CHR 0x87],
      [CHR 0xE2, CHR 0x80, CHR 0x88], [CHR 0xE2, CHR 0x80, CHR 0x89],
      [CHR 0xE2, CHR 0x80, CHR 0x8A],
      [CHR 0xE2, CHR 0x80, CHR 0xA8], [CHR 0xE2, CHR 0x80, CHR 0xA9],
      [CHR 0xE2, CHR 0x80, CHR 0xAF],
      [CHR 0xE2, CHR 0x81, CHR 0x9F],
      [CHR 0xE3, CHR 0x80, CHR 0x80]]"

text \<open>
  \<open>trim_scan runes k s\<close> drops from the front of \<open>s\<close> every rune of \<open>runes\<close>; \<open>k\<close>
  counts the bytes of a matched rune that are still to be dropped. The trailing side
  is the same scan on the reversed string with the reversed encodings.
\<close>

fun trim_scan :: "string list \<Rightarrow> nat \<Rightarrow> string \<Rightarrow> string" where
  "trim_scan runes k [] = []"
| "trim_scan runes (Suc k) (c # cs) = trim_scan runes k cs"
| "trim_scan runes 0 (c # cs) =
     (case find (\<lambda>p. prefix p (c # cs)) runes of
        None \<Rightarrow> c # cs
      | Some p \<Rightarrow> trim_scan runes (length p - 1) cs)"

definition TrimSpace :: "string \<Rightarrow> string" where
  "TrimSpace s =
     rev (trim_scan (map rev spaceRunes) 0 (rev (trim_scan spaceRunes 0 s)))"

subsection \<open>strings.Replace\<close>

text \<open>
  \<^verbatim>\<open>strings.Replace(s, old, new, n)\<close> for a non-empty \<open>old\<close>: the first \<open>n\<close>
  non-overlapping occurrences are replaced, all of them when \<open>n < 0\<close>.
\<close>

function replace_from :: "string \<Rightarrow> string \<Rightarrow> int \<Rightarrow> string \<Rightarrow> string" where
  "replace_from old new n [] = []"
| "replace_from old new n (c # cs) =
     (if old \<noteq> [] \<and> n \<noteq> 0 \<and> prefix old (c # cs)
      then new @ replace_from old new (n - 1) (drop (length old) (c # cs))
      else c # replace_from old new n cs)"
  by pat_completeness auto
termination
  by (relation "measure (\<lambda>(old, new, n, s). length s)") auto

definition Replace :: "string \<Rightarrow> string \<Rightarrow> string \<Rightarrow> int \<Rightarrow> string" where
  "Replace s old new n = (if old = new \<or> n = 0 then s else replace_from old new n s)"

subsection \<open>filepath.Ext\<close>

text \<open>
  The loop of \<^verbatim>\<open>filepath.Ext\<close> runs from the last byte towards the first, stops at a
  path separator and returns the suffix that starts at the first dot it meets.
\<close>

fun ext_scan :: "string \<Rightarrow> string \<Rightarrow> string" where
  "ext_scan [] acc = []"
| "ext_scan (c # cs) acc =
     (if c = CHR ''/'' then []
      else if c = CHR ''.'' then c # acc
      else ext_scan cs (c # acc))"

definition Ext :: "string \<Rightarrow> string" where
  "Ext path = ext_scan (rev path) []"


section \<open>Data model\<close>

subsection \<open>Decoded resources\<close>

text \<open>
  A \<^verbatim>\<open>runtime.Object\<close> is an interface value: it has a dynamic Go type, which the
  handlers test with a type assertion, and the fields the handlers read: kind and
  version of its \<^verbatim>\<open>GroupVersionKind\<close>, namespace and name of its metadata and, for a
  deployment, \<^verbatim>\<open>Spec.Replicas\<close> (a \<^verbatim>\<open>*int32\<close>).
\<close>

datatype gotype =
    rbac_ClusterRole
  | rbac_ClusterRoleBinding
  | apiCoreV1_ConfigMap
  | appsV1_DaemonSet
  | appsV1_Deployment
  | apiServerExtensionsV1beta1_CustomResourceDefinition
  | apiExtensionsV1beta1_Ingress
  | apiCoreV1_Namespace
  | rbac_Role
  | rbac_RoleBinding
  | apiCoreV1_Service
  | apiCoreV1_ServiceAccount
  | apiCoreV1_Secret
  | apiCoreV1_PersistentVolumeClaim
  | other_type

record object =
  GoType :: gotype
  Kind :: string
  Version :: string
  Namespace :: string
  Name :: string
  Replicas :: "32 word option"

text \<open>\<^verbatim>\<open>provider.ResourceFile\<close>: a file name and the rendered content of the file.\<close>

record ResourceFile =
  File :: string
  Content :: string

text \<open>\<^verbatim>\<open>Resource\<close>: the objects decoded from one file.\<close>

record Resource =
  FileName :: string
  Objects :: "object list"

subsection \<open>The cluster-management API\<close>

text \<open>
  The typed clients of \<^verbatim>\<open>client-go\<close>: one collection per kind, addressed in a
  namespace (\<open>Some ns\<close>) or cluster-wide (\<open>None\<close>).
\<close>

datatype collection =
    ClusterRoles
  | ClusterRoleBindings
  | ConfigMaps
  | DaemonSets
  | Deployments
  | CustomResourceDefinitions
  | Ingresses
  | Namespaces
  | Roles
  | RoleBindings
  | Services
  | ServiceAccounts
  | Secrets
  | PersistentVolumeClaims

datatype api_error = NotFound | Conflict | AlreadyExists | OtherFailure string

datatype propagation = Orphan | Background | Foreground

text \<open>What the readiness predicates read from an object returned by \<^verbatim>\<open>Get\<close>.\<close>

record remote =
  SpecType :: string
  SpecPorts :: "32 word list"
  LoadBalancerIngress :: "string list"
  AvailableReplicas :: "32 word"
  NumberUnavailable :: "32 word"

datatype request =
    ListReq collection "string option"
  | GetReq collection "string option" string
  | CreateReq collection "string option" object
  | UpdateReq collection "string option" object
  | DeleteReq collection "string option" string propagation

text \<open>
  The cluster is an external collaborator. Its answers are a parameter of the model:
  each call maps the cluster state \<open>'c\<close> to an answer and the next state, so that
  answers may change from call to call. \<open>apiList\<close> returns the names of
  \<^verbatim>\<open>list.Items\<close>, the only field the code reads. \<open>GlobalRetryCount\<close> is the attempt
  budget exported by package \<^verbatim>\<open>provider\<close>, which is not part of the sources.
\<close>

record 'c env =
  apiList :: "collection \<Rightarrow> string option \<Rightarrow> 'c \<Rightarrow> (api_error + string list) \<times> 'c"
  apiGet :: "collection \<Rightarrow> string option \<Rightarrow> string \<Rightarrow> 'c \<Rightarrow> (api_error + remote) \<times> 'c"
  apiCreate :: "collection \<Rightarrow> string option \<Rightarrow> object \<Rightarrow> 'c \<Rightarrow> api_error option \<times> 'c"
  apiUpdate :: "collection \<Rightarrow> string option \<Rightarrow> object \<Rightarrow> 'c \<Rightarrow> api_error option \<times> 'c"
  apiDelete :: "collection \<Rightarrow> string option \<Rightarrow> string \<Rightarrow> propagation \<Rightarrow> 'c
                 \<Rightarrow> api_error option \<times> 'c"
  GlobalRetryCount :: nat

subsection \<open>Errors, log lines and the observable trace\<close>

text \<open>
  \<open>Wrapf err m\<close> is \<^verbatim>\<open>errors.Wrapf(err, format, ...)\<close> with the formatted message \<open>m\<close>.
  Three formats end in the wrapped error itself (\<^verbatim>\<open>err:%v\<close>), whose text is the
  cluster's: there \<open>m\<close> ends with \<^verbatim>\<open>err:\<close> and the error is the first argument only.
\<close>

datatype error =
    ApiError api_error
  | DecodeError string
  | Wrapf error string
  | Errorf string
  | TimeoutError string nat

text \<open>The lines written with \<^verbatim>\<open>log.Printf\<close>, one constructor per format string.\<close>

datatype logline =
    ResourceUpdated string string
  | ResourceCreated string string
  | ResourceDeleted string string
  | ResourceDeleting string string
  | ErrorApplying string error
  | ErrorDeleting string error
  | ServiceDetails string
  | ServiceAddress string "32 word"

datatype fatal =
    ErrorReadingFile string
  | FailedToExecute string error
  | CouldntParse error
  | ErrorWhileApplying error
  | ErrorWhileDeleting error

datatype event = Request request | Printf logline | Fatalf fatal

text \<open>
  A call either returns a value, panics (a failed type assertion, an out-of-range
  slice or index) or ends the process (\<^verbatim>\<open>log.Fatalf\<close>). The world is the cluster
  state and the trace of requests and log lines, oldest first.
\<close>

datatype 'a outcome = Panicked | Exited | Value 'a

record 'c world =
  cluster :: 'c
  trace :: "event list"

definition emit :: "event \<Rightarrow> 'c world \<Rightarrow> 'c world" where
  "emit e w = w\<lparr>trace := trace w @ [e]\<rparr>"

definition andThen ::
  "'a outcome \<times> 'w \<Rightarrow> ('a \<Rightarrow> 'w \<Rightarrow> 'b outcome \<times> 'w) \<Rightarrow> 'b outcome \<times> 'w" where
  "andThen r k =
     (case r of
        (Value x, w) \<Rightarrow> k x w
      | (Panicked, w) \<Rightarrow> (Panicked, w)
      | (Exited, w) \<Rightarrow> (Exited, w))"


section \<open>Requests to the cluster\<close>

text \<open>Every request is recorded in the trace before its answer is used.\<close>

definition clientList ::
  "'c env \<Rightarrow> collection \<Rightarrow> string option \<Rightarrow> 'c world
     \<Rightarrow> (api_error + string list) \<times> 'c world" where
  "clientList env coll ns w =
     (case apiList env coll ns (cluster w) of
        (r, c) \<Rightarrow> (r, \<lparr>cluster = c, trace = trace w @ [Request (ListReq coll ns)]\<rparr>))"

definition clientGet ::
  "'c env \<Rightarrow> collection \<Rightarrow> string option \<Rightarrow> string \<Rightarrow> 'c world
     \<Rightarrow> (api_error + remote) \<times> 'c world" where
  "clientGet env coll ns name w =
     (case apiGet env coll ns name (cluster w) of
        (r, c) \<Rightarrow> (r, \<lparr>cluster = c, trace = trace w @ [Request (GetReq coll ns name)]\<rparr>))"

definition clientCreate ::
  "'c env \<Rightarrow> collection \<Rightarrow> string option \<Rightarrow> object \<Rightarrow> 'c world
     \<Rightarrow> api_error option \<times> 'c world" where
  "clientCreate env coll ns req w =
     (case apiCreate env coll ns req (cluster w) of
        (r, c) \<Rightarrow> (r, \<lparr>cluster = c, trace = trace w @ [Request (CreateReq coll ns req)]\<rparr>))"

definition clientUpdate ::
  "'c env \<Rightarrow> collection \<Rightarrow> string option \<Rightarrow> object \<Rightarrow> 'c world
     \<Rightarrow> api_error option \<times> 'c world" where
  "clientUpdate env coll ns req w =
     (case apiUpdate env coll ns req (cluster w) of
        (r, c) \<Rightarrow> (r, \<lparr>cluster = c, trace = trace w @ [Request (UpdateReq coll ns req)]\<rparr>))"

definition clientDelete ::
  "'c env \<Rightarrow> collection \<Rightarrow> string option \<Rightarrow> string \<Rightarrow> propagation \<Rightarrow> 'c world
     \<Rightarrow> api_error option \<times> 'c world" where
  "clientDelete env coll ns name pol w =
     (case apiDelete env coll ns name pol (cluster w) of
        (r, c) \<Rightarrow>
          (r, \<lparr>cluster = c, trace = trace w @ [Request (DeleteReq coll ns name pol)]\<rparr>))"


section \<open>Retry utilities\<close>

subsection \<open>retry.RetryOnConflict\<close>

text \<open>
  \<^verbatim>\<open>retry.RetryOnConflict(retry.DefaultRetry, fn)\<close> of \<^verbatim>\<open>client-go\<close>: \<open>fn\<close> is run
  at most \<^verbatim>\<open>DefaultRetry.Steps\<close> = 5 times; success and every error other than a
  conflict end the loop at once, and when the steps are used up the last conflict is
  returned.
\<close>

fun retry_loop ::
  "nat \<Rightarrow> api_error option \<Rightarrow> ('w \<Rightarrow> api_error option \<times> 'w) \<Rightarrow> 'w
     \<Rightarrow> api_error option \<times> 'w" where
  "retry_loop 0 lastConflictErr fn w = (lastConflictErr, w)"
| "retry_loop (Suc n) lastConflictErr fn w =
     (case fn w of
        (None, w') \<Rightarrow> (None, w')
      | (Some err, w') \<Rightarrow>
          if err = Conflict then retry_loop n (Some err) fn w' else (Some err, w'))"

definition DefaultRetry_Steps :: nat where
  "DefaultRetry_Steps = 5"

definition RetryOnConflict ::
  "nat \<Rightarrow> ('w \<Rightarrow> api_error option \<times> 'w) \<Rightarrow> 'w \<Rightarrow> api_error option \<times> 'w" where
  "RetryOnConflict steps fn w = retry_loop steps None fn w"

subsection \<open>provider.RetryUntilTrue\<close>

text \<open>
  Modelled from the spec: \<^verbatim>\<open>provider.RetryUntilTrue\<close> is defined in package
  \<^verbatim>\<open>provider\<close>, which is not part of the sources. The spec (section 4.5) gives its
  contract: the predicate is called repeatedly until it returns true, returns an error
  (propagated at once) or \<open>maxAttempts\<close> calls have been made, which yields a timeout
  error that carries the description. The fixed delay between attempts is not part of
  the model.
\<close>

fun until_loop ::
  "nat \<Rightarrow> ('w \<Rightarrow> (bool \<times> error option) outcome \<times> 'w) \<Rightarrow> error \<Rightarrow> 'w
     \<Rightarrow> error option outcome \<times> 'w" where
  "until_loop 0 fn timeout w = (Value (Some timeout), w)"
| "until_loop (Suc left) fn timeout w =
     (case fn w of
        (Value (ready, Some err), w') \<Rightarrow> (Value (Some err), w')
      | (Value (True, None), w') \<Rightarrow> (Value None, w')
      | (Value (False, None), w') \<Rightarrow> until_loop left fn timeout w'
      | (Panicked, w') \<Rightarrow> (Panicked, w')
      | (Exited, w') \<Rightarrow> (Exited, w'))"

definition RetryUntilTrue ::
  "string \<Rightarrow> nat \<Rightarrow> ('w \<Rightarrow> (bool \<times> error option) outcome \<times> 'w) \<Rightarrow> 'w
     \<Rightarrow> error option outcome \<times> 'w" where
  "RetryUntilTrue name retryCount fn w =
     until_loop retryCount fn (TimeoutError name retryCount) w"


section \<open>Readiness and deletion predicates\<close>

definition defaultNamespace :: "object \<Rightarrow> object" where
  "defaultNamespace req =
     (if length (Namespace req) = 0 then req\<lparr>Namespace := ''default''\<rparr> else req)"

definition unknownVersion :: "string \<Rightarrow> string \<Rightarrow> string \<Rightarrow> error" where
  "unknownVersion v kind name =
     Errorf (''unknown object version: '' @ v @ '' kind:'' @ [CHR 0x27] @ kind @ [CHR 0x27]
             @ '', name:'' @ [CHR 0x27] @ name @ [CHR 0x27])"

text \<open>
  The handlers write the default namespace into the object itself. Every handler and
  predicate repeats the same assignment before it uses the namespace, so the model
  computes the defaulted object locally.
\<close>

fun serviceAddresses :: "string list \<Rightarrow> 32 word \<Rightarrow> 'c world \<Rightarrow> 'c world" where
  "serviceAddresses [] port w = w"
| "serviceAddresses (ip # ips) port w =
     serviceAddresses ips port (emit (Printf (ServiceAddress ip port)) w)"

definition serviceExists ::
  "'c env \<Rightarrow> object \<Rightarrow> 'c world \<Rightarrow> (bool \<times> error option) outcome \<times> 'c world" where
  "serviceExists env resource w =
     (if GoType resource \<noteq> apiCoreV1_Service then (Panicked, w)
      else if Version resource = ''v1'' then
        (case clientGet env Services (Some (Namespace (defaultNamespace resource)))
                (Name resource) w of
           (Inl err, w') \<Rightarrow>
             (Value (False, Some (Wrapf (ApiError err)
                                   ''Checking Service resource status failed'')), w')
         | (Inr res, w') \<Rightarrow>
             if SpecType res = ''LoadBalancer'' then
               (if length (LoadBalancerIngress res) > 0 then
                  (case SpecPorts res of
                     [] \<Rightarrow> (Panicked, emit (Printf (ServiceDetails (Name resource))) w')
                   | port # _ \<Rightarrow>
                       (Value (True, None),
                        serviceAddresses (LoadBalancerIngress res) port
                          (emit (Printf (ServiceDetails (Name resource))) w')))
                else (Value (False, None), w'))
             else (Value (True, None), w'))
      else (Value (False, Some (unknownVersion (Version resource) (Kind resource)
                                  (Name resource))), w))"

definition deploymentReady ::
  "'c env \<Rightarrow> object \<Rightarrow> 'c world \<Rightarrow> (bool \<times> error option) outcome \<times> 'c world" where
  "deploymentReady env resource w =
     (if GoType resource \<noteq> appsV1_Deployment then (Panicked, w)
      else if Version resource = ''v1'' then
        (case clientGet env Deployments (Some (Namespace (defaultNamespace resource)))
                (Name resource) w of
           (Inl err, w') \<Rightarrow>
             (Value (False, Some (Wrapf (ApiError err)
                (''Checking Deployment resource:'' @ [CHR 0x27] @ Name resource @ [CHR 0x27]
                 @ '' status failed err:''))), w')
         | (Inr res, w') \<Rightarrow>
             if AvailableReplicas res
                  = (case Replicas resource of None \<Rightarrow> 1 | Some replicas \<Rightarrow> replicas)
             then (Value (True, None), w')
             else (Value (False, None), w'))
      else (Value (False, Some (unknownVersion (Version resource) (Kind resource)
                                  (Name resource))), w))"

definition daemonsetReady ::
  "'c env \<Rightarrow> object \<Rightarrow> 'c world \<Rightarrow> (bool \<times> error option) outcome \<times> 'c world" where
  "daemonsetReady env resource w =
     (if GoType resource \<noteq> appsV1_DaemonSet then (Panicked, w)
      else if Version resource = ''v1'' then
        (case clientGet env DaemonSets (Some (Namespace (defaultNamespace resource)))
                (Name resource) w of
           (Inl err, w') \<Rightarrow>
             (Value (False, Some (Wrapf (ApiError err)
                (''Checking DaemonSet resource:'' @ [CHR 0x27] @ Name resource @ [CHR 0x27]
                 @ '' status failed err:''))), w')
         | (Inr res, w') \<Rightarrow>
             if NumberUnavailable res = 0 then (Value (True, None), w')
             else (Value (False, None), w'))
      else (Value (False, Some (unknownVersion (Version resource) (Kind resource)
                                  (Name resource))), w))"

definition namespaceDeleted ::
  "'c env \<Rightarrow> object \<Rightarrow> 'c world \<Rightarrow> (bool \<times> error option) outcome \<times> 'c world" where
  "namespaceDeleted env resource w =
     (if GoType resource \<noteq> apiCoreV1_Namespace then (Panicked, w)
      else if Version resource = ''v1'' then
        (case clientGet env Namespaces None (Name resource) w of
           (Inl err, w') \<Rightarrow>
             if err = NotFound then (Value (True, None), w')
             else (Value (False, Some (Wrapf (ApiError err)
                (''Couldn'' @ [CHR 0x27] @ ''t get namespace '' @ [CHR 0x27] @ Name resource
                 @ [CHR 0x27] @ '' err:''))), w')
         | (Inr res, w') \<Rightarrow> (Value (False, None), w'))
      else (Value (False, Some (unknownVersion (Version resource) (Kind resource)
                                  (Name resource))), w))"


section \<open>The create-or-update protocol\<close>

text \<open>
  Every apply handler has the same body: a type assertion, the default namespace for
  the kinds that set one, a switch on the version and, for the one supported version,
  list, existence test, update under \<^verbatim>\<open>RetryOnConflict\<close> or create. The handlers
  differ in the Go type they assert, the client they address, the version they accept
  and the message of a failed list; \<open>applyResource\<close> is that body with these as
  arguments. It reports how the switch was left: by \<^verbatim>\<open>return\<close> with an error, by
  \<^verbatim>\<open>return nil\<close> after an update, or by falling out of the switch after a create.
\<close>

datatype applied = Failed error | Updated | Created

fun exists_loop :: "string list \<Rightarrow> string \<Rightarrow> bool" where
  "exists_loop [] name = False"
| "exists_loop (l # items) name = (if l = name then True else exists_loop items name)"

definition listingResource :: "string \<Rightarrow> string \<Rightarrow> string" where
  "listingResource kind name = ''listing resource : '' @ kind"

definition errorListing :: "string \<Rightarrow> string \<Rightarrow> string" where
  "errorListing kind name = ''error listing resource : '' @ kind @ '', name: '' @ name"

definition createOrUpdate ::
  "'c env \<Rightarrow> collection \<Rightarrow> string option \<Rightarrow> string \<Rightarrow> object \<Rightarrow> string \<Rightarrow> 'c world
     \<Rightarrow> applied \<times> 'c world" where
  "createOrUpdate env coll ns listmsg req kind w =
     (case clientList env coll ns w of
        (Inl err, w1) \<Rightarrow> (Failed (Wrapf (ApiError err) listmsg), w1)
      | (Inr items, w1) \<Rightarrow>
          if exists_loop items (Name req) then
            (case RetryOnConflict DefaultRetry_Steps (clientUpdate env coll ns req) w1 of
               (Some err, w2) \<Rightarrow>
                 (Failed (Wrapf (ApiError err)
                    (''resource update failed - kind: '' @ kind @ '', name: '' @ Name req)), w2)
             | (None, w2) \<Rightarrow>
                 (Updated, emit (Printf (ResourceUpdated kind (Name req))) w2))
          else
            (case clientCreate env coll ns req w1 of
               (Some err, w2) \<Rightarrow>
                 (Failed (Wrapf (ApiError err)
                    (''resource creation failed - kind: '' @ kind @ '', name: '' @ Name req)), w2)
             | (None, w2) \<Rightarrow>
                 (Created, emit (Printf (ResourceCreated kind (Name req))) w2)))"

definition applyResource ::
  "'c env \<Rightarrow> gotype \<Rightarrow> collection \<Rightarrow> bool \<Rightarrow> bool \<Rightarrow> string
     \<Rightarrow> (string \<Rightarrow> string \<Rightarrow> string) \<Rightarrow> object \<Rightarrow> 'c world
     \<Rightarrow> applied outcome \<times> 'c world" where
  "applyResource env T coll defaults namespaced version listmsg resource w =
     (if GoType resource \<noteq> T then (Panicked, w)
      else if Version resource = version then
        (case createOrUpdate env coll
                (if namespaced
                 then Some (Namespace (if defaults then defaultNamespace resource else resource))
                 else None)
                (listmsg (Kind resource) (Name resource))
                (if defaults then defaultNamespace resource else resource)
                (Kind resource) w of
           (a, w') \<Rightarrow> (Value a, w'))
      else (Value (Failed (unknownVersion (Version resource) (Kind resource)
                             (Name resource))), w))"

text \<open>The handlers that return \<^verbatim>\<open>nil\<close> after the switch.\<close>

definition returnNil :: "applied outcome \<times> 'w \<Rightarrow> error option outcome \<times> 'w" where
  "returnNil r =
     andThen r (\<lambda>a w. case a of Failed err \<Rightarrow> (Value (Some err), w)
                               | Updated \<Rightarrow> (Value None, w)
                               | Created \<Rightarrow> (Value None, w))"

definition clusterRoleApply ::
  "'c env \<Rightarrow> object \<Rightarrow> 'c world \<Rightarrow> error option outcome \<times> 'c world" where
  "clusterRoleApply env resource w =
     returnNil (applyResource env rbac_ClusterRole ClusterRoles False False
                  ''v1'' listingResource resource w)"

definition clusterRoleBindingApply ::
  "'c env \<Rightarrow> object \<Rightarrow> 'c world \<Rightarrow> error option outcome \<times> 'c world" where
  "clusterRoleBindingApply env resource w =
     returnNil (applyResource env rbac_ClusterRoleBinding ClusterRoleBindings False False
                  ''v1'' errorListing resource w)"

definition configMapApply ::
  "'c env \<Rightarrow> object \<Rightarrow> 'c world \<Rightarrow> error option outcome \<times> 'c world" where
  "configMapApply env resource w =
     returnNil (applyResource env apiCoreV1_ConfigMap ConfigMaps True True
                  ''v1'' errorListing resource w)"

definition customResourceApply ::
  "'c env \<Rightarrow> object \<Rightarrow> 'c world \<Rightarrow> error option outcome \<times> 'c world" where
  "customResourceApply env resource w =
     returnNil (applyResource env apiServerExtensionsV1beta1_CustomResourceDefinition CustomResourceDefinitions True False
                  ''v1beta1'' errorListing resource w)"

definition ingressApply ::
  "'c env \<Rightarrow> object \<Rightarrow> 'c world \<Rightarrow> error option outcome \<times> 'c world" where
  "ingressApply env resource w =
     returnNil (applyResource env apiExtensionsV1beta1_Ingress Ingresses True True
                  ''v1beta1'' errorListing resource w)"

definition nameSpaceApply ::
  "'c env \<Rightarrow> object \<Rightarrow> 'c world \<Rightarrow> error option outcome \<times> 'c world" where
  "nameSpaceApply env resource w =
     returnNil (applyResource env apiCoreV1_Namespace Namespaces False False
                  ''v1'' errorListing resource w)"

definition roleApply ::
  "'c env \<Rightarrow> object \<Rightarrow> 'c world \<Rightarrow> error option outcome \<times> 'c world" where
  "roleApply env resource w =
     returnNil (applyResource env rbac_Role Roles True True
                  ''v1'' errorListing resource w)"

definition roleBindingApply ::
  "'c env \<Rightarrow> object \<Rightarrow> 'c world \<Rightarrow> error option outcome \<times> 'c world" where
  "roleBindingApply env resource w =
     returnNil (applyResource env rbac_RoleBinding RoleBindings True True
                  ''v1'' errorListing resource w)"

definition serviceAccountApply ::
  "'c env \<Rightarrow> object \<Rightarrow> 'c world \<Rightarrow> error option outcome \<times> 'c world" where
  "serviceAccountApply env resource w =
     returnNil (applyResource env apiCoreV1_ServiceAccount ServiceAccounts True True
                  ''v1'' errorListing resource w)"

definition secretApply ::
  "'c env \<Rightarrow> object \<Rightarrow> 'c world \<Rightarrow> error option outcome \<times> 'c world" where
  "secretApply env resource w =
     returnNil (applyResource env apiCoreV1_Secret Secrets True True
                  ''v1'' errorListing resource w)"

definition persistentVolumeClaimApply ::
  "'c env \<Rightarrow> object \<Rightarrow> 'c world \<Rightarrow> error option outcome \<times> 'c world" where
  "persistentVolumeClaimApply env resource w =
     returnNil (applyResource env apiCoreV1_PersistentVolumeClaim PersistentVolumeClaims True True
                  ''v1'' errorListing resource w)"

text \<open>
  The three handlers with a statement after the switch. It is reached after a create
  only: the update branch has returned \<^verbatim>\<open>nil\<close> before. The daemonset handler calls
  its readiness predicate once and drops the result; the deployment and service
  handlers pass theirs to \<^verbatim>\<open>provider.RetryUntilTrue\<close>.
\<close>

definition daemonSetApply ::
  "'c env \<Rightarrow> object \<Rightarrow> 'c world \<Rightarrow> error option outcome \<times> 'c world" where
  "daemonSetApply env resource w =
     andThen (applyResource env appsV1_DaemonSet DaemonSets True True
                ''v1'' errorListing resource w)
       (\<lambda>a w'. case a of
           Failed err \<Rightarrow> (Value (Some err), w')
         | Updated \<Rightarrow> (Value None, w')
         | Created \<Rightarrow>
             andThen (daemonsetReady env (defaultNamespace resource) w')
               (\<lambda>ignored w''. (Value None, w'')))"

definition deploymentApply ::
  "'c env \<Rightarrow> object \<Rightarrow> 'c world \<Rightarrow> error option outcome \<times> 'c world" where
  "deploymentApply env resource w =
     andThen (applyResource env appsV1_Deployment Deployments True True
                ''v1'' errorListing resource w)
       (\<lambda>a w'. case a of
           Failed err \<Rightarrow> (Value (Some err), w')
         | Updated \<Rightarrow> (Value None, w')
         | Created \<Rightarrow>
             RetryUntilTrue (''applying deployment:'' @ Name resource)
               (GlobalRetryCount env)
               (deploymentReady env (defaultNamespace resource)) w')"

definition serviceApply ::
  "'c env \<Rightarrow> object \<Rightarrow> 'c world \<Rightarrow> error option outcome \<times> 'c world" where
  "serviceApply env resource w =
     andThen (applyResource env apiCoreV1_Service Services True True
                ''v1'' errorListing resource w)
       (\<lambda>a w'. case a of
           Failed err \<Rightarrow> (Value (Some err), w')
         | Updated \<Rightarrow> (Value None, w')
         | Created \<Rightarrow>
             RetryUntilTrue (''applying service:'' @ Name resource)
               (GlobalRetryCount env)
               (serviceExists env (defaultNamespace resource)) w')"


section \<open>The delete protocol\<close>

text \<open>
  The delete handlers share one body as well: type assertion, default namespace,
  version switch and a delete by name with the foreground propagation policy.
  \<open>deleteResource\<close> reports the error of the switch, or \<open>None\<close> when the delete was
  accepted; the log line of an accepted delete is written by the handler.
\<close>

definition deleteResource ::
  "'c env \<Rightarrow> gotype \<Rightarrow> collection \<Rightarrow> bool \<Rightarrow> bool \<Rightarrow> string \<Rightarrow> object \<Rightarrow> 'c world
     \<Rightarrow> error option outcome \<times> 'c world" where
  "deleteResource env T coll defaults namespaced version resource w =
     (if GoType resource \<noteq> T then (Panicked, w)
      else if Version resource = version then
        (case clientDelete env coll
                (if namespaced
                 then Some (Namespace (if defaults then defaultNamespace resource else resource))
                 else None)
                (Name resource) Foreground w of
           (Some err, w') \<Rightarrow>
             (Value (Some (Wrapf (ApiError err)
                (''resource delete failed - kind: '' @ Kind resource @ '', name: ''
                 @ Name resource))), w')
         | (None, w') \<Rightarrow> (Value None, w'))
      else (Value (Some (unknownVersion (Version resource) (Kind resource)
                           (Name resource))), w))"

definition logDeleted :: "object \<Rightarrow> error option outcome \<times> 'c world
     \<Rightarrow> error option outcome \<times> 'c world" where
  "logDeleted resource r =
     andThen r (\<lambda>err w. case err of
         Some e \<Rightarrow> (Value (Some e), w)
       | None \<Rightarrow>
           (Value None, emit (Printf (ResourceDeleted (Kind resource) (Name resource))) w))"

definition clusterRoleDelete ::
  "'c env \<Rightarrow> object \<Rightarrow> 'c world \<Rightarrow> error option outcome \<times> 'c world" where
  "clusterRoleDelete env resource w =
     logDeleted resource
       (deleteResource env rbac_ClusterRole ClusterRoles False False
          ''v1'' resource w)"

definition clusterRoleBindingDelete ::
  "'c env \<Rightarrow> object \<Rightarrow> 'c world \<Rightarrow> error option outcome \<times> 'c world" where
  "clusterRoleBindingDelete env resource w =
     logDeleted resource
       (deleteResource env rbac_ClusterRoleBinding ClusterRoleBindings False False
          ''v1'' resource w)"

definition configMapDelete ::
  "'c env \<Rightarrow> object \<Rightarrow> 'c world \<Rightarrow> error option outcome \<times> 'c world" where
  "configMapDelete env resource w =
     logDeleted resource
       (deleteResource env apiCoreV1_ConfigMap ConfigMaps True True
          ''v1'' resource w)"

definition daemonsetDelete ::
  "'c env \<Rightarrow> object \<Rightarrow> 'c world \<Rightarrow> error option outcome \<times> 'c world" where
  "daemonsetDelete env resource w =
     logDeleted resource
       (deleteResource env appsV1_DaemonSet DaemonSets True True
          ''v1'' resource w)"

definition deploymentDelete ::
  "'c env \<Rightarrow> object \<Rightarrow> 'c world \<Rightarrow> error option outcome \<times> 'c world" where
  "deploymentDelete env resource w =
     logDeleted resource
       (deleteResource env appsV1_Deployment Deployments True True
          ''v1'' resource w)"

definition customResourceDelete ::
  "'c env \<Rightarrow> object \<Rightarrow> 'c world \<Rightarrow> error option outcome \<times> 'c world" where
  "customResourceDelete env resource w =
     logDeleted resource
       (deleteResource env apiServerExtensionsV1beta1_CustomResourceDefinition CustomResourceDefinitions True False
          ''v1beta1'' resource w)"

definition ingressDelete ::
  "'c env \<Rightarrow> object \<Rightarrow> 'c world \<Rightarrow> error option outcome \<times> 'c world" where
  "ingressDelete env resource w =
     logDeleted resource
       (deleteResource env apiExtensionsV1beta1_Ingress Ingresses True True
          ''v1beta1'' resource w)"

definition roleDelete ::
  "'c env \<Rightarrow> object \<Rightarrow> 'c world \<Rightarrow> error option outcome \<times> 'c world" where
  "roleDelete env resource w =
     logDeleted resource
       (deleteResource env rbac_Role Roles True True
          ''v1'' resource w)"

definition roleBindingDelete ::
  "'c env \<Rightarrow> object \<Rightarrow> 'c world \<Rightarrow> error option outcome \<times> 'c world" where
  "roleBindingDelete env resource w =
     logDeleted resource
       (deleteResource env rbac_RoleBinding RoleBindings True True
          ''v1'' resource w)"

definition serviceAccountDelete ::
  "'c env \<Rightarrow> object \<Rightarrow> 'c world \<Rightarrow> error option outcome \<times> 'c world" where
  "serviceAccountDelete env resource w =
     logDeleted resource
       (deleteResource env apiCoreV1_ServiceAccount ServiceAccounts True True
          ''v1'' resource w)"

definition serviceDelete ::
  "'c env \<Rightarrow> object \<Rightarrow> 'c world \<Rightarrow> error option outcome \<times> 'c world" where
  "serviceDelete env resource w =
     logDeleted resource
       (deleteResource env apiCoreV1_Service Services True True
          ''v1'' resource w)"

definition secretDelete ::
  "'c env \<Rightarrow> object \<Rightarrow> 'c world \<Rightarrow> error option outcome \<times> 'c world" where
  "secretDelete env resource w =
     logDeleted resource
       (deleteResource env apiCoreV1_Secret Secrets True True
          ''v1'' resource w)"

definition persistentVolumeClaimDelete ::
  "'c env \<Rightarrow> object \<Rightarrow> 'c world \<Rightarrow> error option outcome \<times> 'c world" where
  "persistentVolumeClaimDelete env resource w =
     logDeleted resource
       (deleteResource env apiCoreV1_PersistentVolumeClaim PersistentVolumeClaims True True
          ''v1'' resource w)"

text \<open>
  Only the namespace handler confirms the deletion: after an accepted delete it polls
  \<open>namespaceDeleted\<close> with twice the attempt budget.
\<close>

definition namespaceDelete ::
  "'c env \<Rightarrow> object \<Rightarrow> 'c world \<Rightarrow> error option outcome \<times> 'c world" where
  "namespaceDelete env resource w =
     andThen (deleteResource env apiCoreV1_Namespace Namespaces False False
                ''v1'' resource w)
       (\<lambda>err w'. case err of
           Some e \<Rightarrow> (Value (Some e), w')
         | None \<Rightarrow>
             RetryUntilTrue (''deleting namespace:'' @ Name resource)
               (2 * GlobalRetryCount env)
               (namespaceDeleted env resource)
               (emit (Printf (ResourceDeleting (Kind resource) (Name resource))) w'))"


section \<open>Dispatch on the kind\<close>

text \<open>
  The \<^verbatim>\<open>switch\<close> on the lower-cased kind. The file
  \<^verbatim>\<open>src/provider/k8s/k8s.go\<close> has thirteen cases; the later revision of the package
  (\<^verbatim>\<open>src/unnamed/part_001\<close>) adds \<^verbatim>\<open>customresourcedefinition\<close>. The definitions for
  the first file carry the suffix \<open>_files\<close>, after the \<^verbatim>\<open>[]provider.ResourceFile\<close>
  its functions take.
\<close>

definition applySwitch ::
  "'c env \<Rightarrow> object \<Rightarrow> 'c world \<Rightarrow> error option outcome \<times> 'c world" where
  "applySwitch env resource w =
     (if ToLower (Kind resource) = ''clusterrole''
      then clusterRoleApply env resource w
      else if ToLower (Kind resource) = ''clusterrolebinding''
      then clusterRoleBindingApply env resource w
      else if ToLower (Kind resource) = ''configmap''
      then configMapApply env resource w
      else if ToLower (Kind resource) = ''daemonset''
      then daemonSetApply env resource w
      else if ToLower (Kind resource) = ''deployment''
      then deploymentApply env resource w
      else if ToLower (Kind resource) = ''ingress''
      then ingressApply env resource w
      else if ToLower (Kind resource) = ''namespace''
      then nameSpaceApply env resource w
      else if ToLower (Kind resource) = ''role''
      then roleApply env resource w
      else if ToLower (Kind resource) = ''rolebinding''
      then roleBindingApply env resource w
      else if ToLower (Kind resource) = ''service''
      then serviceApply env resource w
      else if ToLower (Kind resource) = ''serviceaccount''
      then serviceAccountApply env resource w
      else if ToLower (Kind resource) = ''secret''
      then secretApply env resource w
      else if ToLower (Kind resource) = ''persistentvolumeclaim''
      then persistentVolumeClaimApply env resource w
      else if ToLower (Kind resource) = ''customresourcedefinition''
      then customResourceApply env resource w
      else (Value (Some (Errorf (''creating request for unimplimented resource type:''
                                  @ ToLower (Kind resource)))), w))"

definition applySwitch_files ::
  "'c env \<Rightarrow> object \<Rightarrow> 'c world \<Rightarrow> error option outcome \<times> 'c world" where
  "applySwitch_files env resource w =
     (if ToLower (Kind resource) = ''clusterrole''
      then clusterRoleApply env resource w
      else if ToLower (Kind resource) = ''clusterrolebinding''
      then clusterRoleBindingApply env resource w
      else if ToLower (Kind resource) = ''configmap''
      then configMapApply env resource w
      else if ToLower (Kind resource) = ''daemonset''
      then daemonSetApply env resource w
      else if ToLower (Kind resource) = ''deployment''
      then deploymentApply env resource w
      else if ToLower (Kind resource) = ''ingress''
      then ingressApply env resource w
      else if ToLower (Kind resource) = ''namespace''
      then nameSpaceApply env resource w
      else if ToLower (Kind resource) = ''role''
      then roleApply env resource w
      else if ToLower (Kind resource) = ''rolebinding''
      then roleBindingApply env resource w
      else if ToLower (Kind resource) = ''service''
      then serviceApply env resource w
      else if ToLower (Kind resource) = ''serviceaccount''
      then serviceAccountApply env resource w
      else if ToLower (Kind resource) = ''secret''
      then secretApply env resource w
      else if ToLower (Kind resource) = ''persistentvolumeclaim''
      then persistentVolumeClaimApply env resource w
      else (Value (Some (Errorf (''creating request for unimplimented resource type:''
                                  @ ToLower (Kind resource)))), w))"


definition deleteSwitch_files ::
  "'c env \<Rightarrow> object \<Rightarrow> 'c world \<Rightarrow> error option outcome \<times> 'c world" where
  "deleteSwitch_files env resource w =
     (if ToLower (Kind resource) = ''clusterrole''
      then clusterRoleDelete env resource w
      else if ToLower (Kind resource) = ''clusterrolebinding''
      then clusterRoleBindingDelete env resource w
      else if ToLower (Kind resource) = ''configmap''
      then configMapDelete env resource w
      else if ToLower (Kind resource) = ''daemonset''
      then daemonsetDelete env resource w
      else if ToLower (Kind resource) = ''deployment''
      then deploymentDelete env resource w
      else if ToLower (Kind resource) = ''ingress''
      then ingressDelete env resource w
      else if ToLower (Kind resource) = ''namespace''
      then namespaceDelete env resource w
      else if ToLower (Kind resource) = ''role''
      then roleDelete env resource w
      else if ToLower (Kind resource) = ''rolebinding''
      then roleBindingDelete env resource w
      else if ToLower (Kind resource) = ''service''
      then serviceDelete env resource w
      else if ToLower (Kind resource) = ''serviceaccount''
      then serviceAccountDelete env resource w
      else if ToLower (Kind resource) = ''secret''
      then secretDelete env resource w
      else if ToLower (Kind resource) = ''persistentvolumeclaim''
      then persistentVolumeClaimDelete env resource w
      else (Value (Some (Errorf (''deleting request for unimplimented resource type:''
                                  @ ToLower (Kind resource)))), w))"


section \<open>ResourceApply and ResourceDelete on decoded objects\<close>

text \<open>
  \<^verbatim>\<open>src/unnamed/part_001\<close>: the error of a handler is logged with the file name and
  the loop goes on to the next object; the function returns \<^verbatim>\<open>nil\<close>.
\<close>

definition logApplying :: "string \<Rightarrow> error option \<Rightarrow> 'c world \<Rightarrow> 'c world" where
  "logApplying file err w =
     (case err of None \<Rightarrow> w | Some e \<Rightarrow> emit (Printf (ErrorApplying file e)) w)"

definition logDeleting :: "string \<Rightarrow> error option \<Rightarrow> 'c world \<Rightarrow> 'c world" where
  "logDeleting file err w =
     (case err of None \<Rightarrow> w | Some e \<Rightarrow> emit (Printf (ErrorDeleting file e)) w)"

fun applyObjects ::
  "'c env \<Rightarrow> string \<Rightarrow> object list \<Rightarrow> 'c world \<Rightarrow> unit outcome \<times> 'c world" where
  "applyObjects env file [] w = (Value (), w)"
| "applyObjects env file (resource # rest) w =
     andThen (applySwitch env resource w)
       (\<lambda>err w'. applyObjects env file rest (logApplying file err w'))"

fun ResourceApply ::
  "'c env \<Rightarrow> Resource list \<Rightarrow> 'c world \<Rightarrow> error option outcome \<times> 'c world" where
  "ResourceApply env [] w = (Value None, w)"
| "ResourceApply env (deployment # deployments) w =
     andThen (applyObjects env (FileName deployment) (Objects deployment) w)
       (\<lambda>u w'. ResourceApply env deployments w')"




section \<open>Decoding the sections of a file\<close>

text \<open>
  The decoder (\<^verbatim>\<open>scheme.Codecs.UniversalDeserializer().Decode\<close>) is a parameter: it
  returns an error, no object (\<^verbatim>\<open>nil\<close>) or an object. The message of a decode error
  is built from \<^verbatim>\<open>text[:100]\<close>, a slice expression that panics when the section has
  fewer than 100 bytes.
\<close>

type_synonym decoder = "string \<Rightarrow> error + object option"

definition decodingError :: "error \<Rightarrow> string \<Rightarrow> string \<Rightarrow> error" where
  "decodingError err file text =
     Wrapf err (''decoding the resource file:'' @ file @ '', section:'' @ take 100 text
                @ ''...'')"

text \<open>
  Modelled from the spec: \<^verbatim>\<open>provider.Separator\<close> is a constant of package
  \<^verbatim>\<open>provider\<close>, which is not part of the sources; the spec (sections 3 and 4.3) gives
  the separator as the literal \<^verbatim>\<open>---\<close>, the value \<^verbatim>\<open>src/provider/k8s/k8s.go\<close> spells out.
\<close>

definition Separator :: string where
  "Separator = ''---''"

subsection \<open>DeploymentsParse of src/unnamed/part_001\<close>

text \<open>
  The inner loop collects the objects of one file. Its result is \<open>Inl err\<close> when the
  function returns the decode error and \<open>Inr k8sObjects\<close> when the loop has run through.
\<close>

fun decodeSections ::
  "decoder \<Rightarrow> string \<Rightarrow> string list \<Rightarrow> object list \<Rightarrow> (error + object list) outcome" where
  "decodeSections decode file [] k8sObjects = Value (Inr k8sObjects)"
| "decodeSections decode file (text # rest) k8sObjects =
     (if length (TrimSpace text) = 0 then decodeSections decode file rest k8sObjects
      else case decode (TrimSpace text) of
          Inl err \<Rightarrow>
            if length (TrimSpace text) < 100 then Panicked
            else Value (Inl (decodingError err file (TrimSpace text)))
        | Inr None \<Rightarrow> decodeSections decode file rest k8sObjects
        | Inr (Some resource) \<Rightarrow>
            decodeSections decode file rest (k8sObjects @ [resource]))"

text \<open>
  The outer loop appends to \<^verbatim>\<open>c.resources\<close>; the result is the returned error and the
  resources held when the function returns.
\<close>

fun parseFiles ::
  "decoder \<Rightarrow> ResourceFile list \<Rightarrow> Resource list \<Rightarrow> (error option \<times> Resource list) outcome"
  where
  "parseFiles decode [] resources = Value (None, resources)"
| "parseFiles decode (deployment # rest) resources =
     (case decodeSections decode (File deployment)
             (Split (Content deployment) Separator) [] of
        Panicked \<Rightarrow> Panicked
      | Exited \<Rightarrow> Exited
      | Value (Inl err) \<Rightarrow> Value (Some err, resources)
      | Value (Inr k8sObjects) \<Rightarrow>
          parseFiles decode rest
            (if length k8sObjects > 0
             then resources @ [\<lparr>FileName = File deployment, Objects = k8sObjects\<rparr>]
             else resources))"

text \<open>
  \<open>deploymentResource\<close> is what \<^verbatim>\<open>provider.DeploymentsParse\<close> (not part of the
  sources) returned for the files and variables of the command line.
\<close>

definition DeploymentsParse ::
  "decoder \<Rightarrow> error + ResourceFile list \<Rightarrow> Resource list \<Rightarrow> 'c world
     \<Rightarrow> (error option \<times> Resource list) outcome \<times> 'c world" where
  "DeploymentsParse decode deploymentResource resources w =
     (case deploymentResource of
        Inl err \<Rightarrow> (Exited, emit (Fatalf (CouldntParse err)) w)
      | Inr files \<Rightarrow> (parseFiles decode files resources, w))"

subsection \<open>ResourceApply and ResourceDelete of src/provider/k8s/k8s.go\<close>

text \<open>
  In this file the sections are decoded inside the apply and delete loops. The inner
  loop yields \<open>Some err\<close> when the function returns the decode error and \<open>None\<close> when
  all sections of the file have been handled.
\<close>

fun applySections ::
  "decoder \<Rightarrow> 'c env \<Rightarrow> string \<Rightarrow> string list \<Rightarrow> 'c world
     \<Rightarrow> error option outcome \<times> 'c world" where
  "applySections decode env file [] w = (Value None, w)"
| "applySections decode env file (text # rest) w =
     (if length (TrimSpace text) = 0 then applySections decode env file rest w
      else case decode (TrimSpace text) of
          Inl err \<Rightarrow>
            if length (TrimSpace text) < 100 then (Panicked, w)
            else (Value (Some (decodingError err file (TrimSpace text))), w)
        | Inr None \<Rightarrow> applySections decode env file rest w
        | Inr (Some resource) \<Rightarrow>
            andThen (applySwitch_files env resource w)
              (\<lambda>err w'. applySections decode env file rest (logApplying file err w')))"

fun ResourceApply_files ::
  "decoder \<Rightarrow> 'c env \<Rightarrow> ResourceFile list \<Rightarrow> 'c world
     \<Rightarrow> error option outcome \<times> 'c world" where
  "ResourceApply_files decode env [] w = (Value None, w)"
| "ResourceApply_files decode env (deployment # deployments) w =
     andThen (applySections decode env (File deployment)
                (Split (Content deployment) ''---'') w)
       (\<lambda>err w'. case err of
           Some e \<Rightarrow> (Value (Some e), w')
         | None \<Rightarrow> ResourceApply_files decode env deployments w')"

fun deleteSections ::
  "decoder \<Rightarrow> 'c env \<Rightarrow> string \<Rightarrow> string list \<Rightarrow> 'c world
     \<Rightarrow> error option outcome \<times> 'c world" where
  "deleteSections decode env file [] w = (Value None, w)"
| "deleteSections decode env file (text # rest) w =
     (if length (TrimSpace text) = 0 then deleteSections decode env file rest w
      else case decode (TrimSpace text) of
          Inl err \<Rightarrow>
            if length (TrimSpace text) < 100 then (Panicked, w)
            else (Value (Some (decodingError err file (TrimSpace text))), w)
        | Inr None \<Rightarrow> deleteSections decode env file rest w
        | Inr (Some resource) \<Rightarrow>
            andThen (deleteSwitch_files env resource w)
              (\<lambda>err w'. deleteSections decode env file rest (logDeleting file err w')))"

fun ResourceDelete_files ::
  "decoder \<Rightarrow> 'c env \<Rightarrow> ResourceFile list \<Rightarrow> 'c world
     \<Rightarrow> error option outcome \<times> 'c world" where
  "ResourceDelete_files decode env [] w = (Value None, w)"
| "ResourceDelete_files decode env (deployment # deployments) w =
     andThen (deleteSections decode env (File deployment)
                (Split (Content deployment) ''---'') w)
       (\<lambda>err w'. case err of
           Some e \<Rightarrow> (Value (Some e), w')
         | None \<Rightarrow> ResourceDelete_files decode env deployments w')"

text \<open>The command-line actions end the process when the error is not \<^verbatim>\<open>nil\<close>.\<close>

definition K8sResourceApply ::
  "decoder \<Rightarrow> 'c env \<Rightarrow> ResourceFile list \<Rightarrow> 'c world
     \<Rightarrow> error option outcome \<times> 'c world" where
  "K8sResourceApply decode env deploymentsContent w =
     andThen (ResourceApply_files decode env deploymentsContent w)
       (\<lambda>err w'. case err of
           Some e \<Rightarrow> (Exited, emit (Fatalf (ErrorWhileApplying e)) w')
         | None \<Rightarrow> (Value None, w'))"

definition K8sResourceDelete ::
  "decoder \<Rightarrow> 'c env \<Rightarrow> ResourceFile list \<Rightarrow> 'c world
     \<Rightarrow> error option outcome \<times> 'c world" where
  "K8sResourceDelete decode env deploymentsContent w =
     andThen (ResourceDelete_files decode env deploymentsContent w)
       (\<lambda>err w'. case err of
           Some e \<Rightarrow> (Exited, emit (Fatalf (ErrorWhileDeleting e)) w')
         | None \<Rightarrow> (Value None, w'))"


section \<open>Collecting and rendering the manifest files\<close>

text \<open>
  \<^verbatim>\<open>K8sClient.DeploymentsParse\<close> and \<^verbatim>\<open>applyTemplateVars\<close> of
  \<^verbatim>\<open>src/provider/k8s/k8s.go\<close>. The file system and the template engine
  (\<^verbatim>\<open>text/template\<close>) are parameters.
\<close>

subsection \<open>The file system\<close>

text \<open>
  \<open>Stat name\<close> is \<open>None\<close> when \<^verbatim>\<open>os.Stat\<close> fails and otherwise tells whether the
  path is a directory. \<open>Walk root\<close> is the sequence of paths that \<^verbatim>\<open>filepath.Walk\<close>
  hands to its callback, in the order of the calls. \<open>ReadFile\<close> is \<open>None\<close> when
  \<^verbatim>\<open>ioutil.ReadFile\<close> fails.
\<close>

record filesystem =
  Stat :: "string \<Rightarrow> bool option"
  Walk :: "string \<Rightarrow> string list"
  ReadFile :: "string \<Rightarrow> string option"

text \<open>
  The callback appends the paths with the extension \<^verbatim>\<open>.yaml\<close> or \<^verbatim>\<open>.yml\<close> and always
  returns \<^verbatim>\<open>nil\<close>, so \<^verbatim>\<open>filepath.Walk\<close> returns \<^verbatim>\<open>nil\<close> as well and the branch
  \<^verbatim>\<open>error reading directory\<close> is never taken.
\<close>

fun walkFn :: "string list \<Rightarrow> string list \<Rightarrow> string list" where
  "walkFn [] fileList = fileList"
| "walkFn (path # paths) fileList =
     walkFn paths
       (if Ext path = ''.yaml'' \<or> Ext path = ''.yml'' then fileList @ [path] else fileList)"

fun collectFiles :: "filesystem \<Rightarrow> string list \<Rightarrow> string list \<Rightarrow> string list" where
  "collectFiles fs [] fileList = fileList"
| "collectFiles fs (name # names) fileList =
     collectFiles fs names
       (if Stat fs name = Some True then walkFn (Walk fs name) fileList
        else fileList @ [name])"

subsection \<open>The template engine\<close>

text \<open>
  A template is created with an option for missing keys and a function map, parsed and
  executed on the variable bindings. \<open>'t\<close> is the type of parsed templates.
\<close>

datatype missingkey = MissingKeyDefault | MissingKeyZero | MissingKeyError

type_synonym funcmap = "(string \<times> (string \<Rightarrow> string)) list"

record 't engine =
  Parse :: "funcmap \<Rightarrow> string \<Rightarrow> error + 't"
  Execute :: "missingkey \<Rightarrow> funcmap \<Rightarrow> 't \<Rightarrow> (string \<rightharpoonup> string) \<Rightarrow> error + string"

definition normalise :: "string \<Rightarrow> string" where
  "normalise t = Replace t ''.'' ''-'' (- 1)"

definition templateFuncs :: funcmap where
  "templateFuncs = [(''normalise'', normalise)]"

text \<open>
  \<^verbatim>\<open>applyTemplateVars\<close>: a file that cannot be read and a template that fails to
  execute end the process (\<^verbatim>\<open>log.Fatalf\<close>); a template that fails to parse makes
  \<^verbatim>\<open>template.Must\<close> panic. The function has no other way to report an error: when it
  returns, the error is \<^verbatim>\<open>nil\<close>.
\<close>

definition applyTemplateVars ::
  "filesystem \<Rightarrow> 't engine \<Rightarrow> (string \<rightharpoonup> string) \<Rightarrow> string \<Rightarrow> 'c world
     \<Rightarrow> (string \<times> error option) outcome \<times> 'c world" where
  "applyTemplateVars fs eng DeploymentVars file w =
     (case ReadFile fs file of
        None \<Rightarrow> (Exited, emit (Fatalf (ErrorReadingFile file)) w)
      | Some content \<Rightarrow>
          (case Parse eng templateFuncs content of
             Inl err \<Rightarrow> (Panicked, w)
           | Inr t \<Rightarrow>
               (case Execute eng MissingKeyError templateFuncs t DeploymentVars of
                  Inl err \<Rightarrow> (Exited, emit (Fatalf (FailedToExecute file err)) w)
                | Inr fileContentParsed \<Rightarrow> (Value (fileContentParsed, None), w))))"

fun renderFiles ::
  "filesystem \<Rightarrow> 't engine \<Rightarrow> (string \<rightharpoonup> string) \<Rightarrow> string list \<Rightarrow> ResourceFile list
     \<Rightarrow> 'c world \<Rightarrow> (error option \<times> ResourceFile list) outcome \<times> 'c world" where
  "renderFiles fs eng vars [] deploymentsContent w = (Value (None, deploymentsContent), w)"
| "renderFiles fs eng vars (name # names) deploymentsContent w =
     andThen (applyTemplateVars fs eng vars name w)
       (\<lambda>r w'. case r of
           (content, Some err) \<Rightarrow>
             (Value (Some (Wrapf err (''couldn'' @ [CHR 0x27] @ ''t apply template to file ''
                                       @ name)), deploymentsContent), w')
         | (content, None) \<Rightarrow>
             renderFiles fs eng vars names
               (deploymentsContent @ [\<lparr>File = name, Content = content\<rparr>]) w')"

text \<open>
  The client holds the files and variables of the command line and the rendered
  content; the result is the returned error and the content held on return.
\<close>

definition K8sClient_DeploymentsParse ::
  "filesystem \<Rightarrow> 't engine \<Rightarrow> string list \<Rightarrow> (string \<rightharpoonup> string) \<Rightarrow> ResourceFile list
     \<Rightarrow> 'c world \<Rightarrow> (error option \<times> ResourceFile list) outcome \<times> 'c world" where
  "K8sClient_DeploymentsParse fs eng DeploymentFiles DeploymentVars deploymentsContent w =
     renderFiles fs eng DeploymentVars (collectFiles fs DeploymentFiles [])
       deploymentsContent w"

section \<open>A reference cluster\<close>

text \<open>
  A cluster that stores what it is given and answers every request according to its
  content: the items of a collection are listed in the order of their creation, a
  create of a present name and an update, get or delete of an absent name are refused.
  \<open>observe\<close> gives the state that a \<^verbatim>\<open>Get\<close> reports for a stored object.
\<close>

type_synonym store = "(collection \<times> string option \<times> object) list"

definition itemsOf :: "store \<Rightarrow> collection \<Rightarrow> string option \<Rightarrow> object list" where
  "itemsOf c coll ns =
     map (\<lambda>(k, n, item). item) (filter (\<lambda>(k, n, item). k = coll \<and> n = ns) c)"

definition stored :: "store \<Rightarrow> collection \<Rightarrow> string option \<Rightarrow> string \<Rightarrow> bool" where
  "stored c coll ns name = list_ex (\<lambda>(k, n, item). k = coll \<and> n = ns \<and> Name item = name) c"

definition store_env :: "(object \<Rightarrow> remote) \<Rightarrow> nat \<Rightarrow> store env" where
  "store_env observe retries =
     \<lparr>apiList = (\<lambda>coll ns c. (Inr (map Name (itemsOf c coll ns)), c)),
      apiGet = (\<lambda>coll ns name c.
         (case find (\<lambda>item. Name item = name) (itemsOf c coll ns) of
            None \<Rightarrow> Inl NotFound
          | Some item \<Rightarrow> Inr (observe item), c)),
      apiCreate = (\<lambda>coll ns req c.
         if stored c coll ns (Name req) then (Some AlreadyExists, c)
         else (None, c @ [(coll, ns, req)])),
      apiUpdate = (\<lambda>coll ns req c.
         if stored c coll ns (Name req)
         then (None, map (\<lambda>(k, n, item).
                       if k = coll \<and> n = ns \<and> Name item = Name req then (k, n, req)
                       else (k, n, item)) c)
         else (Some NotFound, c)),
      apiDelete = (\<lambda>coll ns name pol c.
         if stored c coll ns name
         then (None, filter (\<lambda>(k, n, item). \<not> (k = coll \<and> n = ns \<and> Name item = name)) c)
         else (Some NotFound, c)),
      GlobalRetryCount = retries\<rparr>"

text \<open>
  A cluster in which a deleted namespace lingers: the state counts the \<^verbatim>\<open>Get\<close>
  requests, the first \<open>lag\<close> of them still find the namespace, the later ones answer
  \<open>gone\<close>. Every delete is accepted.
\<close>

definition emptyRemote :: remote where
  "emptyRemote = \<lparr>SpecType = [], SpecPorts = [], LoadBalancerIngress = [],
                   AvailableReplicas = 0, NumberUnavailable = 0\<rparr>"

definition lingering_env :: "nat \<Rightarrow> api_error \<Rightarrow> nat \<Rightarrow> nat env" where
  "lingering_env lag gone retries =
     \<lparr>apiList = (\<lambda>coll ns c. (Inr [], c)),
      apiGet = (\<lambda>coll ns name c. (if c < lag then Inr emptyRemote else Inl gone, Suc c)),
      apiCreate = (\<lambda>coll ns req c. (None, c)),
      apiUpdate = (\<lambda>coll ns req c. (None, c)),
      apiDelete = (\<lambda>coll ns name pol c. (None, c)),
      GlobalRetryCount = retries\<rparr>"

subsection \<open>Sample objects\<close>

definition object_of :: "gotype \<Rightarrow> string \<Rightarrow> string \<Rightarrow> string \<Rightarrow> string \<Rightarrow> object" where
  "object_of T kind version ns name =
     \<lparr>GoType = T, Kind = kind, Version = version, Namespace = ns, Name = name,
      Replicas = None\<rparr>"

definition bench_namespace :: object where
  "bench_namespace = object_of apiCoreV1_Namespace ''Namespace'' ''v1'' [] ''bench-42''"

definition loadgen :: object where
  "loadgen = (object_of appsV1_Deployment ''Deployment'' ''v1'' ''bench-42'' ''loadgen'')
               \<lparr>Replicas := Some 3\<rparr>"

definition node_exporter :: object where
  "node_exporter =
     object_of appsV1_DaemonSet ''DaemonSet'' ''v1'' ''bench-42'' ''node-exporter''"

definition settings :: object where
  "settings = object_of apiCoreV1_ConfigMap ''ConfigMap'' ''v1'' [] ''settings''"

definition pod_metrics :: object where
  "pod_metrics = object_of other_type ''PodMetrics'' ''v1beta1'' ''bench-42'' ''usage''"

definition world0 :: "'c \<Rightarrow> 'c world" where
  "world0 c = \<lparr>cluster = c, trace = []\<rparr>"


definition reporting :: "32 word \<Rightarrow> 32 word \<Rightarrow> object \<Rightarrow> remote" where
  "reporting available unavailable item =
     emptyRemote\<lparr>AvailableReplicas := available, NumberUnavailable := unavailable\<rparr>"


subsection \<open>Sample files and a sample decoder\<close>

definition malformed_section :: string where
  "malformed_section =
     ''apiVersion: v1 kind Namespace metadata name bench-42 labels purpose benchmark of pull request forty-two, malformed''"

text \<open>
  The theorems hold for every decoder. \<open>sample_decode\<close> is a sample value of that
  parameter, used where they are instantiated: it reads three abbreviated manifests,
  which stand for complete ones, skips a comment and refuses every other text.
\<close>

definition sample_decode :: decoder where
  "sample_decode text =
     (if text = ''kind: Namespace'' then Inr (Some bench_namespace)
      else if text = ''kind: ConfigMap'' then Inr (Some settings)
      else if text = ''kind: PodMetrics'' then Inr (Some pod_metrics)
      else if text = ''#'' then Inr None
      else Inl (DecodeError text))"

definition short_broken_file :: ResourceFile where
  "short_broken_file =
     \<lparr>File = ''1a_namespace.yaml'',
      Content = ''kind: Namespace'' @ [CHR 0x0A] @ ''---'' @ [CHR 0x0A] @ ''kind Bogus''
                @ [CHR 0x0A]\<rparr>"

definition long_broken_file :: ResourceFile where
  "long_broken_file =
     \<lparr>File = ''1a_namespace.yaml'',
      Content = [CHR 0x0A] @ ''---'' @ [CHR 0x0A] @ malformed_section @ [CHR 0x0A] @ ''---''
                @ [CHR 0x0A] @ ''kind: Namespace''\<rparr>"

definition good_file :: ResourceFile where
  "good_file =
     \<lparr>File = ''2_settings.yaml'', Content = ''kind: ConfigMap'' @ [CHR 0x0A]\<rparr>"



definition unimplementedApply :: "string \<Rightarrow> error" where
  "unimplementedApply kind = Errorf (''creating request for unimplimented resource type:'' @ kind)"

definition unimplementedDelete :: "string \<Rightarrow> error" where
  "unimplementedDelete kind = Errorf (''deleting request for unimplimented resource type:'' @ kind)"

text \<open>The log lines that report a kind without a handler.\<close>

fun dispatchError :: "event \<Rightarrow> bool" where
  "dispatchError (Printf (ErrorApplying file (Errorf m))) =
     prefix ''creating request for unimplimented resource type:'' m"
| "dispatchError (Printf (ErrorDeleting file (Errorf m))) =
     prefix ''deleting request for unimplimented resource type:'' m"
| "dispatchError e = False"


subsection \<open>Properties of traces\<close>

text \<open>\<open>extends P w w'\<close>: the trace of \<open>w'\<close> is the trace of \<open>w\<close> followed by events that satisfy \<open>P\<close>.\<close>

definition extends :: "(event \<Rightarrow> bool) \<Rightarrow> 'c world \<Rightarrow> 'c world \<Rightarrow> bool" where
  "extends P w w' = (\<exists>evs. trace w' = trace w @ evs \<and> list_all P evs)"

text \<open>The events of a handler: requests and the lines that are not error reports.\<close>

fun handlerEvent :: "event \<Rightarrow> bool" where
  "handlerEvent (Request r) = True"
| "handlerEvent (Printf (ErrorApplying file e)) = False"
| "handlerEvent (Printf (ErrorDeleting file e)) = False"
| "handlerEvent (Printf l) = True"
| "handlerEvent (Fatalf f) = False"

text \<open>The errors a handler returns: wrapped errors, time-outs and unknown versions.\<close>

fun handlerError :: "error \<Rightarrow> bool" where
  "handlerError (Wrapf e m) = True"
| "handlerError (TimeoutError name n) = True"
| "handlerError (Errorf m) = prefix ''unknown object version: '' m"
| "handlerError e = False"





subsection \<open>The answers to successive Get requests for a namespace\<close>

text \<open>
  \<open>afterGets env name i c\<close> is the cluster state after \<open>i\<close> \<^verbatim>\<open>Get\<close> requests for the
  namespace \<open>name\<close>, issued one after the other from the state \<open>c\<close>; \<open>answer env name c i\<close>
  is the answer to the next one.
\<close>

fun afterGets :: "'c env \<Rightarrow> string \<Rightarrow> nat \<Rightarrow> 'c \<Rightarrow> 'c" where
  "afterGets env name 0 c = c"
| "afterGets env name (Suc i) c =
     afterGets env name i (snd (apiGet env Namespaces None name c))"

definition answer :: "'c env \<Rightarrow> string \<Rightarrow> 'c \<Rightarrow> nat \<Rightarrow> api_error + remote" where
  "answer env name c i = fst (apiGet env Namespaces None name (afterGets env name i c))"

definition couldntGetNamespace :: "string \<Rightarrow> string" where
  "couldntGetNamespace name =
     ''Couldn'' @ [CHR 0x27] @ ''t get namespace '' @ [CHR 0x27] @ name @ [CHR 0x27]
     @ '' err:''"


fun isGet :: "event \<Rightarrow> bool" where
  "isGet (Request (GetReq coll ns name)) = True"
| "isGet e = False"


subsection \<open>A sample file system and a sample template engine\<close>

definition sample_fs :: filesystem where
  "sample_fs =
     \<lparr>Stat = (\<lambda>name. if name = ''manifests'' then Some True
                      else if name = ''extra.txt'' then Some False
                      else None),
      Walk = (\<lambda>root. if root = ''manifests''
                      then [''manifests'', ''manifests/1a_namespace.yaml'',
                            ''manifests/README.md'', ''manifests/sub.yml'',
                            ''manifests/sub.yml/2_loadgen.yml'']
                      else []),
      ReadFile = (\<lambda>name. if name = ''manifests/1a_namespace.yaml''
                          then Some ''name: bench-{{ .PR_NUMBER }}''
                          else if name = ''extra.txt'' then Some ''kind: ConfigMap''
                          else None)\<rparr>"

text \<open>
  The sample engine knows two texts. A parsed template is a list of literal segments
  and variable references; a reference to an unbound variable is an error under
  \<open>MissingKeyError\<close> and prints \<^verbatim>\<open><no value>\<close> otherwise.
\<close>

datatype segment = Lit string | Var string

fun render :: "missingkey \<Rightarrow> (string \<rightharpoonup> string) \<Rightarrow> segment list \<Rightarrow> error + string" where
  "render opt vars [] = Inr []"
| "render opt vars (Lit s # rest) =
     (case render opt vars rest of Inl err \<Rightarrow> Inl err | Inr out \<Rightarrow> Inr (s @ out))"
| "render opt vars (Var k # rest) =
     (case vars k of
        None \<Rightarrow>
          if opt = MissingKeyError then Inl (Errorf (''map has no entry for key '' @ k))
          else (case render opt vars rest of
                  Inl err \<Rightarrow> Inl err | Inr out \<Rightarrow> Inr (''<no value>'' @ out))
      | Some v \<Rightarrow>
          (case render opt vars rest of Inl err \<Rightarrow> Inl err | Inr out \<Rightarrow> Inr (v @ out)))"

definition sample_engine :: "segment list engine" where
  "sample_engine =
     \<lparr>Parse = (\<lambda>funcs content.
         if content = ''name: bench-{{ .PR_NUMBER }}''
         then Inr [Lit ''name: bench-'', Var ''PR_NUMBER'']
         else Inr [Lit content]),
      Execute = (\<lambda>opt funcs t vars. render opt vars t)\<rparr>"

fun variables :: "segment list \<Rightarrow> string set" where
  "variables [] = {}"
| "variables (Lit s # rest) = variables rest"
| "variables (Var k # rest) = insert k (variables rest)"

subsection \<open>The contract of the option missingkey=error\<close>

text \<open>
  \<^verbatim>\<open>text/template\<close> documents the option \<^verbatim>\<open>missingkey=error\<close> as "execution stops
  immediately with an error" when a map is indexed with a key that it does not hold.
  \<open>honoursMissingKey eng placeholders\<close> states this of an engine, where \<open>placeholders t\<close>
  are the names that the template \<open>t\<close> looks up in the bindings.
\<close>

definition honoursMissingKey :: "'t engine \<Rightarrow> ('t \<Rightarrow> string set) \<Rightarrow> bool" where
  "honoursMissingKey eng placeholders =
     (\<forall>funcs t vars. (\<exists>k \<in> placeholders t. vars k = None)
        \<longrightarrow> isl (Execute eng MissingKeyError funcs t vars))"

fun isRequest :: "event \<Rightarrow> bool" where
  "isRequest (Request r) = True"
| "isRequest e = False"

definition yamlPaths :: "string list \<Rightarrow> string list" where
  "yamlPaths paths = filter (\<lambda>path. Ext path = ''.yaml'' \<or> Ext path = ''.yml'') paths"


definition bench_cluster :: store where
  "bench_cluster = [(Namespaces, None, bench_namespace)]"


subsection \<open>The client each apply handler addresses\<close>

text \<open>
  For every case of the \<^verbatim>\<open>switch\<close> in \<^verbatim>\<open>ResourceApply\<close>: the Go type the handler
  asserts, the collection of the client it lists, updates and creates through, whether
  the handler writes the default namespace into the object, whether the client is bound
  to the namespace of the object, and the version of the one case of its inner
  \<^verbatim>\<open>switch\<close>.
\<close>

definition clients :: "(string \<times> gotype \<times> collection \<times> bool \<times> bool \<times> string) list" where
  "clients =
     [(''clusterrole'', rbac_ClusterRole, ClusterRoles, False, False, ''v1''),
      (''clusterrolebinding'', rbac_ClusterRoleBinding, ClusterRoleBindings, False, False,
         ''v1''),
      (''configmap'', apiCoreV1_ConfigMap, ConfigMaps, True, True, ''v1''),
      (''daemonset'', appsV1_DaemonSet, DaemonSets, True, True, ''v1''),
      (''deployment'', appsV1_Deployment, Deployments, True, True, ''v1''),
      (''ingress'', apiExtensionsV1beta1_Ingress, Ingresses, True, True, ''v1beta1''),
      (''namespace'', apiCoreV1_Namespace, Namespaces, False, False, ''v1''),
      (''role'', rbac_Role, Roles, True, True, ''v1''),
      (''rolebinding'', rbac_RoleBinding, RoleBindings, True, True, ''v1''),
      (''service'', apiCoreV1_Service, Services, True, True, ''v1''),
      (''serviceaccount'', apiCoreV1_ServiceAccount, ServiceAccounts, True, True, ''v1''),
      (''secret'', apiCoreV1_Secret, Secrets, True, True, ''v1''),
      (''persistentvolumeclaim'', apiCoreV1_PersistentVolumeClaim, PersistentVolumeClaims,
         True, True, ''v1''),
      (''customresourcedefinition'', apiServerExtensionsV1beta1_CustomResourceDefinition,
         CustomResourceDefinitions, True, False, ''v1beta1'')]"

text \<open>
  The collection, the namespace and the object that the handler of a resource sends to
  the cluster; \<open>None\<close> for a resource whose kind has no handler, whose Go type is not
  the one its handler asserts or whose version its handler does not know.
\<close>

definition target :: "object \<Rightarrow> (collection \<times> string option \<times> object) option" where
  "target r =
     (case map_of clients (ToLower (Kind r)) of
        None \<Rightarrow> None
      | Some (T, coll, defaults, namespaced, version) \<Rightarrow>
          if GoType r = T \<and> Version r = version
          then Some (coll,
                     if namespaced
                     then Some (Namespace (if defaults then defaultNamespace r else r))
                     else None,
                     if defaults then defaultNamespace r else r)
          else None)"

definition entryKey ::
  "collection \<times> string option \<times> object \<Rightarrow> collection \<times> string option \<times> string" where
  "entryKey e = (case e of (coll, ns, item) \<Rightarrow> (coll, ns, Name item))"

text \<open>
  The events of the create-or-update protocol: the list, create and update requests and
  the two lines that report the outcome.
\<close>

fun protocol :: "event \<Rightarrow> bool" where
  "protocol (Request (ListReq coll ns)) = True"
| "protocol (Request (CreateReq coll ns req)) = True"
| "protocol (Request (UpdateReq coll ns req)) = True"
| "protocol (Printf (ResourceCreated kind name)) = True"
| "protocol (Printf (ResourceUpdated kind name)) = True"
| "protocol e = False"

definition creating :: "object \<Rightarrow> event list" where
  "creating r =
     (case target r of
        None \<Rightarrow> []
      | Some (coll, ns, req) \<Rightarrow>
          [Request (ListReq coll ns), Request (CreateReq coll ns req),
           Printf (ResourceCreated (Kind r) (Name r))])"

definition updating :: "object \<Rightarrow> event list" where
  "updating r =
     (case target r of
        None \<Rightarrow> []
      | Some (coll, ns, req) \<Rightarrow>
          [Request (ListReq coll ns), Request (UpdateReq coll ns req),
           Printf (ResourceUpdated (Kind r) (Name r))])"

text \<open>
  \<open>unchanged w w'\<close>: from \<open>w\<close> to \<open>w'\<close> the cluster is the same and no event of the
  protocol was added.
\<close>

definition unchanged :: "'c world \<Rightarrow> 'c world \<Rightarrow> bool" where
  "unchanged w w' =
     (cluster w' = cluster w \<and> filter protocol (trace w') = filter protocol (trace w))"

text \<open>
  \<^verbatim>\<open>serviceExists\<close> reads \<^verbatim>\<open>res.Spec.Ports[0]\<close> of a load balancer that has an ingress
  address. \<open>hasPort\<close> holds of the states for which this index is in range.
\<close>

definition hasPort :: "remote \<Rightarrow> bool" where
  "hasPort res =
     (\<not> (SpecType res = ''LoadBalancer'' \<and> length (LoadBalancerIngress res) > 0
         \<and> SpecPorts res = []))"

definition bench_batch :: "Resource list" where
  "bench_batch =
     [\<lparr>FileName = ''1a_namespace.yaml'', Objects = [bench_namespace, settings]\<rparr>,
      \<lparr>FileName = ''2_loadgen.yaml'', Objects = [loadgen, node_exporter]\<rparr>]"


text \<open>
  A cluster under contention: it lists one daemonset, \<^verbatim>\<open>node-exporter\<close>, and answers
  the first \<open>busy\<close> update requests with a conflict; the state counts the update
  requests.
\<close>

definition contended_env :: "nat \<Rightarrow> nat env" where
  "contended_env busy =
     \<lparr>apiList = (\<lambda>coll ns c. (Inr [''node-exporter''], c)),
      apiGet = (\<lambda>coll ns name c. (Inr emptyRemote, c)),
      apiCreate = (\<lambda>coll ns req c. (Some AlreadyExists, c)),
      apiUpdate = (\<lambda>coll ns req c. (if c < busy then Some Conflict else None, Suc c)),
      apiDelete = (\<lambda>coll ns name pol c. (None, c)),
      GlobalRetryCount = 5\<rparr>"


subsection \<open>What a run sends and logs for each resource\<close>




text \<open>
  The list request that the apply handler of a resource sends and the delete request
  that its delete handler sends; none for a resource without a target.
\<close>

definition listing :: "object \<Rightarrow> event list" where
  "listing x =
     (case target x of
        None \<Rightarrow> []
      | Some (coll, ns, req) \<Rightarrow> [Request (ListReq coll ns)])"

definition deleting :: "object \<Rightarrow> event list" where
  "deleting x =
     (case target x of
        None \<Rightarrow> []
      | Some (coll, ns, req) \<Rightarrow> [Request (DeleteReq coll ns (Name x) Foreground)])"






section \<open>Properties\<close>

subsection \<open>The template helper\<close>

lemma replace_from_dots:
  "n < 0 \<Longrightarrow>
   replace_from ''.'' ''-'' n s = map (\<lambda>c. if c = CHR ''.'' then CHR ''-'' else c) s"
  by (induction s arbitrary: n) auto

text \<open>
  Claim C9. The helper registered for templates (under the name \<^verbatim>\<open>normalise\<close>) replaces
  every dot of its argument by a dash and keeps every other character: it maps the
  string characterwise, it is the identity on strings without a dot, and it maps
  \<^verbatim>\<open>a.b.c\<close> to \<^verbatim>\<open>a-b-c\<close>.
\<close>

theorem normalise_replaces_dots:
  "normalise x = map (\<lambda>c. if c = CHR ''.'' then CHR ''-'' else c) x
   \<and> (CHR ''.'' \<notin> set x \<longrightarrow> normalise x = x)
   \<and> normalise ''a.b.c'' = ''a-b-c''"
proof -
  have m: "normalise y = map (\<lambda>c. if c = CHR ''.'' then CHR ''-'' else c) y" for y
    by (simp add: normalise_def Replace_def replace_from_dots)
  have "CHR ''.'' \<notin> set x \<Longrightarrow> map (\<lambda>c. if c = CHR ''.'' then CHR ''-'' else c) x = x"
    by (induction x) auto
  with m show ?thesis by simp
qed

theorem normalise_replaces_dots_witness:
  "CHR ''.'' \<notin> set ''bench-42'' \<and> normalise ''bench-42'' = ''bench-42''
   \<and> normalise ''v2.11.0'' = ''v2-11-0''"
  using normalise_replaces_dots [of "''bench-42''"] normalise_replaces_dots [of "''v2.11.0''"]
  by simp

subsection \<open>Readiness of a deployment\<close>

text \<open>
  Claim C6. For a deployment object of version \<^verbatim>\<open>v1\<close> whose \<^verbatim>\<open>Get\<close> succeeds, the
  readiness predicate returns no error and the truth value of "the available replicas
  reported by the cluster equal the desired replicas", where the desired number is 1
  when the object leaves \<^verbatim>\<open>Spec.Replicas\<close> unset. With three desired replicas it
  returns true exactly when three replicas are available, and false whenever fewer than
  three are.
\<close>

theorem deploymentReady_available_equals_desired:
  assumes "GoType resource = appsV1_Deployment" and "Version resource = ''v1''"
    and "apiGet env Deployments (Some (Namespace (defaultNamespace resource))) (Name resource)
           (cluster w) = (Inr res, c)"
  shows "fst (deploymentReady env resource w)
           = Value (AvailableReplicas res
                      = (case Replicas resource of None \<Rightarrow> 1 | Some replicas \<Rightarrow> replicas),
                    None)
         \<and> (Replicas resource = Some 3 \<longrightarrow>
              (fst (deploymentReady env resource w) = Value (True, None))
                = (AvailableReplicas res = 3))
         \<and> (Replicas resource = Some 3 \<and> sint (AvailableReplicas res) < 3 \<longrightarrow>
              fst (deploymentReady env resource w) = Value (False, None))"
  using assms by (auto simp: deploymentReady_def clientGet_def)

theorem deploymentReady_available_equals_desired_witness:
  "fst (deploymentReady (store_env (reporting 2 0) 5) loadgen
          (world0 [(Deployments, Some ''bench-42'', loadgen)])) = Value (False, None)
   \<and> fst (deploymentReady (store_env (reporting 3 0) 5) loadgen
          (world0 [(Deployments, Some ''bench-42'', loadgen)])) = Value (True, None)"
proof -
  let ?c = "[(Deployments, Some ''bench-42'', loadgen)]"
  have t: "GoType loadgen = appsV1_Deployment" and v: "Version loadgen = ''v1''"
    and r: "Replicas loadgen = Some 3"
    by (simp_all add: loadgen_def object_of_def)
  have g: "apiGet (store_env (reporting a 0) 5) Deployments
             (Some (Namespace (defaultNamespace loadgen))) (Name loadgen) (cluster (world0 ?c))
           = (Inr (reporting a 0 loadgen), ?c)" for a
    by (simp add: store_env_def itemsOf_def world0_def defaultNamespace_def loadgen_def
          object_of_def)
  have two: "sint (AvailableReplicas (reporting 2 0 loadgen)) < 3"
    and three: "AvailableReplicas (reporting 3 0 loadgen) = 3"
    by (simp_all add: reporting_def emptyRemote_def)
  from deploymentReady_available_equals_desired [OF t v g [of 2]] r two
  have "fst (deploymentReady (store_env (reporting 2 0) 5) loadgen (world0 ?c))
          = Value (False, None)"
    by blast
  moreover from deploymentReady_available_equals_desired [OF t v g [of 3]] r three
  have "fst (deploymentReady (store_env (reporting 3 0) 5) loadgen (world0 ?c))
          = Value (True, None)"
    by blast
  ultimately show ?thesis by simp
qed

subsection \<open>The section loops, section by section\<close>

lemma applySections_append:
  "applySections decode env file (pre @ post) w =
     andThen (applySections decode env file pre w)
       (\<lambda>err w'. case err of Some e \<Rightarrow> (Value (Some e), w')
                   | None \<Rightarrow> applySections decode env file post w')"
proof (induction pre arbitrary: w)
  case Nil
  show ?case by (simp add: andThen_def)
next
  case (Cons s pre)
  show ?case
    by (simp add: Cons.IH andThen_def split: sum.splits option.splits prod.splits outcome.splits)
qed

lemma deleteSections_append:
  "deleteSections decode env file (pre @ post) w =
     andThen (deleteSections decode env file pre w)
       (\<lambda>err w'. case err of Some e \<Rightarrow> (Value (Some e), w')
                   | None \<Rightarrow> deleteSections decode env file post w')"
proof (induction pre arbitrary: w)
  case Nil
  show ?case by (simp add: andThen_def)
next
  case (Cons s pre)
  show ?case
    by (simp add: Cons.IH andThen_def split: sum.splits option.splits prod.splits outcome.splits)
qed

lemma decodeSections_append:
  "decodeSections decode file (pre @ post) objs =
     (case decodeSections decode file pre objs of
        Value (Inr objs') \<Rightarrow> decodeSections decode file post objs'
      | r \<Rightarrow> r)"
  by (induction pre arbitrary: objs) (simp_all split: sum.splits option.splits outcome.splits)

text \<open>
  Claim C10. A non-empty section of fewer than 100 bytes (after trimming) that fails to
  decode makes the function panic: whenever the sections before it in the file have been
  handled, \<^verbatim>\<open>ResourceApply\<close> and \<^verbatim>\<open>ResourceDelete\<close> of
  \<^verbatim>\<open>src/provider/k8s/k8s.go\<close> and \<^verbatim>\<open>DeploymentsParse\<close> of the later revision end in
  a panic, not in the wrapped decode error.
\<close>

theorem short_undecodable_section_panics:
  assumes "0 < length (TrimSpace sect)" and "length (TrimSpace sect) < 100"
    and "decode (TrimSpace sect) = Inl err"
    and "Split (Content deployment) ''---'' = pre @ sect # post"
  shows "(applySections decode env (File deployment) pre w = (Value None, w') \<longrightarrow>
            ResourceApply_files decode env (deployment # deployments) w = (Panicked, w'))
       \<and> (deleteSections decode env (File deployment) pre w = (Value None, w') \<longrightarrow>
            ResourceDelete_files decode env (deployment # deployments) w = (Panicked, w'))
       \<and> (decodeSections decode (File deployment) pre [] = Value (Inr objs) \<longrightarrow>
            parseFiles decode (deployment # deployments) resources = Panicked)"
  using assms
  by (simp add: applySections_append deleteSections_append decodeSections_append andThen_def
        Separator_def)

lemmas sample_defs = sample_decode_def bench_namespace_def settings_def pod_metrics_def
  object_of_def world0_def

lemmas store_defs = store_env_def itemsOf_def stored_def clientList_def clientGet_def
  clientCreate_def clientUpdate_def clientDelete_def emit_def

lemma split_short_broken_file:
  "Split (Content short_broken_file) ''---''
     = [''kind: Namespace'' @ [CHR 0x0A]] @ ([CHR 0x0A] @ ''kind Bogus'' @ [CHR 0x0A]) # []"
  by (simp add: short_broken_file_def Split_def)

lemma trim_bogus: "TrimSpace ([CHR 0x0A] @ ''kind Bogus'' @ [CHR 0x0A]) = ''kind Bogus''"
  by (simp add: TrimSpace_def spaceRunes_def)

lemma trim_namespace: "TrimSpace (''kind: Namespace'' @ [CHR 0x0A]) = ''kind: Namespace''"
  by (simp add: TrimSpace_def spaceRunes_def)

lemma apply_namespace_section:
  "applySections sample_decode (store_env (reporting 0 0) 5) ''1a_namespace.yaml''
     [''kind: Namespace'' @ [CHR 0x0A]] (world0 [])
   = (Value None,
      \<lparr>cluster = [(Namespaces, None, bench_namespace)],
       trace = [Request (ListReq Namespaces None),
                Request (CreateReq Namespaces None bench_namespace),
                Printf (ResourceCreated ''Namespace'' ''bench-42'')]\<rparr>)"
  using trim_namespace
  by (simp add: sample_defs store_defs applySwitch_files_def ToLower_def toLowerByte_def
        nameSpaceApply_def returnNil_def applyResource_def createOrUpdate_def andThen_def
        logApplying_def)

lemma delete_namespace_section:
  "deleteSections sample_decode (store_env (reporting 0 0) 5) ''1a_namespace.yaml''
     [''kind: Namespace'' @ [CHR 0x0A]] (world0 [])
   = (Value None,
      \<lparr>cluster = [],
       trace = [Request (DeleteReq Namespaces None ''bench-42'' Foreground),
                Printf (ErrorDeleting ''1a_namespace.yaml''
                  (Wrapf (ApiError NotFound)
                     ''resource delete failed - kind: Namespace, name: bench-42''))]\<rparr>)"
  using trim_namespace
  by (simp add: sample_defs store_defs deleteSwitch_files_def ToLower_def toLowerByte_def
        namespaceDelete_def deleteResource_def andThen_def logDeleting_def)

lemma decode_namespace_section:
  "decodeSections sample_decode ''1a_namespace.yaml'' [''kind: Namespace'' @ [CHR 0x0A]] []
   = Value (Inr [bench_namespace])"
  using trim_namespace by (simp add: sample_decode_def)

theorem short_undecodable_section_panics_witness:
  "ResourceApply_files sample_decode (store_env (reporting 0 0) 5)
     [short_broken_file, good_file] (world0 [])
   = (Panicked,
      \<lparr>cluster = [(Namespaces, None, bench_namespace)],
       trace = [Request (ListReq Namespaces None),
                Request (CreateReq Namespaces None bench_namespace),
                Printf (ResourceCreated ''Namespace'' ''bench-42'')]\<rparr>)
   \<and> fst (ResourceDelete_files sample_decode (store_env (reporting 0 0) 5)
            [short_broken_file, good_file] (world0 [])) = Panicked
   \<and> parseFiles sample_decode [short_broken_file, good_file] [] = Panicked"
proof -
  let ?bogus = "[CHR 0x0A] @ ''kind Bogus'' @ [CHR 0x0A]"
  let ?env = "store_env (reporting 0 0) 5"
  have len: "0 < length (TrimSpace ?bogus)" "length (TrimSpace ?bogus) < 100"
    using trim_bogus by simp_all
  have dec: "sample_decode (TrimSpace ?bogus) = Inl (DecodeError ''kind Bogus'')"
    using trim_bogus by (simp add: sample_decode_def)
  have name: "File short_broken_file = ''1a_namespace.yaml''"
    by (simp add: short_broken_file_def)
  from short_undecodable_section_panics
         [where decode = sample_decode and sect = ?bogus and env = ?env and w = "world0 []"
            and deployment = short_broken_file and pre = "[''kind: Namespace'' @ [CHR 0x0A]]"
            and post = "[]", OF len dec split_short_broken_file]
    apply_namespace_section delete_namespace_section decode_namespace_section
  show ?thesis by (simp add: name)
qed

subsection \<open>A decode failure ends the run\<close>

lemma split_long_broken_file:
  "Split (Content long_broken_file) ''---''
     = [[CHR 0x0A]] @ ([CHR 0x0A] @ malformed_section @ [CHR 0x0A])
         # [[CHR 0x0A] @ ''kind: Namespace'']"
  by (simp add: long_broken_file_def Split_def malformed_section_def)

lemma trim_malformed:
  "TrimSpace ([CHR 0x0A] @ malformed_section @ [CHR 0x0A]) = malformed_section"
  by (simp add: TrimSpace_def spaceRunes_def malformed_section_def)

lemma length_malformed: "length malformed_section = 114"
  by (simp add: malformed_section_def)

lemma decode_malformed: "sample_decode malformed_section = Inl (DecodeError malformed_section)"
  by (simp add: sample_decode_def malformed_section_def)

lemma trim_newline: "TrimSpace [CHR 0x0A] = []"
  by (simp add: TrimSpace_def spaceRunes_def)

lemma split_good_file: "Split (Content good_file) ''---'' = [''kind: ConfigMap'' @ [CHR 0x0A]]"
  by (simp add: good_file_def Split_def)

lemma file_good_file: "File good_file = ''2_settings.yaml''"
  by (simp add: good_file_def)

lemma trim_configmap: "TrimSpace (''kind: ConfigMap'' @ [CHR 0x0A]) = ''kind: ConfigMap''"
  by (simp add: TrimSpace_def spaceRunes_def)

lemma apply_good_file:
  "ResourceApply_files sample_decode (store_env (reporting 0 0) 5) [good_file] (world0 [])
   = (Value None,
      \<lparr>cluster = [(ConfigMaps, Some ''default'', settings\<lparr>Namespace := ''default''\<rparr>)],
       trace = [Request (ListReq ConfigMaps (Some ''default'')),
                Request (CreateReq ConfigMaps (Some ''default'')
                           (settings\<lparr>Namespace := ''default''\<rparr>)),
                Printf (ResourceCreated ''ConfigMap'' ''settings'')]\<rparr>)"
  using trim_configmap
  by (simp add: split_good_file file_good_file sample_defs store_defs applySwitch_files_def
        ToLower_def toLowerByte_def configMapApply_def returnNil_def applyResource_def
        createOrUpdate_def andThen_def logApplying_def defaultNamespace_def)

lemma parse_good_file:
  "parseFiles sample_decode [good_file] []
   = Value (None, [\<lparr>FileName = ''2_settings.yaml'', Objects = [settings]\<rparr>])"
  using trim_configmap
  by (simp add: split_good_file Separator_def file_good_file sample_decode_def)

text \<open>
  Claim C2, as stated, fails. The first file holds an undecodable section of 114 bytes,
  the second file a well-formed config map. Applied alone, the second file creates the
  config map; applied after the first, nothing is sent to the cluster and the decode
  error is returned: the remaining section of the first file and the whole second file
  are never processed. Parsing in the later revision likewise returns the error with no
  resource of either file.
\<close>

theorem decode_failure_skips_remaining_files:
  "ResourceApply_files sample_decode (store_env (reporting 0 0) 5)
     [long_broken_file, good_file] (world0 [])
   = (Value (Some (decodingError (DecodeError malformed_section) ''1a_namespace.yaml''
                     malformed_section)), world0 [])
   \<and> trace (snd (ResourceApply_files sample_decode (store_env (reporting 0 0) 5)
                   [good_file] (world0 [])))
       = [Request (ListReq ConfigMaps (Some ''default'')),
          Request (CreateReq ConfigMaps (Some ''default'')
                     (settings\<lparr>Namespace := ''default''\<rparr>)),
          Printf (ResourceCreated ''ConfigMap'' ''settings'')]
   \<and> parseFiles sample_decode [long_broken_file, good_file] []
       = Value (Some (decodingError (DecodeError malformed_section) ''1a_namespace.yaml''
                        malformed_section), [])
   \<and> parseFiles sample_decode [good_file] []
       = Value (None, [\<lparr>FileName = ''2_settings.yaml'', Objects = [settings]\<rparr>])"
proof -
  have name: "File long_broken_file = ''1a_namespace.yaml''"
    by (simp add: long_broken_file_def)
  have "ResourceApply_files sample_decode (store_env (reporting 0 0) 5)
          [long_broken_file, good_file] (world0 [])
        = (Value (Some (decodingError (DecodeError malformed_section) ''1a_namespace.yaml''
                          malformed_section)), world0 [])"
    using trim_newline trim_malformed
    by (simp add: split_long_broken_file name decode_malformed length_malformed andThen_def)
  moreover have "parseFiles sample_decode [long_broken_file, good_file] []
        = Value (Some (decodingError (DecodeError malformed_section) ''1a_namespace.yaml''
                         malformed_section), [])"
    using trim_newline trim_malformed
    by (simp add: split_long_broken_file Separator_def name decode_malformed length_malformed)
  moreover have "trace (snd (ResourceApply_files sample_decode (store_env (reporting 0 0) 5)
                   [good_file] (world0 [])))
       = [Request (ListReq ConfigMaps (Some ''default'')),
          Request (CreateReq ConfigMaps (Some ''default'')
                     (settings\<lparr>Namespace := ''default''\<rparr>)),
          Printf (ResourceCreated ''ConfigMap'' ''settings'')]"
    unfolding apply_good_file by simp
  ultimately show ?thesis
    using parse_good_file by blast
qed

text \<open>
  Claim C2, amended. A section of at least 100 bytes (after trimming) that fails to
  decode ends the whole run, not only its file: whenever the sections before it in the
  file have been handled, \<^verbatim>\<open>ResourceApply\<close> and \<^verbatim>\<open>ResourceDelete\<close> of
  \<^verbatim>\<open>src/provider/k8s/k8s.go\<close> return the wrapped decode error at once, whatever
  sections and files follow, and the command-line action then ends the process;
  \<^verbatim>\<open>DeploymentsParse\<close> of the later revision returns the error and keeps the resources
  of the files before.
\<close>

theorem decode_failure_returns_at_once:
  assumes "100 \<le> length (TrimSpace sect)"
    and "decode (TrimSpace sect) = Inl err"
    and "Split (Content deployment) ''---'' = pre @ sect # post"
  shows "(applySections decode env (File deployment) pre w = (Value None, w') \<longrightarrow>
            ResourceApply_files decode env (deployment # deployments) w
              = (Value (Some (decodingError err (File deployment) (TrimSpace sect))), w')
            \<and> fst (K8sResourceApply decode env (deployment # deployments) w) = Exited)
       \<and> (deleteSections decode env (File deployment) pre w = (Value None, w') \<longrightarrow>
            ResourceDelete_files decode env (deployment # deployments) w
              = (Value (Some (decodingError err (File deployment) (TrimSpace sect))), w')
            \<and> fst (K8sResourceDelete decode env (deployment # deployments) w) = Exited)
       \<and> (decodeSections decode (File deployment) pre [] = Value (Inr objs) \<longrightarrow>
            parseFiles decode (deployment # deployments) resources
              = Value (Some (decodingError err (File deployment) (TrimSpace sect)),
                       resources))"
proof -
  have pos: "length (TrimSpace sect) \<noteq> 0" and big: "\<not> length (TrimSpace sect) < 100"
    using assms(1) by auto
  show ?thesis
    using assms(2,3) pos big
    by (simp add: applySections_append deleteSections_append decodeSections_append
          andThen_def Separator_def K8sResourceApply_def K8sResourceDelete_def)
qed

theorem decode_failure_returns_at_once_witness:
  "ResourceApply_files sample_decode (store_env (reporting 0 0) 5)
     [long_broken_file, good_file] (world0 [])
   = (Value (Some (decodingError (DecodeError malformed_section) ''1a_namespace.yaml''
                     malformed_section)), world0 [])
   \<and> fst (K8sResourceDelete sample_decode (store_env (reporting 0 0) 5)
            [long_broken_file, good_file] (world0 [])) = Exited
   \<and> parseFiles sample_decode [long_broken_file, good_file] []
       = Value (Some (decodingError (DecodeError malformed_section) ''1a_namespace.yaml''
                        malformed_section), [])"
proof -
  let ?sect = "[CHR 0x0A] @ malformed_section @ [CHR 0x0A]"
  let ?env = "store_env (reporting 0 0) 5"
  have len: "100 \<le> length (TrimSpace ?sect)"
    using trim_malformed length_malformed by simp
  have dec: "sample_decode (TrimSpace ?sect) = Inl (DecodeError malformed_section)"
    using trim_malformed decode_malformed by simp
  have name: "File long_broken_file = ''1a_namespace.yaml''"
    by (simp add: long_broken_file_def)
  have pre: "applySections sample_decode ?env ''1a_namespace.yaml'' [[CHR 0x0A]] (world0 [])
               = (Value None, world0 [])"
    "deleteSections sample_decode ?env ''1a_namespace.yaml'' [[CHR 0x0A]] (world0 [])
               = (Value None, world0 [])"
    "decodeSections sample_decode ''1a_namespace.yaml'' [[CHR 0x0A]] [] = Value (Inr [])"
    using trim_newline by simp_all
  from decode_failure_returns_at_once
         [where decode = sample_decode and sect = ?sect and env = ?env and w = "world0 []"
            and deployment = long_broken_file and pre = "[[CHR 0x0A]]"
            and post = "[[CHR 0x0A] @ ''kind: Namespace'']" and w' = "world0 []"
            and objs = "[]" and resources = "[]" and deployments = "[good_file]",
          OF len dec split_long_broken_file]
    pre trim_malformed
  show ?thesis by (simp add: name)
qed

subsection \<open>What the handlers add to the trace\<close>

lemma extends_refl [simp]: "extends P w w"
  by (simp add: extends_def)

lemma extends_trans: "extends P w w1 \<Longrightarrow> extends P w1 w2 \<Longrightarrow> extends P w w2"
  by (auto simp: extends_def)

lemma extends_emit: "P e \<Longrightarrow> extends P w (emit e w)"
  by (simp add: extends_def emit_def)

lemma extends_emit_after: "extends P w w1 \<Longrightarrow> P e \<Longrightarrow> extends P w (emit e w1)"
  by (auto simp: extends_def emit_def)

lemma extends_clientList:
  "(\<And>r. P (Request r)) \<Longrightarrow> extends P w (snd (clientList env coll ns w))"
  by (simp add: extends_def clientList_def split: prod.splits)

lemma extends_clientGet:
  "(\<And>r. P (Request r)) \<Longrightarrow> extends P w (snd (clientGet env coll ns name w))"
  by (simp add: extends_def clientGet_def split: prod.splits)

lemma extends_clientCreate:
  "(\<And>r. P (Request r)) \<Longrightarrow> extends P w (snd (clientCreate env coll ns req w))"
  by (simp add: extends_def clientCreate_def split: prod.splits)

lemma extends_clientUpdate:
  "(\<And>r. P (Request r)) \<Longrightarrow> extends P w (snd (clientUpdate env coll ns req w))"
  by (simp add: extends_def clientUpdate_def split: prod.splits)

lemma extends_clientDelete:
  "(\<And>r. P (Request r)) \<Longrightarrow> extends P w (snd (clientDelete env coll ns name pol w))"
  by (simp add: extends_def clientDelete_def split: prod.splits)

lemma extends_retry_loop:
  assumes "\<And>w. extends P w (snd (fn w))"
  shows "extends P w (snd (retry_loop n lastErr fn w))"
proof (induction n arbitrary: w lastErr)
  case 0
  show ?case by simp
next
  case (Suc n)
  show ?case
  proof (cases "fn w")
    case (Pair r w1)
    with assms [of w] have step: "extends P w w1" by simp
    show ?thesis
    proof (cases r)
      case None
      with Pair step show ?thesis by simp
    next
      case (Some err)
      with Pair step Suc.IH [of w1 "Some err"] show ?thesis
        by (auto intro: extends_trans)
    qed
  qed
qed

lemma extends_createOrUpdate:
  assumes "\<And>r. P (Request r)"
    and "\<And>k n. P (Printf (ResourceUpdated k n))" and "\<And>k n. P (Printf (ResourceCreated k n))"
  shows "extends P w (snd (createOrUpdate env coll ns listmsg req kind w))"
proof (cases "clientList env coll ns w")
  case (Pair listed w1)
  with extends_clientList [of P w env coll ns] assms(1) have l: "extends P w w1" by simp
  show ?thesis
  proof (cases listed)
    case (Inl err)
    with Pair l show ?thesis by (simp add: createOrUpdate_def)
  next
    case (Inr items)
    show ?thesis
    proof (cases "exists_loop items (Name req)")
      case True
      obtain r w2 where u: "RetryOnConflict DefaultRetry_Steps (clientUpdate env coll ns req) w1
                             = (r, w2)"
        by (cases "RetryOnConflict DefaultRetry_Steps (clientUpdate env coll ns req) w1")
      have "extends P w1 (snd (retry_loop DefaultRetry_Steps None (clientUpdate env coll ns req) w1))"
        by (rule extends_retry_loop) (rule extends_clientUpdate, rule assms(1))
      with u have "extends P w1 w2" by (simp add: RetryOnConflict_def)
      with l have "extends P w w2" by (rule extends_trans)
      with Pair Inr True u assms(2) show ?thesis
        by (cases r) (simp_all add: createOrUpdate_def extends_emit_after)
    next
      case False
      obtain r w2 where c: "clientCreate env coll ns req w1 = (r, w2)"
        by (cases "clientCreate env coll ns req w1")
      with extends_clientCreate [of P w1 env coll ns req] assms(1) have "extends P w1 w2"
        by simp
      with l have "extends P w w2" by (rule extends_trans)
      with Pair Inr False c assms(3) show ?thesis
        by (cases r) (simp_all add: createOrUpdate_def extends_emit_after)
    qed
  qed
qed

lemma extends_applyResource:
  assumes "\<And>r. P (Request r)"
    and "\<And>k n. P (Printf (ResourceUpdated k n))" and "\<And>k n. P (Printf (ResourceCreated k n))"
  shows "extends P w (snd (applyResource env T coll d n v msg resource w))"
proof -
  have "extends P w (snd (createOrUpdate env coll ns listmsg req kind w))"
    for ns listmsg req kind
    using assms by (rule extends_createOrUpdate)
  then show ?thesis
    by (simp add: applyResource_def case_prod_unfold)
qed

lemma extends_serviceAddresses:
  "(\<And>ip port. P (Printf (ServiceAddress ip port))) \<Longrightarrow> extends P w1 w
   \<Longrightarrow> extends P w1 (serviceAddresses ips port w)"
  by (induction ips arbitrary: w) (simp_all add: extends_emit_after)

lemma extends_serviceExists:
  assumes "\<And>r. P (Request r)"
    and "\<And>n. P (Printf (ServiceDetails n))" and "\<And>ip port. P (Printf (ServiceAddress ip port))"
  shows "extends P w (snd (serviceExists env resource w))"
proof (cases "clientGet env Services (Some (Namespace (defaultNamespace resource)))
                (Name resource) w")
  case (Pair got w1)
  have "extends P w (snd (clientGet env Services
          (Some (Namespace (defaultNamespace resource))) (Name resource) w))"
    using assms(1) by (rule extends_clientGet)
  with Pair have g: "extends P w w1" by simp
  have d: "extends P w (emit (Printf (ServiceDetails (Name resource))) w1)"
    using g assms(2) by (rule extends_emit_after)
  show ?thesis
    using Pair g d extends_serviceAddresses [of P w, OF assms(3) d]
    by (simp add: serviceExists_def split: sum.splits list.splits)
qed

lemma extends_deploymentReady:
  assumes "\<And>r. P (Request r)"
  shows "extends P w (snd (deploymentReady env resource w))"
proof (cases "clientGet env Deployments (Some (Namespace (defaultNamespace resource)))
                (Name resource) w")
  case (Pair got w1)
  have "extends P w (snd (clientGet env Deployments
          (Some (Namespace (defaultNamespace resource))) (Name resource) w))"
    using assms by (rule extends_clientGet)
  with Pair show ?thesis
    by (simp add: deploymentReady_def split: sum.splits)
qed

lemma extends_daemonsetReady:
  assumes "\<And>r. P (Request r)"
  shows "extends P w (snd (daemonsetReady env resource w))"
proof (cases "clientGet env DaemonSets (Some (Namespace (defaultNamespace resource)))
                (Name resource) w")
  case (Pair got w1)
  have "extends P w (snd (clientGet env DaemonSets
          (Some (Namespace (defaultNamespace resource))) (Name resource) w))"
    using assms by (rule extends_clientGet)
  with Pair show ?thesis
    by (simp add: daemonsetReady_def split: sum.splits)
qed

lemma extends_namespaceDeleted:
  assumes "\<And>r. P (Request r)"
  shows "extends P w (snd (namespaceDeleted env resource w))"
proof (cases "clientGet env Namespaces None (Name resource) w")
  case (Pair got w1)
  have "extends P w (snd (clientGet env Namespaces None (Name resource) w))"
    using assms by (rule extends_clientGet)
  with Pair show ?thesis
    by (simp add: namespaceDeleted_def split: sum.splits)
qed

lemma extends_until_loop:
  assumes "\<And>w. extends P w (snd (fn w))"
  shows "extends P w (snd (until_loop n fn t w))"
proof (induction n arbitrary: w)
  case 0
  show ?case by simp
next
  case (Suc n)
  show ?case
  proof (cases "fn w")
    case (Pair r w1)
    with assms [of w] have step: "extends P w w1" by simp
    from Suc.IH [of w1] step have "extends P w (snd (until_loop n fn t w1))"
      by (auto intro: extends_trans)
    with Pair step show ?thesis
      by (simp split: outcome.splits prod.splits option.splits bool.splits)
  qed
qed

lemma extends_andThen:
  assumes "extends P w (snd r)" and "\<And>x w1. extends P w1 (snd (k x w1))"
  shows "extends P w (snd (andThen r k))"
proof (cases r)
  case (Pair res w1)
  with assms(1) have "extends P w w1" by simp
  with assms(2) Pair show ?thesis
    by (cases res) (auto simp: andThen_def intro: extends_trans)
qed

lemma snd_returnNil [simp]: "snd (returnNil r) = snd r"
  by (cases r) (simp add: returnNil_def andThen_def split: outcome.splits applied.splits)

lemma snd_logDeleted:
  "(\<And>k n. P (Printf (ResourceDeleted k n))) \<Longrightarrow> extends P w (snd r)
   \<Longrightarrow> extends P w (snd (logDeleted resource r))"
  by (cases r)
     (auto simp: logDeleted_def andThen_def extends_emit_after
           split: outcome.splits option.splits)

lemma extends_deleteResource:
  assumes "\<And>r. P (Request r)"
  shows "extends P w (snd (deleteResource env T coll d n v resource w))"
proof -
  have "extends P w (snd (clientDelete env coll ns name pol w))" for ns name pol
    using assms by (rule extends_clientDelete)
  then show ?thesis
    by (simp add: deleteResource_def case_prod_unfold split: option.splits)
qed

lemmas apply_defs = clusterRoleApply_def clusterRoleBindingApply_def configMapApply_def
  customResourceApply_def ingressApply_def nameSpaceApply_def roleApply_def
  roleBindingApply_def serviceAccountApply_def secretApply_def
  persistentVolumeClaimApply_def

lemmas delete_defs = clusterRoleDelete_def clusterRoleBindingDelete_def configMapDelete_def
  daemonsetDelete_def deploymentDelete_def customResourceDelete_def ingressDelete_def
  roleDelete_def roleBindingDelete_def serviceDelete_def serviceAccountDelete_def
  secretDelete_def persistentVolumeClaimDelete_def

lemma extends_daemonSetApply:
  assumes "\<And>e. handlerEvent e \<Longrightarrow> P e"
  shows "extends P w (snd (daemonSetApply env resource w))"
  unfolding daemonSetApply_def
  by (intro extends_andThen extends_applyResource assms)
     (auto split: applied.splits intro!: extends_andThen extends_daemonsetReady assms)

lemma extends_deploymentApply:
  assumes "\<And>e. handlerEvent e \<Longrightarrow> P e"
  shows "extends P w (snd (deploymentApply env resource w))"
  unfolding deploymentApply_def RetryUntilTrue_def
  by (intro extends_andThen extends_applyResource assms)
     (auto split: applied.splits intro!: extends_until_loop extends_deploymentReady assms)

lemma extends_serviceApply:
  assumes "\<And>e. handlerEvent e \<Longrightarrow> P e"
  shows "extends P w (snd (serviceApply env resource w))"
  unfolding serviceApply_def RetryUntilTrue_def
  by (intro extends_andThen extends_applyResource assms)
     (auto split: applied.splits intro!: extends_until_loop extends_serviceExists assms)

lemma extends_namespaceDelete:
  assumes "\<And>e. handlerEvent e \<Longrightarrow> P e"
  shows "extends P w (snd (namespaceDelete env resource w))"
  unfolding namespaceDelete_def RetryUntilTrue_def
proof (intro extends_andThen extends_deleteResource assms)
  fix x :: "error option" and w1 :: "'a world"
  have "extends P w1 (emit (Printf (ResourceDeleting (Kind resource) (Name resource))) w1)"
    by (rule extends_emit) (simp add: assms)
  moreover have "extends P (emit (Printf (ResourceDeleting (Kind resource) (Name resource))) w1)
     (snd (until_loop (2 * GlobalRetryCount env) (namespaceDeleted env resource)
            (TimeoutError (''deleting namespace:'' @ Name resource) (2 * GlobalRetryCount env))
            (emit (Printf (ResourceDeleting (Kind resource) (Name resource))) w1)))"
    by (intro extends_until_loop extends_namespaceDeleted assms) simp
  ultimately show "extends P w1
          (snd (case x of
                None \<Rightarrow>
                  until_loop (2 * GlobalRetryCount env) (namespaceDeleted env resource)
                   (TimeoutError (''deleting namespace:'' @ Name resource)
                     (2 * GlobalRetryCount env))
                   (emit (Printf (ResourceDeleting (Kind resource) (Name resource))) w1)
                | Some e \<Rightarrow> (Value (Some e), w1)))"
    by (cases x) (auto intro: extends_trans)
qed simp


lemma extends_applySwitch_files:
  assumes "\<And>e. handlerEvent e \<Longrightarrow> P e"
  shows "extends P w (snd (applySwitch_files env resource w))"
  unfolding applySwitch_files_def
  by (simp add: apply_defs extends_applyResource extends_daemonSetApply
        extends_deploymentApply extends_serviceApply assms)


lemma extends_deleteSwitch_files:
  assumes "\<And>e. handlerEvent e \<Longrightarrow> P e"
  shows "extends P w (snd (deleteSwitch_files env resource w))"
  unfolding deleteSwitch_files_def
  by (simp add: delete_defs snd_logDeleted extends_deleteResource extends_namespaceDelete
        assms)

subsection \<open>The errors the handlers return\<close>

lemma handlerError_unknownVersion [simp]: "handlerError (unknownVersion v kind name)"
  by (simp add: unknownVersion_def)


















subsection \<open>Kinds without a handler\<close>




lemma dispatchError_unimplemented [simp]:
  "dispatchError (Printf (ErrorApplying file (unimplementedApply kind)))"
  "dispatchError (Printf (ErrorDeleting file (unimplementedDelete kind)))"
  by (simp_all add: unimplementedApply_def unimplementedDelete_def)

subsection \<open>Deleting a namespace\<close>

lemma namespaceDeleted_step:
  assumes "GoType r = apiCoreV1_Namespace" and "Version r = ''v1''"
  shows "namespaceDeleted env r \<lparr>cluster = c, trace = tr\<rparr>
           = (case answer env (Name r) c 0 of
                Inl err \<Rightarrow> if err = NotFound then Value (True, None)
                            else Value (False, Some (Wrapf (ApiError err)
                                                       (couldntGetNamespace (Name r))))
              | Inr item \<Rightarrow> Value (False, None),
              \<lparr>cluster = afterGets env (Name r) 1 c,
               trace = tr @ [Request (GetReq Namespaces None (Name r))]\<rparr>)"
  using assms
  by (cases "apiGet env Namespaces None (Name r) c")
     (simp add: namespaceDeleted_def clientGet_def answer_def couldntGetNamespace_def
        split: sum.splits)

lemma answer_Suc:
  "answer env name c (Suc i) = answer env name (snd (apiGet env Namespaces None name c)) i"
  by (simp add: answer_def)

lemma poll_while_found:
  assumes "GoType r = apiCoreV1_Namespace" and "Version r = ''v1''"
  shows "(\<forall>i<k. \<not> isl (answer env (Name r) c i)) \<Longrightarrow>
         until_loop (k + n) (namespaceDeleted env r) t \<lparr>cluster = c, trace = tr\<rparr>
           = until_loop n (namespaceDeleted env r) t
               \<lparr>cluster = afterGets env (Name r) k c,
                trace = tr @ replicate k (Request (GetReq Namespaces None (Name r)))\<rparr>"
proof (induction k arbitrary: c tr)
  case 0
  show ?case by simp
next
  case (Suc k)
  let ?c = "snd (apiGet env Namespaces None (Name r) c)"
  from Suc.prems have first: "\<not> isl (answer env (Name r) c 0)" by simp
  from Suc.prems have rest: "\<forall>i<k. \<not> isl (answer env (Name r) ?c i)"
    by (auto simp: answer_Suc [symmetric])
  from first obtain item where found: "answer env (Name r) c 0 = Inr item"
    by (cases "answer env (Name r) c 0") simp_all
  show ?case
    using Suc.IH [OF rest, of "tr @ [Request (GetReq Namespaces None (Name r))]"]
    by (simp add: namespaceDeleted_step [OF assms] found replicate_app_Cons_same)
qed

text \<open>
  Claim C5. For a namespace object of version \<^verbatim>\<open>v1\<close>, \<^verbatim>\<open>namespaceDelete\<close> sends
  one delete with the foreground propagation policy; a refused delete is returned
  wrapped, without any poll. After an accepted delete it logs the deletion as being in
  progress and polls with \<^verbatim>\<open>Get\<close> under a budget of \<open>2 * GlobalRetryCount\<close> attempts:
  each answer that still finds the namespace leads to the next attempt, the first
  not-found answer within the budget ends the poll with success, the first other error
  is returned at once, and when all attempts of the budget find the namespace the
  result is the time-out error after exactly \<open>2 * GlobalRetryCount\<close> requests.
\<close>

theorem namespaceDelete_confirms_deletion:
  assumes "GoType r = apiCoreV1_Namespace" and "Version r = ''v1''"
  shows "(apiDelete env Namespaces None (Name r) Foreground (cluster w) = (Some e, c) \<longrightarrow>
            namespaceDelete env r w
              = (Value (Some (Wrapf (ApiError e)
                   (''resource delete failed - kind: '' @ Kind r @ '', name: '' @ Name r))),
                 \<lparr>cluster = c,
                  trace = trace w
                          @ [Request (DeleteReq Namespaces None (Name r) Foreground)]\<rparr>))
       \<and> (apiDelete env Namespaces None (Name r) Foreground (cluster w) = (None, c)
            \<and> k < 2 * GlobalRetryCount env
            \<and> (\<forall>i<k. \<not> isl (answer env (Name r) c i))
            \<and> answer env (Name r) c k = Inl NotFound \<longrightarrow>
            namespaceDelete env r w
              = (Value None,
                 \<lparr>cluster = afterGets env (Name r) (Suc k) c,
                  trace = trace w
                          @ [Request (DeleteReq Namespaces None (Name r) Foreground),
                             Printf (ResourceDeleting (Kind r) (Name r))]
                          @ replicate (Suc k) (Request (GetReq Namespaces None (Name r)))\<rparr>))
       \<and> (apiDelete env Namespaces None (Name r) Foreground (cluster w) = (None, c)
            \<and> k < 2 * GlobalRetryCount env
            \<and> (\<forall>i<k. \<not> isl (answer env (Name r) c i))
            \<and> answer env (Name r) c k = Inl e \<and> e \<noteq> NotFound \<longrightarrow>
            namespaceDelete env r w
              = (Value (Some (Wrapf (ApiError e) (couldntGetNamespace (Name r)))),
                 \<lparr>cluster = afterGets env (Name r) (Suc k) c,
                  trace = trace w
                          @ [Request (DeleteReq Namespaces None (Name r) Foreground),
                             Printf (ResourceDeleting (Kind r) (Name r))]
                          @ replicate (Suc k) (Request (GetReq Namespaces None (Name r)))\<rparr>))
       \<and> (apiDelete env Namespaces None (Name r) Foreground (cluster w) = (None, c)
            \<and> (\<forall>i < 2 * GlobalRetryCount env. \<not> isl (answer env (Name r) c i)) \<longrightarrow>
            namespaceDelete env r w
              = (Value (Some (TimeoutError (''deleting namespace:'' @ Name r)
                                (2 * GlobalRetryCount env))),
                 \<lparr>cluster = afterGets env (Name r) (2 * GlobalRetryCount env) c,
                  trace = trace w
                          @ [Request (DeleteReq Namespaces None (Name r) Foreground),
                             Printf (ResourceDeleting (Kind r) (Name r))]
                          @ replicate (2 * GlobalRetryCount env)
                              (Request (GetReq Namespaces None (Name r)))\<rparr>))"
proof -
  let ?G = "2 * GlobalRetryCount env"
  let ?t = "TimeoutError (''deleting namespace:'' @ Name r) ?G"
  let ?tr = "trace w @ [Request (DeleteReq Namespaces None (Name r) Foreground),
                        Printf (ResourceDeleting (Kind r) (Name r))]"
  let ?get = "Request (GetReq Namespaces None (Name r))"
  have refused: "apiDelete env Namespaces None (Name r) Foreground (cluster w) = (Some e, c)
    \<Longrightarrow> namespaceDelete env r w
              = (Value (Some (Wrapf (ApiError e)
                   (''resource delete failed - kind: '' @ Kind r @ '', name: '' @ Name r))),
                 \<lparr>cluster = c,
                  trace = trace w
                          @ [Request (DeleteReq Namespaces None (Name r) Foreground)]\<rparr>)"
    using assms
    by (simp add: namespaceDelete_def deleteResource_def clientDelete_def andThen_def)
  have accepted: "apiDelete env Namespaces None (Name r) Foreground (cluster w) = (None, c)
    \<Longrightarrow> namespaceDelete env r w
          = until_loop ?G (namespaceDeleted env r) ?t \<lparr>cluster = c, trace = ?tr\<rparr>"
    using assms
    by (simp add: namespaceDelete_def deleteResource_def clientDelete_def andThen_def
          RetryUntilTrue_def emit_def)
  have decided: "until_loop ?G (namespaceDeleted env r) ?t \<lparr>cluster = c, trace = ?tr\<rparr>
      = (if err = NotFound then Value None
         else Value (Some (Wrapf (ApiError err) (couldntGetNamespace (Name r)))),
         \<lparr>cluster = afterGets env (Name r) (Suc k) c,
          trace = ?tr @ replicate (Suc k) ?get\<rparr>)"
    if "k < ?G" and "\<forall>i<k. \<not> isl (answer env (Name r) c i)"
      and "answer env (Name r) c k = Inl err" for err
  proof -
    from that(1) obtain n where budget: "?G = k + Suc n"
      by (metis add_Suc_right less_imp_Suc_add)
    have last: "answer env (Name r) (afterGets env (Name r) k c) 0 = Inl err"
      using that(3) by (simp add: answer_def)
    have shift: "afterGets env (Name r) (Suc 0) (afterGets env (Name r) k c)
                   = afterGets env (Name r) (Suc k) c"
      by (induction k arbitrary: c) simp_all
    show ?thesis
      unfolding budget poll_while_found [OF assms that(2)]
      using last shift
      by (simp add: namespaceDeleted_step [OF assms] replicate_append_same)
  qed
  have exhausted: "until_loop ?G (namespaceDeleted env r) ?t \<lparr>cluster = c, trace = ?tr\<rparr>
      = (Value (Some ?t),
         \<lparr>cluster = afterGets env (Name r) ?G c, trace = ?tr @ replicate ?G ?get\<rparr>)"
    if "\<forall>i < ?G. \<not> isl (answer env (Name r) c i)"
    using poll_while_found [OF assms that, of 0 ?t ?tr] by simp
  show ?thesis
    using refused accepted decided exhausted by auto
qed

lemma afterGets_lingering: "afterGets (lingering_env lag gone n) name i c = c + i"
  by (induction i arbitrary: c) (simp_all add: lingering_env_def)

lemma answer_lingering:
  "answer (lingering_env lag gone n) name c i
     = (if c + i < lag then Inr emptyRemote else Inl gone)"
  by (simp add: answer_def afterGets_lingering) (simp add: lingering_env_def)

theorem namespaceDelete_confirms_deletion_witness:
  "namespaceDelete (lingering_env 3 NotFound 2) bench_namespace (world0 0)
     = (Value None,
        \<lparr>cluster = 4,
         trace = [Request (DeleteReq Namespaces None ''bench-42'' Foreground),
                  Printf (ResourceDeleting ''Namespace'' ''bench-42''),
                  Request (GetReq Namespaces None ''bench-42''),
                  Request (GetReq Namespaces None ''bench-42''),
                  Request (GetReq Namespaces None ''bench-42''),
                  Request (GetReq Namespaces None ''bench-42'')]\<rparr>)
   \<and> namespaceDelete (lingering_env 1 (OtherFailure ''etcd'') 2) bench_namespace (world0 0)
     = (Value (Some (Wrapf (ApiError (OtherFailure ''etcd''))
                       (couldntGetNamespace ''bench-42''))),
        \<lparr>cluster = 2,
         trace = [Request (DeleteReq Namespaces None ''bench-42'' Foreground),
                  Printf (ResourceDeleting ''Namespace'' ''bench-42''),
                  Request (GetReq Namespaces None ''bench-42''),
                  Request (GetReq Namespaces None ''bench-42'')]\<rparr>)
   \<and> namespaceDelete (lingering_env 9 NotFound 2) bench_namespace (world0 0)
     = (Value (Some (TimeoutError ''deleting namespace:bench-42'' 4)),
        \<lparr>cluster = 4,
         trace = [Request (DeleteReq Namespaces None ''bench-42'' Foreground),
                  Printf (ResourceDeleting ''Namespace'' ''bench-42''),
                  Request (GetReq Namespaces None ''bench-42''),
                  Request (GetReq Namespaces None ''bench-42''),
                  Request (GetReq Namespaces None ''bench-42''),
                  Request (GetReq Namespaces None ''bench-42'')]\<rparr>)"
proof -
  have t: "GoType bench_namespace = apiCoreV1_Namespace" and v: "Version bench_namespace = ''v1''"
    and n: "Name bench_namespace = ''bench-42''" and k: "Kind bench_namespace = ''Namespace''"
    by (simp_all add: bench_namespace_def object_of_def)
  have del: "apiDelete (lingering_env lag gone 2) Namespaces None (Name bench_namespace)
               Foreground (cluster (world0 0)) = (None, 0)" for lag gone
    by (simp add: lingering_env_def world0_def)
  have budget: "2 * GlobalRetryCount (lingering_env lag gone 2) = 4" for lag gone
    by (simp add: lingering_env_def)
  note confirmed = namespaceDelete_confirms_deletion [OF t v]
  have found: "\<forall>i<3. \<not> isl (answer (lingering_env 3 NotFound 2) (Name bench_namespace) 0 i)"
    by (simp add: answer_lingering)
  have gone: "answer (lingering_env 3 NotFound 2) (Name bench_namespace) 0 3 = Inl NotFound"
    by (simp add: answer_lingering)
  have 1: "namespaceDelete (lingering_env 3 NotFound 2) bench_namespace (world0 0)
     = (Value None,
        \<lparr>cluster = afterGets (lingering_env 3 NotFound 2) (Name bench_namespace) (Suc 3) 0,
         trace = trace (world0 (0::nat))
                 @ [Request (DeleteReq Namespaces None (Name bench_namespace) Foreground),
                    Printf (ResourceDeleting (Kind bench_namespace) (Name bench_namespace))]
                 @ replicate (Suc 3) (Request (GetReq Namespaces None (Name bench_namespace)))\<rparr>)"
    using confirmed [where env = "lingering_env 3 NotFound 2" and w = "world0 0" and c = 0
                       and k = 3, THEN conjunct2, THEN conjunct1] del budget found gone
    by simp
  have found1: "\<forall>i<1. \<not> isl (answer (lingering_env 1 (OtherFailure ''etcd'') 2)
                                  (Name bench_namespace) 0 i)"
    by (simp add: answer_lingering)
  have failed: "answer (lingering_env 1 (OtherFailure ''etcd'') 2) (Name bench_namespace) 0 1
                  = Inl (OtherFailure ''etcd'')"
    by (simp add: answer_lingering)
  have 2: "namespaceDelete (lingering_env 1 (OtherFailure ''etcd'') 2) bench_namespace (world0 0)
     = (Value (Some (Wrapf (ApiError (OtherFailure ''etcd''))
                       (couldntGetNamespace (Name bench_namespace)))),
        \<lparr>cluster = afterGets (lingering_env 1 (OtherFailure ''etcd'') 2)
                     (Name bench_namespace) (Suc 1) 0,
         trace = trace (world0 (0::nat))
                 @ [Request (DeleteReq Namespaces None (Name bench_namespace) Foreground),
                    Printf (ResourceDeleting (Kind bench_namespace) (Name bench_namespace))]
                 @ replicate (Suc 1) (Request (GetReq Namespaces None (Name bench_namespace)))\<rparr>)"
    using confirmed [where env = "lingering_env 1 (OtherFailure ''etcd'') 2"
                       and w = "world0 0" and c = 0 and k = 1 and e = "OtherFailure ''etcd''",
                     THEN conjunct2, THEN conjunct2, THEN conjunct1] del budget found1 failed
    by simp
  have found9: "\<forall>i < 2 * GlobalRetryCount (lingering_env 9 NotFound 2).
                  \<not> isl (answer (lingering_env 9 NotFound 2) (Name bench_namespace) 0 i)"
    by (simp add: answer_lingering budget)
  have 3: "namespaceDelete (lingering_env 9 NotFound 2) bench_namespace (world0 0)
     = (Value (Some (TimeoutError (''deleting namespace:'' @ Name bench_namespace)
                       (2 * GlobalRetryCount (lingering_env 9 NotFound 2)))),
        \<lparr>cluster = afterGets (lingering_env 9 NotFound 2) (Name bench_namespace)
                     (2 * GlobalRetryCount (lingering_env 9 NotFound 2)) 0,
         trace = trace (world0 (0::nat))
                 @ [Request (DeleteReq Namespaces None (Name bench_namespace) Foreground),
                    Printf (ResourceDeleting (Kind bench_namespace) (Name bench_namespace))]
                 @ replicate (2 * GlobalRetryCount (lingering_env 9 NotFound 2))
                     (Request (GetReq Namespaces None (Name bench_namespace)))\<rparr>)"
    using confirmed [where env = "lingering_env 9 NotFound 2" and w = "world0 0" and c = 0,
                     THEN conjunct2, THEN conjunct2, THEN conjunct2] del found9
    by simp
  have four: "replicate 4 x = [x, x, x, x]" for x :: event
    by (simp add: numeral_eq_Suc)
  from 1 2 3 show ?thesis
    by (simp add: afterGets_lingering n k budget world0_def four del: afterGets.simps)
qed

subsection \<open>Readiness after an apply\<close>

lemma world_eta: "\<lparr>cluster = cluster w, trace = trace w\<rparr> = w"
  by simp

lemma exists_loop_iff: "exists_loop items name = (name \<in> set items)"
  by (induction items) auto

lemma no_get_clientUpdate:
  "extends (\<lambda>e. \<not> isGet e) w (snd (clientUpdate env coll ns req w))"
  by (simp add: extends_def clientUpdate_def split: prod.splits)

lemma no_get_RetryOnConflict:
  "extends (\<lambda>e. \<not> isGet e) w
     (snd (RetryOnConflict steps (clientUpdate env coll ns req) w))"
  unfolding RetryOnConflict_def
  by (rule extends_retry_loop) (rule no_get_clientUpdate)

lemma extends_no_get:
  "extends (\<lambda>e. \<not> isGet e) w w' \<Longrightarrow> filter isGet (trace w') = filter isGet (trace w)"
  by (auto simp: extends_def list_all_iff filter_empty_conv)

lemma applyResource_update_path:
  assumes "GoType r = T" and "Version r = v"
    and "apiList env coll (Some (Namespace (defaultNamespace r))) (cluster w) = (Inr items, c)"
    and "Name r \<in> set items"
  shows "applyResource env T coll True True v errorListing r w
           = (case RetryOnConflict DefaultRetry_Steps
                     (clientUpdate env coll (Some (Namespace (defaultNamespace r)))
                        (defaultNamespace r))
                     \<lparr>cluster = c,
                      trace = trace w @ [Request (ListReq coll
                                (Some (Namespace (defaultNamespace r))))]\<rparr> of
                (Some err, w2) \<Rightarrow>
                  (Value (Failed (Wrapf (ApiError err)
                     (''resource update failed - kind: '' @ Kind r @ '', name: '' @ Name r))),
                   w2)
              | (None, w2) \<Rightarrow>
                  (Value Updated, emit (Printf (ResourceUpdated (Kind r) (Name r))) w2))"
proof -
  have name: "Name (defaultNamespace r) = Name r"
    by (simp add: defaultNamespace_def)
  show ?thesis
    using assms
    by (simp add: applyResource_def createOrUpdate_def clientList_def exists_loop_iff name
          split: prod.splits option.splits)
qed

text \<open>
  Claim C3, as stated, fails. The cluster reports three unavailable nodes for the
  daemonset and the attempt budget is five. When the daemonset is already present, the
  handler lists, updates and returns \<^verbatim>\<open>nil\<close> without a single \<^verbatim>\<open>Get\<close>. When it is
  absent, the handler creates it, asks once and returns \<^verbatim>\<open>nil\<close> although the answer
  is "not ready" and four attempts are left. The deployment handler, in the same cluster
  and with no replica available, uses its five attempts and returns the time-out.
\<close>

theorem daemonset_apply_does_not_wait:
  "daemonSetApply (store_env (reporting 0 3) 5) node_exporter
     (world0 [(DaemonSets, Some ''bench-42'', node_exporter)])
   = (Value None,
      \<lparr>cluster = [(DaemonSets, Some ''bench-42'', node_exporter)],
       trace = [Request (ListReq DaemonSets (Some ''bench-42'')),
                Request (UpdateReq DaemonSets (Some ''bench-42'') node_exporter),
                Printf (ResourceUpdated ''DaemonSet'' ''node-exporter'')]\<rparr>)
   \<and> daemonSetApply (store_env (reporting 0 3) 5) node_exporter (world0 [])
   = (Value None,
      \<lparr>cluster = [(DaemonSets, Some ''bench-42'', node_exporter)],
       trace = [Request (ListReq DaemonSets (Some ''bench-42'')),
                Request (CreateReq DaemonSets (Some ''bench-42'') node_exporter),
                Printf (ResourceCreated ''DaemonSet'' ''node-exporter''),
                Request (GetReq DaemonSets (Some ''bench-42'') ''node-exporter'')]\<rparr>)
   \<and> NumberUnavailable (reporting 0 3 node_exporter) = 3
   \<and> deploymentApply (store_env (reporting 0 3) 5) loadgen (world0 [])
   = (Value (Some (TimeoutError ''applying deployment:loadgen'' 5)),
      \<lparr>cluster = [(Deployments, Some ''bench-42'', loadgen)],
       trace = [Request (ListReq Deployments (Some ''bench-42'')),
                Request (CreateReq Deployments (Some ''bench-42'') loadgen),
                Printf (ResourceCreated ''Deployment'' ''loadgen''),
                Request (GetReq Deployments (Some ''bench-42'') ''loadgen''),
                Request (GetReq Deployments (Some ''bench-42'') ''loadgen''),
                Request (GetReq Deployments (Some ''bench-42'') ''loadgen''),
                Request (GetReq Deployments (Some ''bench-42'') ''loadgen''),
                Request (GetReq Deployments (Some ''bench-42'') ''loadgen'')]\<rparr>)"
proof -
  have five: "until_loop 5 fn t w = until_loop (Suc (Suc (Suc (Suc (Suc 0))))) fn t w"
    for fn :: "store world \<Rightarrow> (bool \<times> error option) outcome \<times> store world" and t w
    by (simp add: numeral_eq_Suc)
  have steps: "retry_loop DefaultRetry_Steps e fn w
                 = retry_loop (Suc (Suc (Suc (Suc (Suc 0))))) e fn w"
    for fn :: "store world \<Rightarrow> api_error option \<times> store world" and e w
    by (simp add: DefaultRetry_Steps_def numeral_eq_Suc)
  have obj: "defaultNamespace node_exporter = node_exporter"
    "defaultNamespace loadgen = loadgen"
    by (simp_all add: defaultNamespace_def node_exporter_def loadgen_def object_of_def)
  have 1: "daemonSetApply (store_env (reporting 0 3) 5) node_exporter
     (world0 [(DaemonSets, Some ''bench-42'', node_exporter)])
   = (Value None,
      \<lparr>cluster = [(DaemonSets, Some ''bench-42'', node_exporter)],
       trace = [Request (ListReq DaemonSets (Some ''bench-42'')),
                Request (UpdateReq DaemonSets (Some ''bench-42'') node_exporter),
                Printf (ResourceUpdated ''DaemonSet'' ''node-exporter'')]\<rparr>)"
    unfolding daemonSetApply_def applyResource_def createOrUpdate_def obj RetryOnConflict_def
      steps
    by (simp add: node_exporter_def object_of_def world0_def store_defs andThen_def)
  have 2: "daemonSetApply (store_env (reporting 0 3) 5) node_exporter (world0 [])
   = (Value None,
      \<lparr>cluster = [(DaemonSets, Some ''bench-42'', node_exporter)],
       trace = [Request (ListReq DaemonSets (Some ''bench-42'')),
                Request (CreateReq DaemonSets (Some ''bench-42'') node_exporter),
                Printf (ResourceCreated ''DaemonSet'' ''node-exporter''),
                Request (GetReq DaemonSets (Some ''bench-42'') ''node-exporter'')]\<rparr>)"
    unfolding daemonSetApply_def applyResource_def createOrUpdate_def obj daemonsetReady_def
    by (simp add: node_exporter_def object_of_def world0_def store_defs andThen_def
          reporting_def emptyRemote_def)
  have 3: "deploymentApply (store_env (reporting 0 3) 5) loadgen (world0 [])
   = (Value (Some (TimeoutError ''applying deployment:loadgen'' 5)),
      \<lparr>cluster = [(Deployments, Some ''bench-42'', loadgen)],
       trace = [Request (ListReq Deployments (Some ''bench-42'')),
                Request (CreateReq Deployments (Some ''bench-42'') loadgen),
                Printf (ResourceCreated ''Deployment'' ''loadgen''),
                Request (GetReq Deployments (Some ''bench-42'') ''loadgen''),
                Request (GetReq Deployments (Some ''bench-42'') ''loadgen''),
                Request (GetReq Deployments (Some ''bench-42'') ''loadgen''),
                Request (GetReq Deployments (Some ''bench-42'') ''loadgen''),
                Request (GetReq Deployments (Some ''bench-42'') ''loadgen'')]\<rparr>)"
    unfolding deploymentApply_def applyResource_def createOrUpdate_def obj deploymentReady_def
      RetryUntilTrue_def
    by (simp add: loadgen_def object_of_def world0_def store_defs andThen_def
          reporting_def emptyRemote_def five)
  have 4: "NumberUnavailable (reporting 0 3 node_exporter) = 3"
    by (simp add: reporting_def emptyRemote_def)
  from 1 2 3 4 show ?thesis by blast
qed

text \<open>
  Claim C3, amended. After a daemonset resource is updated, the apply handler returns
  without any readiness check: when the list shows the name, the handler updates under
  the conflict retry, returns \<^verbatim>\<open>nil\<close> after a successful update (the wrapped error
  otherwise) and sends no \<^verbatim>\<open>Get\<close> request. The deployment handler does the same after
  an update; its Poller belongs to the create path.
\<close>

theorem update_returns_without_readiness_check:
  assumes "Version r = ''v1''"
    and "apiList env coll (Some (Namespace (defaultNamespace r))) (cluster w) = (Inr items, c)"
    and "Name r \<in> set items"
    and "RetryOnConflict DefaultRetry_Steps
           (clientUpdate env coll (Some (Namespace (defaultNamespace r))) (defaultNamespace r))
           \<lparr>cluster = c,
            trace = trace w @ [Request (ListReq coll (Some (Namespace (defaultNamespace r))))]\<rparr>
         = (updated, w2)"
  shows "(GoType r = appsV1_DaemonSet \<and> coll = DaemonSets \<longrightarrow>
            daemonSetApply env r w
              = (case updated of
                   Some err \<Rightarrow>
                     (Value (Some (Wrapf (ApiError err)
                        (''resource update failed - kind: '' @ Kind r @ '', name: '' @ Name r))),
                      w2)
                 | None \<Rightarrow> (Value None, emit (Printf (ResourceUpdated (Kind r) (Name r))) w2))
            \<and> filter isGet (trace (snd (daemonSetApply env r w))) = filter isGet (trace w))
       \<and> (GoType r = appsV1_Deployment \<and> coll = Deployments \<longrightarrow>
            deploymentApply env r w
              = (case updated of
                   Some err \<Rightarrow>
                     (Value (Some (Wrapf (ApiError err)
                        (''resource update failed - kind: '' @ Kind r @ '', name: '' @ Name r))),
                      w2)
                 | None \<Rightarrow> (Value None, emit (Printf (ResourceUpdated (Kind r) (Name r))) w2))
            \<and> filter isGet (trace (snd (deploymentApply env r w))) = filter isGet (trace w))"
proof -
  let ?w1 = "\<lparr>cluster = c,
             trace = trace w @ [Request (ListReq coll (Some (Namespace (defaultNamespace r))))]\<rparr>"
  have "extends (\<lambda>e. \<not> isGet e) w ?w1"
    by (simp add: extends_def)
  moreover from assms(4) no_get_RetryOnConflict [where steps = DefaultRetry_Steps
      and env = env and coll = coll and ns = "Some (Namespace (defaultNamespace r))"
      and req = "defaultNamespace r" and w = ?w1]
  have "extends (\<lambda>e. \<not> isGet e) ?w1 w2" by simp
  ultimately have quiet: "extends (\<lambda>e. \<not> isGet e) w w2"
    by (rule extends_trans)
  then have quiet': "extends (\<lambda>e. \<not> isGet e) w
                       (emit (Printf (ResourceUpdated (Kind r) (Name r))) w2)"
    by (rule extends_emit_after) simp
  note gets = extends_no_get [OF quiet] extends_no_get [OF quiet']
  show ?thesis
    using applyResource_update_path [OF _ assms(1) assms(2) assms(3), of appsV1_DaemonSet]
      applyResource_update_path [OF _ assms(1) assms(2) assms(3), of appsV1_Deployment]
      assms(4) gets
    by (auto simp: daemonSetApply_def deploymentApply_def andThen_def split: option.splits)
qed

theorem update_returns_without_readiness_check_witness:
  "daemonSetApply (store_env (reporting 0 3) 5) node_exporter
     (world0 [(DaemonSets, Some ''bench-42'', node_exporter)])
   = (Value None,
      \<lparr>cluster = [(DaemonSets, Some ''bench-42'', node_exporter)],
       trace = [Request (ListReq DaemonSets (Some ''bench-42'')),
                Request (UpdateReq DaemonSets (Some ''bench-42'') node_exporter),
                Printf (ResourceUpdated ''DaemonSet'' ''node-exporter'')]\<rparr>)
   \<and> filter isGet (trace (snd (daemonSetApply (store_env (reporting 0 3) 5) node_exporter
                                  (world0 [(DaemonSets, Some ''bench-42'', node_exporter)]))))
       = []"
proof -
  let ?env = "store_env (reporting 0 3) 5"
  let ?c = "[(DaemonSets, Some ''bench-42'', node_exporter)]"
  let ?w2 = "\<lparr>cluster = ?c,
             trace = [Request (ListReq DaemonSets (Some ''bench-42'')),
                      Request (UpdateReq DaemonSets (Some ''bench-42'') node_exporter)]\<rparr>"
  have obj: "defaultNamespace node_exporter = node_exporter"
    by (simp add: defaultNamespace_def node_exporter_def object_of_def)
  have fields: "Version node_exporter = ''v1''" "GoType node_exporter = appsV1_DaemonSet"
    "Namespace node_exporter = ''bench-42''" "Name node_exporter = ''node-exporter''"
    "Kind node_exporter = ''DaemonSet''"
    by (simp_all add: node_exporter_def object_of_def)
  have listed: "apiList ?env DaemonSets (Some (Namespace (defaultNamespace node_exporter)))
                  (cluster (world0 ?c)) = (Inr [''node-exporter''], ?c)"
    by (simp add: obj fields store_env_def itemsOf_def world0_def)
  have present: "Name node_exporter \<in> set [''node-exporter'']"
    by (simp add: fields)
  have steps: "retry_loop DefaultRetry_Steps e fn w
                 = retry_loop (Suc (Suc (Suc (Suc (Suc 0))))) e fn w"
    for fn :: "store world \<Rightarrow> api_error option \<times> store world" and e w
    by (simp add: DefaultRetry_Steps_def numeral_eq_Suc)
  have updated: "RetryOnConflict DefaultRetry_Steps
           (clientUpdate ?env DaemonSets (Some (Namespace (defaultNamespace node_exporter)))
              (defaultNamespace node_exporter))
           \<lparr>cluster = ?c,
            trace = trace (world0 ?c)
                    @ [Request (ListReq DaemonSets
                         (Some (Namespace (defaultNamespace node_exporter))))]\<rparr>
         = (None, ?w2)"
    unfolding RetryOnConflict_def steps obj
    by (simp add: fields store_defs world0_def)
  from update_returns_without_readiness_check
         [where coll = DaemonSets, OF fields(1) listed present updated, THEN conjunct1]
    fields(2)
  show ?thesis
    by (simp add: emit_def fields world0_def)
qed

subsection \<open>Collecting the manifest files\<close>

lemma walkFn_filter: "walkFn paths fileList = fileList @ yamlPaths paths"
  by (induction paths arbitrary: fileList) (simp_all add: yamlPaths_def)

lemma renderFiles_names:
  "renderFiles fs eng vars names content w = (Value (err, content'), w') \<Longrightarrow>
   err = None \<and> map File content' = map File content @ names"
proof (induction names arbitrary: content w)
  case Nil
  then show ?case by simp
next
  case (Cons name names)
  from Cons.prems obtain out w1
    where one: "applyTemplateVars fs eng vars name w = (Value (out, None), w1)"
      and rest: "renderFiles fs eng vars names (content @ [\<lparr>File = name, Content = out\<rparr>]) w1
                   = (Value (err, content'), w')"
    by (auto simp: andThen_def applyTemplateVars_def
             split: option.splits sum.splits outcome.splits prod.splits)
  from Cons.IH [OF rest] show ?case by simp
qed

text \<open>
  Claim C8. The collector turns the list of paths into the list of files in argument
  order: an entry that \<^verbatim>\<open>os.Stat\<close> reports as a directory is replaced by the paths of
  its walk whose extension is \<^verbatim>\<open>.yaml\<close> or \<^verbatim>\<open>.yml\<close>, in the order of the walk; every
  other entry is kept as it is, whatever its extension. When the parse returns, the
  rendered files are exactly these, in this order, after the content held before.
\<close>

theorem collectFiles_expands_directories:
  "collectFiles fs names fileList
     = fileList @ concat (map (\<lambda>name. if Stat fs name = Some True
                                        then yamlPaths (Walk fs name) else [name]) names)
   \<and> (\<forall>path \<in> set (yamlPaths (Walk fs name)). Ext path = ''.yaml'' \<or> Ext path = ''.yml'')
   \<and> (K8sClient_DeploymentsParse fs eng names vars content w = (Value (err, content'), w')
        \<longrightarrow> map File content' = map File content @ collectFiles fs names [])"
proof -
  have "collectFiles fs names fileList
     = fileList @ concat (map (\<lambda>name. if Stat fs name = Some True
                                        then yamlPaths (Walk fs name) else [name]) names)"
    by (induction names arbitrary: fileList) (simp_all add: walkFn_filter)
  then show ?thesis
    by (auto simp: K8sClient_DeploymentsParse_def yamlPaths_def dest: renderFiles_names)
qed

lemma ext_samples:
  "Ext ''manifests'' = []" "Ext ''manifests/1a_namespace.yaml'' = ''.yaml''"
  "Ext ''manifests/README.md'' = ''.md''" "Ext ''manifests/sub.yml'' = ''.yml''"
  "Ext ''manifests/sub.yml/2_loadgen.yml'' = ''.yml''"
  by (simp_all add: Ext_def)

subsection \<open>Rendering the templates\<close>

lemma applyTemplateVars_quiet:
  "cluster (snd (applyTemplateVars fs eng vars name w)) = cluster w
   \<and> filter isRequest (trace (snd (applyTemplateVars fs eng vars name w)))
       = filter isRequest (trace w)"
  by (simp add: applyTemplateVars_def emit_def split: option.splits sum.splits)

lemma renderFiles_quiet:
  "cluster (snd (renderFiles fs eng vars names content w)) = cluster w
   \<and> filter isRequest (trace (snd (renderFiles fs eng vars names content w)))
       = filter isRequest (trace w)"
proof (induction names arbitrary: content w)
  case Nil
  show ?case by simp
next
  case (Cons name names)
  show ?case
  proof (cases "applyTemplateVars fs eng vars name w")
    case (Pair r w1)
    with applyTemplateVars_quiet [of fs eng vars name w]
    have same: "cluster w1 = cluster w" "filter isRequest (trace w1) = filter isRequest (trace w)"
      by simp_all
    show ?thesis
    proof (cases r)
      case (Value v)
      obtain out err where v: "v = (out, err)" by (cases v)
      from Pair Value v have "err = None"
        by (auto simp: applyTemplateVars_def split: option.splits sum.splits)
      with Pair Value v same Cons.IH [of "content @ [\<lparr>File = name, Content = out\<rparr>]" w1]
      show ?thesis by (simp add: andThen_def)
    qed (use Pair same in \<open>simp_all add: andThen_def\<close>)
  qed
qed

lemma missing_key_exits:
  assumes "honoursMissingKey eng placeholders"
    and "ReadFile fs name = Some content" and "Parse eng templateFuncs content = Inr t"
    and "k \<in> placeholders t" and "vars k = None"
  shows "\<exists>err. applyTemplateVars fs eng vars name w
                 = (Exited, emit (Fatalf (FailedToExecute name err)) w)"
proof -
  from assms(1,4,5) have "isl (Execute eng MissingKeyError templateFuncs t vars)"
    unfolding honoursMissingKey_def by blast
  then obtain err where "Execute eng MissingKeyError templateFuncs t vars = Inl err"
    by (cases "Execute eng MissingKeyError templateFuncs t vars") simp_all
  with assms(2,3) show ?thesis
    by (auto simp: applyTemplateVars_def)
qed

lemma renderFiles_fails:
  assumes "honoursMissingKey eng placeholders"
    and "ReadFile fs name = Some content" and "Parse eng templateFuncs content = Inr t"
    and "k \<in> placeholders t" and "vars k = None"
  shows "name \<in> set names \<Longrightarrow>
         fst (renderFiles fs eng vars names deploymentsContent w) = Exited
         \<or> fst (renderFiles fs eng vars names deploymentsContent w) = Panicked"
proof (induction names arbitrary: deploymentsContent w)
  case Nil
  then show ?case by simp
next
  case (Cons first names)
  show ?case
  proof (cases "applyTemplateVars fs eng vars first w")
    case (Pair r w1)
    show ?thesis
    proof (cases r)
      case (Value v)
      obtain out err where v: "v = (out, err)" by (cases v)
      from Pair Value v have none: "err = None"
        by (auto simp: applyTemplateVars_def split: option.splits sum.splits)
      from Pair Value
        missing_key_exits [where placeholders = placeholders and vars = vars and k = k
                             and w = w, OF assms]
      have "first \<noteq> name"
        by auto
      with Cons.prems have "name \<in> set names" by simp
      from Cons.IH [OF this] Pair Value v none show ?thesis
        by (simp add: andThen_def)
    qed (use Pair in \<open>simp_all add: andThen_def\<close>)
  qed
qed

text \<open>
  Claim C7. The template is created with the option \<^verbatim>\<open>missingkey=error\<close> and a failed
  execution ends the process. So, for every engine that honours the option: when one of
  the collected files holds a template with a placeholder that the bindings lack, the
  parse phase does not return (the process ends with \<^verbatim>\<open>log.Fatalf\<close>, or a template
  before it has made \<^verbatim>\<open>template.Must\<close> panic), it has sent no request to the cluster
  and has left the cluster as it was; at the file itself the outcome is the fatal error
  \<^verbatim>\<open>Failed to execute\<close>.
\<close>

theorem missing_placeholder_fails_before_any_request:
  assumes "honoursMissingKey eng placeholders"
    and "ReadFile fs name = Some content" and "Parse eng templateFuncs content = Inr t"
    and "k \<in> placeholders t" and "vars k = None"
    and "name \<in> set (collectFiles fs DeploymentFiles [])"
  shows "(fst (K8sClient_DeploymentsParse fs eng DeploymentFiles vars deploymentsContent w)
            = Exited
          \<or> fst (K8sClient_DeploymentsParse fs eng DeploymentFiles vars deploymentsContent w)
            = Panicked)
       \<and> cluster (snd (K8sClient_DeploymentsParse fs eng DeploymentFiles vars
                          deploymentsContent w)) = cluster w
       \<and> filter isRequest (trace (snd (K8sClient_DeploymentsParse fs eng DeploymentFiles vars
                                         deploymentsContent w)))
           = filter isRequest (trace w)
       \<and> (\<exists>err. applyTemplateVars fs eng vars name w
                   = (Exited, emit (Fatalf (FailedToExecute name err)) w))"
  using renderFiles_fails [where placeholders = placeholders and vars = vars and k = k,
                            OF assms(1-5) assms(6)]
    renderFiles_quiet
    missing_key_exits [where placeholders = placeholders and vars = vars and k = k,
                         OF assms(1-5)]
  unfolding K8sClient_DeploymentsParse_def by blast

lemma render_missing:
  "\<exists>k \<in> variables t. vars k = None \<Longrightarrow> isl (render MissingKeyError vars t)"
proof (induction t)
  case Nil
  then show ?case by simp
next
  case (Cons s t)
  show ?case
  proof (cases s)
    case (Lit x)
    with Cons show ?thesis by (auto split: sum.splits)
  next
    case (Var k)
    show ?thesis
    proof (cases "vars k")
      case None
      with Var show ?thesis by simp
    next
      case (Some v)
      with Var Cons.prems have "\<exists>k \<in> variables t. vars k = None" by auto
      with Cons.IH Var Some show ?thesis by (auto split: sum.splits)
    qed
  qed
qed

lemma sample_engine_honours: "honoursMissingKey sample_engine variables"
  by (simp add: honoursMissingKey_def sample_engine_def render_missing)

lemma collect_sample_manifests:
  "collectFiles sample_fs [''extra.txt'', ''manifests''] []
     = [''extra.txt'', ''manifests/1a_namespace.yaml'', ''manifests/sub.yml'',
        ''manifests/sub.yml/2_loadgen.yml'']"
  by (simp add: sample_fs_def ext_samples)

theorem missing_placeholder_fails_before_any_request_witness:
  "fst (K8sClient_DeploymentsParse sample_fs sample_engine [''extra.txt'', ''manifests'']
          Map.empty [] (world0 bench_cluster)) = Exited
   \<and> cluster (snd (K8sClient_DeploymentsParse sample_fs sample_engine
                      [''extra.txt'', ''manifests''] Map.empty []
                      (world0 bench_cluster)))
       = bench_cluster
   \<and> filter isRequest
         (trace (snd (K8sClient_DeploymentsParse sample_fs sample_engine
                        [''extra.txt'', ''manifests''] Map.empty []
                        (world0 bench_cluster)))) = []"
proof -
  let ?w = "world0 bench_cluster"
  have rd: "ReadFile sample_fs ''manifests/1a_namespace.yaml''
              = Some ''name: bench-{{ .PR_NUMBER }}''"
    by (simp add: sample_fs_def)
  have ps: "Parse sample_engine templateFuncs ''name: bench-{{ .PR_NUMBER }}''
              = Inr [Lit ''name: bench-'', Var ''PR_NUMBER'']"
    by (simp add: sample_engine_def)
  have var: "''PR_NUMBER'' \<in> variables [Lit ''name: bench-'', Var ''PR_NUMBER'']"
    by simp
  have unbound: "(Map.empty :: string \<rightharpoonup> string) ''PR_NUMBER'' = None"
    by simp
  have listed: "''manifests/1a_namespace.yaml''
                  \<in> set (collectFiles sample_fs [''extra.txt'', ''manifests''] [])"
    by (simp add: collect_sample_manifests del: collectFiles.simps)
  note fails = missing_placeholder_fails_before_any_request
                 [where placeholders = variables and vars = Map.empty
                    and k = "''PR_NUMBER''" and deploymentsContent = "[]" and w = ?w,
                  OF sample_engine_honours rd ps var unbound listed]
  let ?run = "K8sClient_DeploymentsParse sample_fs sample_engine [''extra.txt'', ''manifests'']
                Map.empty [] ?w"
  have exited: "fst ?run = Exited"
    unfolding K8sClient_DeploymentsParse_def collect_sample_manifests
    by (simp add: applyTemplateVars_def sample_fs_def sample_engine_def andThen_def)
  note same = fails [THEN conjunct2, THEN conjunct1]
    and quiet = fails [THEN conjunct2, THEN conjunct2, THEN conjunct1]
  have "cluster ?w = bench_cluster" and "trace ?w = []"
    by (simp_all add: world0_def)
  with exited same quiet show ?thesis
    by simp
qed

theorem collectFiles_expands_directories_witness:
  "collectFiles sample_fs [''extra.txt'', ''manifests'', ''missing.json''] []
     = [''extra.txt'', ''manifests/1a_namespace.yaml'', ''manifests/sub.yml'',
        ''manifests/sub.yml/2_loadgen.yml'', ''missing.json'']
   \<and> K8sClient_DeploymentsParse sample_fs sample_engine
         [''extra.txt'', ''manifests/1a_namespace.yaml''] [''PR_NUMBER'' \<mapsto> ''42''] []
         (world0 bench_cluster)
       = (Value (None, [\<lparr>File = ''extra.txt'', Content = ''kind: ConfigMap''\<rparr>,
                        \<lparr>File = ''manifests/1a_namespace.yaml'',
                         Content = ''name: bench-42''\<rparr>]), world0 bench_cluster)
   \<and> collectFiles sample_fs [''extra.txt'', ''manifests/1a_namespace.yaml''] []
       = [''extra.txt'', ''manifests/1a_namespace.yaml'']"
proof -
  have walk: "yamlPaths (Walk sample_fs ''manifests'')
                = [''manifests/1a_namespace.yaml'', ''manifests/sub.yml'',
                   ''manifests/sub.yml/2_loadgen.yml'']"
    by (simp add: yamlPaths_def sample_fs_def ext_samples)
  have stat: "Stat sample_fs ''extra.txt'' = Some False" "Stat sample_fs ''manifests'' = Some True"
    "Stat sample_fs ''missing.json'' = None"
    "Stat sample_fs ''manifests/1a_namespace.yaml'' = None"
    by (simp_all add: sample_fs_def)
  from collectFiles_expands_directories
         [where fs = sample_fs and names = "[''extra.txt'', ''manifests'', ''missing.json'']"
            and fileList = "[]", THEN conjunct1]
  have 1: "collectFiles sample_fs [''extra.txt'', ''manifests'', ''missing.json''] []
     = [''extra.txt'', ''manifests/1a_namespace.yaml'', ''manifests/sub.yml'',
        ''manifests/sub.yml/2_loadgen.yml'', ''missing.json'']"
    by (simp add: walk stat del: collectFiles.simps)
  have 2: "K8sClient_DeploymentsParse sample_fs sample_engine
         [''extra.txt'', ''manifests/1a_namespace.yaml''] [''PR_NUMBER'' \<mapsto> ''42''] []
         (world0 bench_cluster)
       = (Value (None, [\<lparr>File = ''extra.txt'', Content = ''kind: ConfigMap''\<rparr>,
                        \<lparr>File = ''manifests/1a_namespace.yaml'',
                         Content = ''name: bench-42''\<rparr>]), world0 bench_cluster)"
    by (simp add: K8sClient_DeploymentsParse_def stat applyTemplateVars_def sample_fs_def
          sample_engine_def andThen_def)
  from collectFiles_expands_directories
         [where fs = sample_fs and names = "[''extra.txt'', ''manifests/1a_namespace.yaml'']"
            and content = "[]", THEN conjunct2, THEN conjunct2, THEN mp, OF 2]
  have 3: "collectFiles sample_fs [''extra.txt'', ''manifests/1a_namespace.yaml''] []
       = [''extra.txt'', ''manifests/1a_namespace.yaml'']"
    by (simp del: collectFiles.simps)
  from 1 2 3 show ?thesis by blast
qed

subsection \<open>Applying a batch twice\<close>

lemma stored_iff: "stored c coll ns name = ((coll, ns, name) \<in> entryKey ` set c)"
  by (induction c) (auto simp: stored_def entryKey_def)

lemma listed_iff:
  "(name \<in> set (map Name (itemsOf c coll ns))) = stored c coll ns name"
  by (induction c) (auto simp: stored_def itemsOf_def)

lemma RetryOnConflict_first:
  "fn w = (None, w') \<Longrightarrow> RetryOnConflict DefaultRetry_Steps fn w = (None, w')"
  by (simp add: RetryOnConflict_def DefaultRetry_Steps_def numeral_eq_Suc)

lemma createOrUpdate_absent:
  assumes "\<not> stored (cluster w) coll ns (Name req)"
  shows "createOrUpdate (store_env observe retries) coll ns listmsg req kind w
           = (Created,
              \<lparr>cluster = cluster w @ [(coll, ns, req)],
               trace = trace w @ [Request (ListReq coll ns), Request (CreateReq coll ns req),
                                  Printf (ResourceCreated kind (Name req))]\<rparr>)"
  using assms
  by (simp add: createOrUpdate_def clientList_def clientCreate_def store_env_def emit_def
        exists_loop_iff listed_iff del: set_map)

lemma createOrUpdate_present:
  assumes "stored (cluster w) coll ns (Name req)"
  shows "createOrUpdate (store_env observe retries) coll ns listmsg req kind w
           = (Updated,
              \<lparr>cluster = map (\<lambda>(k, n, item).
                             if k = coll \<and> n = ns \<and> Name item = Name req then (k, n, req)
                             else (k, n, item)) (cluster w),
               trace = trace w @ [Request (ListReq coll ns), Request (UpdateReq coll ns req),
                                  Printf (ResourceUpdated kind (Name req))]\<rparr>)"
proof -
  let ?w1 = "\<lparr>cluster = cluster w, trace = trace w @ [Request (ListReq coll ns)]\<rparr>"
  have "clientUpdate (store_env observe retries) coll ns req ?w1
          = (None, \<lparr>cluster = map (\<lambda>(k, n, item).
                             if k = coll \<and> n = ns \<and> Name item = Name req then (k, n, req)
                             else (k, n, item)) (cluster w),
                     trace = trace w @ [Request (ListReq coll ns),
                                        Request (UpdateReq coll ns req)]\<rparr>)"
    using assms by (simp add: clientUpdate_def store_env_def)
  then have "RetryOnConflict DefaultRetry_Steps
               (clientUpdate (store_env observe retries) coll ns req) ?w1
          = (None, \<lparr>cluster = map (\<lambda>(k, n, item).
                             if k = coll \<and> n = ns \<and> Name item = Name req then (k, n, req)
                             else (k, n, item)) (cluster w),
                     trace = trace w @ [Request (ListReq coll ns),
                                        Request (UpdateReq coll ns req)]\<rparr>)"
    by (rule RetryOnConflict_first)
  moreover have "clientList (store_env observe retries) coll ns w
                   = (Inr (map Name (itemsOf (cluster w) coll ns)), ?w1)"
    by (simp add: clientList_def store_env_def)
  ultimately show ?thesis
    using assms
    by (simp add: createOrUpdate_def emit_def exists_loop_iff listed_iff del: set_map)
qed


lemma name_defaultNamespace: "Name (defaultNamespace r) = Name r"
  by (simp add: defaultNamespace_def)

lemma applyResource_absent:
  assumes "GoType r = T" and "Version r = v"
    and "req = (if defaults then defaultNamespace r else r)"
    and "ns = (if namespaced then Some (Namespace req) else None)"
    and "\<not> stored (cluster w) coll ns (Name r)"
  shows "applyResource (store_env observe retries) T coll defaults namespaced v listmsg r w
           = (Value Created,
              \<lparr>cluster = cluster w @ [(coll, ns, req)],
               trace = trace w @ [Request (ListReq coll ns), Request (CreateReq coll ns req),
                                  Printf (ResourceCreated (Kind r) (Name r))]\<rparr>)"
proof -
  have name: "Name req = Name r"
    using assms(3) by (simp add: name_defaultNamespace)
  with assms(5) have "\<not> stored (cluster w) coll ns (Name req)" by simp
  from createOrUpdate_absent [OF this, of observe retries "listmsg (Kind r) (Name r)" "Kind r"]
  show ?thesis
    using assms(1-4) name by (cases defaults; cases namespaced; simp add: applyResource_def)
qed

lemma applyResource_present:
  assumes "GoType r = T" and "Version r = v"
    and "req = (if defaults then defaultNamespace r else r)"
    and "ns = (if namespaced then Some (Namespace req) else None)"
    and "stored (cluster w) coll ns (Name r)"
  shows "applyResource (store_env observe retries) T coll defaults namespaced v listmsg r w
           = (Value Updated,
              \<lparr>cluster = map (\<lambda>(k, n, item).
                             if k = coll \<and> n = ns \<and> Name item = Name r then (k, n, req)
                             else (k, n, item)) (cluster w),
               trace = trace w @ [Request (ListReq coll ns), Request (UpdateReq coll ns req),
                                  Printf (ResourceUpdated (Kind r) (Name r))]\<rparr>)"
proof -
  have name: "Name req = Name r"
    using assms(3) by (simp add: name_defaultNamespace)
  with assms(5) have "stored (cluster w) coll ns (Name req)" by simp
  from createOrUpdate_present [OF this, of observe retries "listmsg (Kind r) (Name r)" "Kind r"]
  show ?thesis
    using assms(1-4) name by (cases defaults; cases namespaced; simp add: applyResource_def)
qed

lemma unchanged_refl: "unchanged w w"
  by (simp add: unchanged_def)

lemma unchanged_trans: "unchanged w w' \<Longrightarrow> unchanged w' w'' \<Longrightarrow> unchanged w w''"
  by (simp add: unchanged_def)

lemma unchanged_clientGet:
  "unchanged w (snd (clientGet (store_env observe retries) coll ns name w))"
  by (simp add: unchanged_def clientGet_def store_env_def)

lemma unchanged_serviceAddresses: "unchanged w (serviceAddresses ips port w)"
proof (induction ips arbitrary: w)
  case Nil
  show ?case by (simp add: unchanged_refl)
next
  case (Cons ip ips)
  have "unchanged w (emit (Printf (ServiceAddress ip port)) w)"
    by (simp add: unchanged_def emit_def)
  from unchanged_trans [OF this Cons.IH] show ?case by simp
qed

lemma deploymentReady_store:
  assumes "GoType r = appsV1_Deployment"
  shows "\<exists>v w'. deploymentReady (store_env observe retries) r w = (Value v, w')
                 \<and> unchanged w w'"
  using assms unchanged_clientGet [of w observe retries Deployments
      "Some (Namespace (defaultNamespace r))" "Name r"]
  by (auto simp: deploymentReady_def unchanged_refl split: prod.splits sum.splits)

lemma daemonsetReady_store:
  assumes "GoType r = appsV1_DaemonSet"
  shows "\<exists>v w'. daemonsetReady (store_env observe retries) r w = (Value v, w')
                 \<and> unchanged w w'"
  using assms unchanged_clientGet [of w observe retries DaemonSets
      "Some (Namespace (defaultNamespace r))" "Name r"]
  by (auto simp: daemonsetReady_def unchanged_refl split: prod.splits sum.splits)

lemma serviceExists_store:
  assumes "GoType r = apiCoreV1_Service" and "\<forall>item. hasPort (observe item)"
  shows "\<exists>v w'. serviceExists (store_env observe retries) r w = (Value v, w')
                 \<and> unchanged w w'"
proof (cases "Version r = ''v1''")
  case False
  with assms(1) show ?thesis by (auto simp: serviceExists_def unchanged_refl)
next
  case True
  obtain ans w1 where get: "clientGet (store_env observe retries) Services
      (Some (Namespace (defaultNamespace r))) (Name r) w = (ans, w1)"
    by (cases "clientGet (store_env observe retries) Services
      (Some (Namespace (defaultNamespace r))) (Name r) w")
  with unchanged_clientGet [of w observe retries Services
      "Some (Namespace (defaultNamespace r))" "Name r"]
  have w1: "unchanged w w1" by simp
  show ?thesis
  proof (cases ans)
    case (Inl err)
    with assms(1) True get w1 show ?thesis by (auto simp: serviceExists_def)
  next
    case (Inr res)
    have res: "hasPort res"
      using get Inr assms(2)
      by (auto simp: clientGet_def store_env_def split: option.splits)
    have details: "unchanged w (emit (Printf (ServiceDetails (Name r))) w1)"
      using w1 by (simp add: unchanged_def emit_def)
    have addresses: "unchanged w (serviceAddresses ips port
                       (emit (Printf (ServiceDetails (Name r))) w1))" for ips port
      by (rule unchanged_trans [OF details unchanged_serviceAddresses])
    show ?thesis
      using assms(1) True get Inr w1 res addresses
      by (auto simp: serviceExists_def hasPort_def split: list.splits)
  qed
qed

lemma until_loop_store:
  assumes "\<And>w. \<exists>v w'. fn w = (Value v, w') \<and> unchanged w w'"
  shows "\<exists>v w'. until_loop n fn t w = (Value v, w') \<and> unchanged w w'"
proof (induction n arbitrary: w)
  case 0
  show ?case by (simp add: unchanged_refl)
next
  case (Suc n)
  from assms [of w] obtain ready err w1 where step: "fn w = (Value (ready, err), w1)"
    and w1: "unchanged w w1"
    by (metis surj_pair)
  show ?case
  proof (cases err)
    case (Some e)
    with step w1 show ?thesis by (cases ready) simp_all
  next
    case None
    show ?thesis
    proof (cases ready)
      case True
      with None step w1 show ?thesis by simp
    next
      case False
      from Suc.IH [of w1] obtain v w' where "until_loop n fn t w1 = (Value v, w')"
        and "unchanged w1 w'" by blast
      with False None step unchanged_trans [OF w1] show ?thesis by simp
    qed
  qed
qed


lemma target_client:
  assumes "target r = Some (coll, ns, req)"
  obtains T defaults namespaced v where
    "map_of clients (ToLower (Kind r)) = Some (T, coll, defaults, namespaced, v)"
    and "GoType r = T" and "Version r = v"
    and "req = (if defaults then defaultNamespace r else r)"
    and "ns = (if namespaced then Some (Namespace req) else None)"
  using assms by (auto simp: target_def split: option.splits if_splits)

lemma applySwitch_client:
  assumes "map_of clients (ToLower (Kind r)) = Some (T, coll, defaults, namespaced, v)"
  shows "(T = appsV1_DaemonSet \<and> coll = DaemonSets \<and> defaults \<and> namespaced \<and> v = ''v1''
            \<and> applySwitch env r w = daemonSetApply env r w)
       \<or> (T = appsV1_Deployment \<and> coll = Deployments \<and> defaults \<and> namespaced \<and> v = ''v1''
            \<and> applySwitch env r w = deploymentApply env r w)
       \<or> (T = apiCoreV1_Service \<and> coll = Services \<and> defaults \<and> namespaced \<and> v = ''v1''
            \<and> applySwitch env r w = serviceApply env r w)
       \<or> (\<exists>listmsg. applySwitch env r w
              = returnNil (applyResource env T coll defaults namespaced v listmsg r w))"
  using assms
  by (auto simp: clients_def applySwitch_def clusterRoleApply_def clusterRoleBindingApply_def
        configMapApply_def customResourceApply_def ingressApply_def nameSpaceApply_def
        roleApply_def roleBindingApply_def serviceAccountApply_def secretApply_def
        persistentVolumeClaimApply_def split: if_splits)


lemma applySwitch_absent:
  assumes "target r = Some (coll, ns, req)"
    and "\<not> stored (cluster w) coll ns (Name r)"
    and "\<forall>item. hasPort (observe item)"
  shows "\<exists>v w'. applySwitch (store_env observe retries) r w = (Value v, w')
           \<and> cluster w' = cluster w @ [(coll, ns, req)]
           \<and> filter protocol (trace w') = filter protocol (trace w) @ creating r"
proof -
  let ?env = "store_env observe retries"
  let ?w1 = "\<lparr>cluster = cluster w @ [(coll, ns, req)],
             trace = trace w @ [Request (ListReq coll ns), Request (CreateReq coll ns req),
                                Printf (ResourceCreated (Kind r) (Name r))]\<rparr>"
  from assms(1) obtain T defaults namespaced v where
    client: "map_of clients (ToLower (Kind r)) = Some (T, coll, defaults, namespaced, v)"
    and ty: "GoType r = T" and ver: "Version r = v"
    and req: "req = (if defaults then defaultNamespace r else r)"
    and ns: "ns = (if namespaced then Some (Namespace req) else None)"
    by (rule target_client)
  have created: "applyResource ?env T coll defaults namespaced v listmsg r w
                   = (Value Created, ?w1)" for listmsg
    by (rule applyResource_absent [OF ty ver req ns assms(2)])
  have w1: "cluster ?w1 = cluster w @ [(coll, ns, req)]"
    "filter protocol (trace ?w1) = filter protocol (trace w) @ creating r"
    using assms(1) by (simp_all add: creating_def)
  have poll: "\<exists>v w'. r' = (Value v, w') \<and> cluster w' = cluster w @ [(coll, ns, req)]
                \<and> filter protocol (trace w') = filter protocol (trace w) @ creating r"
    if "\<exists>v w'. r' = (Value v, w') \<and> unchanged ?w1 w'" for r' :: "'a outcome \<times> store world"
    using that w1 by (auto simp: unchanged_def)
  from applySwitch_client [OF client, of ?env w]
  consider (daemonset) "T = appsV1_DaemonSet" "defaults"
      "coll = DaemonSets \<and> namespaced \<and> v = ''v1''"
      "applySwitch ?env r w = daemonSetApply ?env r w"
    | (deployment) "T = appsV1_Deployment" "defaults"
      "coll = Deployments \<and> namespaced \<and> v = ''v1''"
      "applySwitch ?env r w = deploymentApply ?env r w"
    | (service) "T = apiCoreV1_Service" "defaults"
      "coll = Services \<and> namespaced \<and> v = ''v1''"
      "applySwitch ?env r w = serviceApply ?env r w"
    | (plain) listmsg where "applySwitch ?env r w
        = returnNil (applyResource ?env T coll defaults namespaced v listmsg r w)"
    by blast
  then show ?thesis
  proof cases
    case daemonset
    have "GoType (defaultNamespace r) = appsV1_DaemonSet"
      using ty daemonset(1) by (simp add: defaultNamespace_def)
    from daemonsetReady_store [OF this, of observe retries ?w1]
    obtain x w' where "daemonsetReady ?env (defaultNamespace r) ?w1 = (Value x, w')"
      and "unchanged ?w1 w'" by blast
    then have "\<exists>v w'. daemonSetApply ?env r w = (Value v, w') \<and> unchanged ?w1 w'"
      using created [of errorListing] daemonset(1-3)
      by (simp add: daemonSetApply_def andThen_def)
    then show ?thesis unfolding daemonset(4) by (rule poll)
  next
    case deployment
    have "GoType (defaultNamespace r) = appsV1_Deployment"
      using ty deployment(1) by (simp add: defaultNamespace_def)
    from until_loop_store [of "deploymentReady ?env (defaultNamespace r)",
        OF deploymentReady_store [OF this]]
    have "\<exists>v w'. deploymentApply ?env r w = (Value v, w') \<and> unchanged ?w1 w'"
      using created [of errorListing] deployment(1-3)
      by (simp add: deploymentApply_def andThen_def RetryUntilTrue_def)
    then show ?thesis unfolding deployment(4) by (rule poll)
  next
    case service
    have "GoType (defaultNamespace r) = apiCoreV1_Service"
      using ty service(1) by (simp add: defaultNamespace_def)
    from until_loop_store [of "serviceExists ?env (defaultNamespace r)",
        OF serviceExists_store [OF this assms(3)]]
    have "\<exists>v w'. serviceApply ?env r w = (Value v, w') \<and> unchanged ?w1 w'"
      using created [of errorListing] service(1-3)
      by (simp add: serviceApply_def andThen_def RetryUntilTrue_def)
    then show ?thesis unfolding service(4) by (rule poll)
  next
    case plain
    have "\<exists>v w'. applySwitch ?env r w = (Value v, w') \<and> unchanged ?w1 w'"
      unfolding plain created by (simp add: returnNil_def andThen_def unchanged_refl)
    then show ?thesis by (rule poll)
  qed
qed

lemma applySwitch_present:
  assumes "target r = Some (coll, ns, req)"
    and "(coll, ns, req) \<in> set (cluster w)"
    and "\<forall>e \<in> set (cluster w). entryKey e = (coll, ns, Name r) \<longrightarrow> e = (coll, ns, req)"
  shows "\<exists>v w'. applySwitch (store_env observe retries) r w = (Value v, w')
           \<and> cluster w' = cluster w
           \<and> filter protocol (trace w') = filter protocol (trace w) @ updating r"
proof -
  let ?env = "store_env observe retries"
  let ?w1 = "\<lparr>cluster = cluster w,
             trace = trace w @ [Request (ListReq coll ns), Request (UpdateReq coll ns req),
                                Printf (ResourceUpdated (Kind r) (Name r))]\<rparr>"
  from assms(1) obtain T defaults namespaced v where
    client: "map_of clients (ToLower (Kind r)) = Some (T, coll, defaults, namespaced, v)"
    and ty: "GoType r = T" and ver: "Version r = v"
    and req: "req = (if defaults then defaultNamespace r else r)"
    and ns: "ns = (if namespaced then Some (Namespace req) else None)"
    by (rule target_client)
  have name: "Name req = Name r"
    using req by (simp add: name_defaultNamespace)
  have "entryKey (coll, ns, req) \<in> entryKey ` set (cluster w)"
    using assms(2) by (rule imageI)
  then have present: "stored (cluster w) coll ns (Name r)"
    by (simp add: stored_iff entryKey_def name)
  have same: "map (\<lambda>(k, n, item).
                 if k = coll \<and> n = ns \<and> Name item = Name r then (k, n, req)
                 else (k, n, item)) (cluster w) = cluster w"
    using assms(3) by (intro map_idI) (auto simp: entryKey_def)
  have updated: "applyResource ?env T coll defaults namespaced v listmsg r w
                   = (Value Updated, ?w1)" for listmsg
    using applyResource_present [OF ty ver req ns present, of observe retries listmsg]
    by (simp add: same)
  have events: "updating r = [Request (ListReq coll ns), Request (UpdateReq coll ns req),
                              Printf (ResourceUpdated (Kind r) (Name r))]"
    using assms(1) by (simp add: updating_def)
  from applySwitch_client [OF client, of ?env w]
  consider (daemonset) "T = appsV1_DaemonSet" "defaults"
      "coll = DaemonSets \<and> namespaced \<and> v = ''v1''"
      "applySwitch ?env r w = daemonSetApply ?env r w"
    | (deployment) "T = appsV1_Deployment" "defaults"
      "coll = Deployments \<and> namespaced \<and> v = ''v1''"
      "applySwitch ?env r w = deploymentApply ?env r w"
    | (service) "T = apiCoreV1_Service" "defaults"
      "coll = Services \<and> namespaced \<and> v = ''v1''"
      "applySwitch ?env r w = serviceApply ?env r w"
    | (plain) listmsg where "applySwitch ?env r w
        = returnNil (applyResource ?env T coll defaults namespaced v listmsg r w)"
    by blast
  then have "applySwitch ?env r w = (Value None, ?w1)"
  proof cases
    case daemonset
    show ?thesis
      unfolding daemonset(4) using updated [of errorListing] daemonset(1-3)
      by (simp add: daemonSetApply_def andThen_def)
  next
    case deployment
    show ?thesis
      unfolding deployment(4) using updated [of errorListing] deployment(1-3)
      by (simp add: deploymentApply_def andThen_def)
  next
    case service
    show ?thesis
      unfolding service(4) using updated [of errorListing] service(1-3)
      by (simp add: serviceApply_def andThen_def)
  next
    case plain
    show ?thesis unfolding plain updated by (simp add: returnNil_def andThen_def)
  qed
  then show ?thesis by (simp add: events)
qed


lemma target_name: "target r = Some (coll, ns, req) \<Longrightarrow> Name req = Name r"
  by (erule target_client) (simp add: name_defaultNamespace)

lemma unchanged_logApplying: "unchanged w (logApplying fname err w)"
  by (cases err) (simp_all add: logApplying_def unchanged_def emit_def)

lemma applyObjects_creates:
  assumes "\<forall>r \<in> set objs. target r \<noteq> None"
    and "distinct (map (\<lambda>x. entryKey (the (target x))) objs)"
    and "\<forall>r \<in> set objs. entryKey (the (target r)) \<notin> entryKey ` set (cluster w)"
    and "\<forall>item. hasPort (observe item)"
  shows "\<exists>w'. applyObjects (store_env observe retries) fname objs w = (Value (), w')
           \<and> cluster w' = cluster w @ map (\<lambda>x. the (target x)) objs
           \<and> filter protocol (trace w')
               = filter protocol (trace w) @ concat (map creating objs)"
  using assms(1-3)
proof (induction objs arbitrary: w)
  case Nil
  show ?case by simp
next
  case (Cons r rest)
  let ?env = "store_env observe retries"
  from Cons.prems(1) obtain coll ns req where t: "target r = Some (coll, ns, req)"
    by (cases "target r") auto
  have key: "entryKey (the (target r)) = (coll, ns, Name r)"
    using t target_name [OF t] by (simp add: entryKey_def)
  with Cons.prems(3) have "\<not> stored (cluster w) coll ns (Name r)"
    by (simp add: stored_iff)
  from applySwitch_absent [OF t this assms(4), of retries]
  obtain v w1 where step: "applySwitch ?env r w = (Value v, w1)"
    and c1: "cluster w1 = cluster w @ [(coll, ns, req)]"
    and t1: "filter protocol (trace w1) = filter protocol (trace w) @ creating r"
    by blast
  let ?w2 = "logApplying fname v w1"
  from unchanged_logApplying [of w1 fname v]
  have c2: "cluster ?w2 = cluster w @ [(coll, ns, req)]"
    and t2: "filter protocol (trace ?w2) = filter protocol (trace w) @ creating r"
    using c1 t1 by (simp_all add: unchanged_def)
  have "entryKey ` set (cluster ?w2) = insert (coll, ns, Name r) (entryKey ` set (cluster w))"
    using target_name [OF t] by (simp add: c2 entryKey_def)
  moreover have "\<forall>x \<in> set rest. entryKey (the (target x)) \<noteq> (coll, ns, Name r)"
    using Cons.prems(2) key by (auto simp: image_iff)
  ultimately have fresh: "\<forall>x \<in> set rest.
      entryKey (the (target x)) \<notin> entryKey ` set (cluster ?w2)"
    using Cons.prems(3) by simp
  from Cons.prems(1) have wf: "\<forall>x \<in> set rest. target x \<noteq> None" by simp
  from Cons.prems(2) have dist: "distinct (map (\<lambda>x. entryKey (the (target x))) rest)" by simp
  from Cons.IH [OF wf dist fresh]
  obtain w' where rest: "applyObjects ?env fname rest ?w2 = (Value (), w')"
    and c': "cluster w' = cluster ?w2 @ map (\<lambda>x. the (target x)) rest"
    and t': "filter protocol (trace w')
               = filter protocol (trace ?w2) @ concat (map creating rest)"
    by blast
  have "applyObjects ?env fname (r # rest) w = (Value (), w')"
    using step rest by (simp add: andThen_def)
  moreover have "cluster w' = cluster w @ map (\<lambda>x. the (target x)) (r # rest)"
    using c' c2 t by simp
  moreover have "filter protocol (trace w')
                   = filter protocol (trace w) @ concat (map creating (r # rest))"
    using t' t2 by simp
  ultimately show ?case by blast
qed

lemma applyObjects_updates:
  assumes "\<forall>r \<in> set objs. target r \<noteq> None \<and> the (target r) \<in> set (cluster w)"
    and "\<forall>r \<in> set objs. \<forall>e \<in> set (cluster w).
           entryKey e = entryKey (the (target r)) \<longrightarrow> e = the (target r)"
  shows "\<exists>w'. applyObjects (store_env observe retries) fname objs w = (Value (), w')
           \<and> cluster w' = cluster w
           \<and> filter protocol (trace w')
               = filter protocol (trace w) @ concat (map updating objs)"
  using assms
proof (induction objs arbitrary: w)
  case Nil
  show ?case by simp
next
  case (Cons r rest)
  let ?env = "store_env observe retries"
  from Cons.prems(1) obtain coll ns req where t: "target r = Some (coll, ns, req)"
    by (cases "target r") auto
  have key: "entryKey (the (target r)) = (coll, ns, Name r)"
    using t target_name [OF t] by (simp add: entryKey_def)
  have present: "(coll, ns, req) \<in> set (cluster w)"
    using Cons.prems(1) t by simp
  have only: "\<forall>e \<in> set (cluster w). entryKey e = (coll, ns, Name r) \<longrightarrow> e = (coll, ns, req)"
    using Cons.prems(2) t key by simp
  from applySwitch_present [OF t present only, of observe retries]
  obtain v w1 where step: "applySwitch ?env r w = (Value v, w1)"
    and c1: "cluster w1 = cluster w"
    and t1: "filter protocol (trace w1) = filter protocol (trace w) @ updating r"
    by blast
  let ?w2 = "logApplying fname v w1"
  from unchanged_logApplying [of w1 fname v]
  have c2: "cluster ?w2 = cluster w"
    and t2: "filter protocol (trace ?w2) = filter protocol (trace w) @ updating r"
    using c1 t1 by (simp_all add: unchanged_def)
  have "\<forall>x \<in> set rest. target x \<noteq> None \<and> the (target x) \<in> set (cluster ?w2)"
    using Cons.prems(1) by (simp add: c2)
  moreover have "\<forall>x \<in> set rest. \<forall>e \<in> set (cluster ?w2).
           entryKey e = entryKey (the (target x)) \<longrightarrow> e = the (target x)"
    using Cons.prems(2) by (simp add: c2)
  ultimately obtain w' where rest: "applyObjects ?env fname rest ?w2 = (Value (), w')"
    and c': "cluster w' = cluster ?w2"
    and t': "filter protocol (trace w')
               = filter protocol (trace ?w2) @ concat (map updating rest)"
    using Cons.IH [of ?w2] by blast
  have "applyObjects ?env fname (r # rest) w = (Value (), w')"
    using step rest by (simp add: andThen_def)
  moreover have "cluster w' = cluster w"
    using c' c2 by simp
  moreover have "filter protocol (trace w')
                   = filter protocol (trace w) @ concat (map updating (r # rest))"
    using t' t2 by simp
  ultimately show ?case by blast
qed


lemma ResourceApply_creates:
  assumes "\<forall>r \<in> set (concat (map Objects batch)). target r \<noteq> None"
    and "distinct (map (\<lambda>x. entryKey (the (target x))) (concat (map Objects batch)))"
    and "\<forall>r \<in> set (concat (map Objects batch)).
           entryKey (the (target r)) \<notin> entryKey ` set (cluster w)"
    and "\<forall>item. hasPort (observe item)"
  shows "\<exists>w'. ResourceApply (store_env observe retries) batch w = (Value None, w')
           \<and> cluster w' = cluster w @ map (\<lambda>x. the (target x)) (concat (map Objects batch))
           \<and> filter protocol (trace w')
               = filter protocol (trace w) @ concat (map creating (concat (map Objects batch)))"
  using assms(1-3)
proof (induction batch arbitrary: w)
  case Nil
  show ?case by simp
next
  case (Cons d ds)
  let ?env = "store_env observe retries"
  let ?key = "\<lambda>x. entryKey (the (target x))"
  let ?rest = "concat (map Objects ds)"
  from Cons.prems(1) have wf: "\<forall>r \<in> set (Objects d). target r \<noteq> None"
    and wf': "\<forall>r \<in> set ?rest. target r \<noteq> None" by simp_all
  from Cons.prems(2) have dist: "distinct (map ?key (Objects d))"
    and dist': "distinct (map ?key ?rest)"
    and apart: "?key ` set (Objects d) \<inter> ?key ` set ?rest = {}" by simp_all
  from Cons.prems(3) have fresh: "\<forall>r \<in> set (Objects d). ?key r \<notin> entryKey ` set (cluster w)"
    and fresh': "\<forall>r \<in> set ?rest. ?key r \<notin> entryKey ` set (cluster w)" by simp_all
  from applyObjects_creates [OF wf dist fresh assms(4), of retries "FileName d"]
  obtain w1 where first: "applyObjects ?env (FileName d) (Objects d) w = (Value (), w1)"
    and c1: "cluster w1 = cluster w @ map (\<lambda>x. the (target x)) (Objects d)"
    and t1: "filter protocol (trace w1)
               = filter protocol (trace w) @ concat (map creating (Objects d))"
    by blast
  have keys: "entryKey ` set (cluster w1)
                = entryKey ` set (cluster w) \<union> ?key ` set (Objects d)"
    by (auto simp: c1)
  have "\<forall>r \<in> set ?rest. ?key r \<notin> entryKey ` set (cluster w1)"
  proof
    fix r
    assume r: "r \<in> set ?rest"
    with fresh' have "?key r \<notin> entryKey ` set (cluster w)" by (rule bspec)
    moreover from r have "?key r \<in> ?key ` set ?rest" by (rule imageI)
    with apart have "?key r \<notin> ?key ` set (Objects d)" by blast
    ultimately show "?key r \<notin> entryKey ` set (cluster w1)"
      unfolding keys by simp
  qed
  from Cons.IH [OF wf' dist' this]
  obtain w' where rest: "ResourceApply ?env ds w1 = (Value None, w')"
    and c': "cluster w' = cluster w1 @ map (\<lambda>x. the (target x)) ?rest"
    and t': "filter protocol (trace w')
               = filter protocol (trace w1) @ concat (map creating ?rest)"
    by blast
  have "ResourceApply ?env (d # ds) w = (Value None, w')"
    using first rest by (simp add: andThen_def)
  moreover have "cluster w'
      = cluster w @ map (\<lambda>x. the (target x)) (concat (map Objects (d # ds)))"
    using c' c1 by simp
  moreover have "filter protocol (trace w')
      = filter protocol (trace w) @ concat (map creating (concat (map Objects (d # ds))))"
    using t' t1 by simp
  ultimately show ?case by blast
qed

lemma ResourceApply_updates:
  assumes "\<forall>r \<in> set (concat (map Objects batch)).
             target r \<noteq> None \<and> the (target r) \<in> set (cluster w)"
    and "\<forall>r \<in> set (concat (map Objects batch)). \<forall>e \<in> set (cluster w).
           entryKey e = entryKey (the (target r)) \<longrightarrow> e = the (target r)"
  shows "\<exists>w'. ResourceApply (store_env observe retries) batch w = (Value None, w')
           \<and> cluster w' = cluster w
           \<and> filter protocol (trace w')
               = filter protocol (trace w) @ concat (map updating (concat (map Objects batch)))"
  using assms
proof (induction batch arbitrary: w)
  case Nil
  show ?case by simp
next
  case (Cons d ds)
  let ?env = "store_env observe retries"
  let ?rest = "concat (map Objects ds)"
  from Cons.prems(1)
  have here: "\<forall>r \<in> set (Objects d). target r \<noteq> None \<and> the (target r) \<in> set (cluster w)"
    and later: "\<forall>r \<in> set ?rest. target r \<noteq> None \<and> the (target r) \<in> set (cluster w)"
    by simp_all
  from Cons.prems(2)
  have only: "\<forall>r \<in> set (Objects d). \<forall>e \<in> set (cluster w).
                entryKey e = entryKey (the (target r)) \<longrightarrow> e = the (target r)"
    and only': "\<forall>r \<in> set ?rest. \<forall>e \<in> set (cluster w).
                entryKey e = entryKey (the (target r)) \<longrightarrow> e = the (target r)"
    by simp_all
  from applyObjects_updates [OF here only, of observe retries "FileName d"]
  obtain w1 where first: "applyObjects ?env (FileName d) (Objects d) w = (Value (), w1)"
    and c1: "cluster w1 = cluster w"
    and t1: "filter protocol (trace w1)
               = filter protocol (trace w) @ concat (map updating (Objects d))"
    by blast
  from later only' Cons.IH [of w1]
  obtain w' where rest: "ResourceApply ?env ds w1 = (Value None, w')"
    and c': "cluster w' = cluster w1"
    and t': "filter protocol (trace w')
               = filter protocol (trace w1) @ concat (map updating ?rest)"
    unfolding c1 by blast
  have "ResourceApply ?env (d # ds) w = (Value None, w')"
    using first rest by (simp add: andThen_def)
  moreover have "cluster w' = cluster w"
    using c' c1 by simp
  moreover have "filter protocol (trace w')
      = filter protocol (trace w) @ concat (map updating (concat (map Objects (d # ds))))"
    using t' t1 by simp
  ultimately show ?case by blast
qed

lemma retry_loop_requests:
  "\<exists>k. k \<le> n
      \<and> trace (snd (retry_loop n lastErr (clientUpdate env coll ns req) w))
          = trace w @ replicate k (Request (UpdateReq coll ns req))
      \<and> (0 < n \<longrightarrow> 0 < k)"
proof (induction n arbitrary: w lastErr)
  case 0
  show ?case by simp
next
  case (Suc n)
  obtain u w1 where step: "clientUpdate env coll ns req w = (u, w1)"
    by (cases "clientUpdate env coll ns req w")
  then have t1: "trace w1 = trace w @ [Request (UpdateReq coll ns req)]"
    by (auto simp: clientUpdate_def split: prod.splits)
  show ?case
  proof (cases "u = Some Conflict")
    case False
    then have "retry_loop (Suc n) lastErr (clientUpdate env coll ns req) w = (u, w1)"
      using step by (cases u) simp_all
    with t1 have "trace (snd (retry_loop (Suc n) lastErr (clientUpdate env coll ns req) w))
                    = trace w @ replicate 1 (Request (UpdateReq coll ns req))"
      by simp
    then show ?thesis by (intro exI [of _ 1]) simp
  next
    case True
    from Suc.IH [of "Some Conflict" w1] obtain k where k: "k \<le> n"
      and tr: "trace (snd (retry_loop n (Some Conflict) (clientUpdate env coll ns req) w1))
                 = trace w1 @ replicate k (Request (UpdateReq coll ns req))"
      by blast
    have "retry_loop (Suc n) lastErr (clientUpdate env coll ns req) w
            = retry_loop n (Some Conflict) (clientUpdate env coll ns req) w1"
      using step True by simp
    with tr t1 have "trace (snd (retry_loop (Suc n) lastErr (clientUpdate env coll ns req) w))
                       = trace w @ replicate (Suc k) (Request (UpdateReq coll ns req))"
      by (simp add: replicate_append_same)
    with k show ?thesis by (intro exI [of _ "Suc k"]) simp
  qed
qed

lemma RetryOnConflict_requests:
  assumes "RetryOnConflict DefaultRetry_Steps (clientUpdate env coll ns req) w = (u, w')"
  shows "\<exists>k. 1 \<le> k \<and> k \<le> 5
           \<and> trace w' = trace w @ replicate k (Request (UpdateReq coll ns req))"
  using retry_loop_requests [of 5 None env coll ns req w] assms
  by (auto simp: RetryOnConflict_def DefaultRetry_Steps_def)

lemma createOrUpdate_listed:
  assumes "clientList env coll ns w = (Inr items, w1)"
  shows "createOrUpdate env coll ns listmsg req kind w
          = (if Name req \<in> set items then
               (case RetryOnConflict DefaultRetry_Steps (clientUpdate env coll ns req) w1 of
                  (Some err, w2) \<Rightarrow>
                    (Failed (Wrapf (ApiError err)
                       (''resource update failed - kind: '' @ kind @ '', name: '' @ Name req)),
                     w2)
                | (None, w2) \<Rightarrow> (Updated, emit (Printf (ResourceUpdated kind (Name req))) w2))
             else
               (case clientCreate env coll ns req w1 of
                  (Some err, w2) \<Rightarrow>
                    (Failed (Wrapf (ApiError err)
                       (''resource creation failed - kind: '' @ kind @ '', name: '' @ Name req)),
                     w2)
                | (None, w2) \<Rightarrow> (Created, emit (Printf (ResourceCreated kind (Name req))) w2)))"
  using assms by (simp add: createOrUpdate_def exists_loop_iff)

lemma createOrUpdate_unlisted:
  assumes "clientList env coll ns w = (Inl err, w1)"
  shows "createOrUpdate env coll ns listmsg req kind w
           = (Failed (Wrapf (ApiError err) listmsg), w1)"
  using assms by (simp add: createOrUpdate_def)

lemma applyResource_client:
  assumes "GoType r = T" and "Version r = v"
    and "req = (if defaults then defaultNamespace r else r)"
    and "ns = (if namespaced then Some (Namespace req) else None)"
  shows "applyResource env T coll defaults namespaced v listmsg r w
           = (case createOrUpdate env coll ns (listmsg (Kind r) (Name r)) req (Kind r) w of
                (a, w') \<Rightarrow> (Value a, w'))"
  using assms by (cases defaults; cases namespaced; simp add: applyResource_def)


lemma quiet_clientGet:
  "extends (\<lambda>e. \<not> protocol e) w (snd (clientGet env coll ns name w))"
  by (simp add: extends_def clientGet_def split: prod.splits)

lemma quiet_deploymentReady:
  "extends (\<lambda>e. \<not> protocol e) w (snd (deploymentReady env r w))"
  using quiet_clientGet [of w env Deployments "Some (Namespace (defaultNamespace r))" "Name r"]
  by (auto simp: deploymentReady_def split: prod.splits sum.splits)

lemma quiet_daemonsetReady:
  "extends (\<lambda>e. \<not> protocol e) w (snd (daemonsetReady env r w))"
  using quiet_clientGet [of w env DaemonSets "Some (Namespace (defaultNamespace r))" "Name r"]
  by (auto simp: daemonsetReady_def split: prod.splits sum.splits)

lemma quiet_serviceExists:
  "extends (\<lambda>e. \<not> protocol e) w (snd (serviceExists env r w))"
proof -
  obtain ans w1 where get: "clientGet env Services (Some (Namespace (defaultNamespace r)))
                              (Name r) w = (ans, w1)"
    by (cases "clientGet env Services (Some (Namespace (defaultNamespace r))) (Name r) w")
  with quiet_clientGet [of w env Services "Some (Namespace (defaultNamespace r))" "Name r"]
  have w1: "extends (\<lambda>e. \<not> protocol e) w w1" by simp
  then have details: "extends (\<lambda>e. \<not> protocol e) w (emit (Printf (ServiceDetails (Name r))) w1)"
    by (rule extends_emit_after) simp
  then have "extends (\<lambda>e. \<not> protocol e) w
               (serviceAddresses ips port (emit (Printf (ServiceDetails (Name r))) w1))"
    for ips port
    by (intro extends_serviceAddresses) simp_all
  with get w1 details show ?thesis
    by (auto simp: serviceExists_def split: sum.splits list.splits)
qed

lemma quiet_filter:
  "extends (\<lambda>e. \<not> protocol e) w w'
   \<Longrightarrow> filter protocol (trace w') = filter protocol (trace w)"
  by (auto simp: extends_def list_all_iff filter_empty_conv)

lemma applySwitch_list_refused:
  assumes "target r = Some (coll, ns, req)"
    and "clientList env coll ns w = (Inl err, w1)"
  shows "\<exists>listmsg. applySwitch env r w = (Value (Some (Wrapf (ApiError err) listmsg)), w1)"
proof -
  from assms(1) obtain T defaults namespaced v where
    client: "map_of clients (ToLower (Kind r)) = Some (T, coll, defaults, namespaced, v)"
    and ty: "GoType r = T" and ver: "Version r = v"
    and req: "req = (if defaults then defaultNamespace r else r)"
    and ns: "ns = (if namespaced then Some (Namespace req) else None)"
    by (rule target_client)
  have failed: "applyResource env T coll defaults namespaced v listmsg r w
                  = (Value (Failed (Wrapf (ApiError err) (listmsg (Kind r) (Name r)))), w1)"
    for listmsg
    unfolding applyResource_client [OF ty ver req ns] createOrUpdate_unlisted [OF assms(2)]
    by simp
  from applySwitch_client [OF client, of env w]
  consider (daemonset) "T = appsV1_DaemonSet" "defaults"
      "coll = DaemonSets \<and> namespaced \<and> v = ''v1''"
      "applySwitch env r w = daemonSetApply env r w"
    | (deployment) "T = appsV1_Deployment" "defaults"
      "coll = Deployments \<and> namespaced \<and> v = ''v1''"
      "applySwitch env r w = deploymentApply env r w"
    | (service) "T = apiCoreV1_Service" "defaults"
      "coll = Services \<and> namespaced \<and> v = ''v1''"
      "applySwitch env r w = serviceApply env r w"
    | (plain) listmsg where "applySwitch env r w
        = returnNil (applyResource env T coll defaults namespaced v listmsg r w)"
    by blast
  then show ?thesis
  proof cases
    case daemonset
    show ?thesis
      unfolding daemonset(4) using failed [of errorListing] daemonset(1-3)
      by (simp add: daemonSetApply_def andThen_def)
  next
    case deployment
    show ?thesis
      unfolding deployment(4) using failed [of errorListing] deployment(1-3)
      by (simp add: deploymentApply_def andThen_def)
  next
    case service
    show ?thesis
      unfolding service(4) using failed [of errorListing] service(1-3)
      by (simp add: serviceApply_def andThen_def)
  next
    case plain
    show ?thesis unfolding plain failed by (simp add: returnNil_def andThen_def)
  qed
qed

lemma applySwitch_update_path:
  assumes "target r = Some (coll, ns, req)"
    and "clientList env coll ns w = (Inr items, w1)"
    and "Name r \<in> set items"
    and "RetryOnConflict DefaultRetry_Steps (clientUpdate env coll ns req) w1 = (u, w2)"
  shows "applySwitch env r w
           = (case u of
                None \<Rightarrow> (Value None, emit (Printf (ResourceUpdated (Kind r) (Name r))) w2)
              | Some err \<Rightarrow>
                  (Value (Some (Wrapf (ApiError err)
                     (''resource update failed - kind: '' @ Kind r @ '', name: '' @ Name r))),
                   w2))"
proof -
  from assms(1) obtain T defaults namespaced v where
    client: "map_of clients (ToLower (Kind r)) = Some (T, coll, defaults, namespaced, v)"
    and ty: "GoType r = T" and ver: "Version r = v"
    and req: "req = (if defaults then defaultNamespace r else r)"
    and ns: "ns = (if namespaced then Some (Namespace req) else None)"
    by (rule target_client)
  have name: "Name req = Name r"
    using assms(1) by (rule target_name)
  have result: "applyResource env T coll defaults namespaced v listmsg r w
                = (case u of
                     None \<Rightarrow> (Value Updated, emit (Printf (ResourceUpdated (Kind r) (Name r))) w2)
                   | Some err \<Rightarrow>
                       (Value (Failed (Wrapf (ApiError err)
                          (''resource update failed - kind: '' @ Kind r @ '', name: ''
                           @ Name r))), w2))"
    for listmsg
    unfolding applyResource_client [OF ty ver req ns] createOrUpdate_listed [OF assms(2)]
    using assms(3,4) by (simp add: name split: option.splits)
  from applySwitch_client [OF client, of env w]
  consider (daemonset) "T = appsV1_DaemonSet" "defaults"
      "coll = DaemonSets \<and> namespaced \<and> v = ''v1''"
      "applySwitch env r w = daemonSetApply env r w"
    | (deployment) "T = appsV1_Deployment" "defaults"
      "coll = Deployments \<and> namespaced \<and> v = ''v1''"
      "applySwitch env r w = deploymentApply env r w"
    | (service) "T = apiCoreV1_Service" "defaults"
      "coll = Services \<and> namespaced \<and> v = ''v1''"
      "applySwitch env r w = serviceApply env r w"
    | (plain) listmsg where "applySwitch env r w
        = returnNil (applyResource env T coll defaults namespaced v listmsg r w)"
    by blast
  then show ?thesis
  proof cases
    case daemonset
    show ?thesis
      unfolding daemonset(4) using result [of errorListing] daemonset(1-3)
      by (simp add: daemonSetApply_def andThen_def split: option.splits)
  next
    case deployment
    show ?thesis
      unfolding deployment(4) using result [of errorListing] deployment(1-3)
      by (simp add: deploymentApply_def andThen_def split: option.splits)
  next
    case service
    show ?thesis
      unfolding service(4) using result [of errorListing] service(1-3)
      by (simp add: serviceApply_def andThen_def split: option.splits)
  next
    case plain
    show ?thesis
      unfolding plain result by (simp add: returnNil_def andThen_def split: option.splits)
  qed
qed

lemma applySwitch_create_path:
  assumes "target r = Some (coll, ns, req)"
    and "clientList env coll ns w = (Inr items, w1)"
    and "Name r \<notin> set items"
    and "clientCreate env coll ns req w1 = (u, w2)"
  shows "case u of
           Some err \<Rightarrow>
             applySwitch env r w
               = (Value (Some (Wrapf (ApiError err)
                    (''resource creation failed - kind: '' @ Kind r @ '', name: '' @ Name r))),
                  w2)
         | None \<Rightarrow>
             extends (\<lambda>e. \<not> protocol e)
               (emit (Printf (ResourceCreated (Kind r) (Name r))) w2)
               (snd (applySwitch env r w))"
proof -
  from assms(1) obtain T defaults namespaced v where
    client: "map_of clients (ToLower (Kind r)) = Some (T, coll, defaults, namespaced, v)"
    and ty: "GoType r = T" and ver: "Version r = v"
    and req: "req = (if defaults then defaultNamespace r else r)"
    and ns: "ns = (if namespaced then Some (Namespace req) else None)"
    by (rule target_client)
  have name: "Name req = Name r"
    using assms(1) by (rule target_name)
  let ?w3 = "emit (Printf (ResourceCreated (Kind r) (Name r))) w2"
  have result: "applyResource env T coll defaults namespaced v listmsg r w
                = (case u of
                     None \<Rightarrow> (Value Created, ?w3)
                   | Some err \<Rightarrow>
                       (Value (Failed (Wrapf (ApiError err)
                          (''resource creation failed - kind: '' @ Kind r @ '', name: ''
                           @ Name r))), w2))"
    for listmsg
    unfolding applyResource_client [OF ty ver req ns] createOrUpdate_listed [OF assms(2)]
    using assms(3,4) by (simp add: name split: option.splits)
  have poll: "extends (\<lambda>e. \<not> protocol e) w' (snd (until_loop n fn t w'))"
    if "\<And>w. extends (\<lambda>e. \<not> protocol e) w (snd (fn w))"
    for n t w' and fn :: "'a world \<Rightarrow> (bool \<times> error option) outcome \<times> 'a world"
    using that by (rule extends_until_loop)
  from applySwitch_client [OF client, of env w]
  consider (daemonset) "T = appsV1_DaemonSet" "defaults"
      "coll = DaemonSets \<and> namespaced \<and> v = ''v1''"
      "applySwitch env r w = daemonSetApply env r w"
    | (deployment) "T = appsV1_Deployment" "defaults"
      "coll = Deployments \<and> namespaced \<and> v = ''v1''"
      "applySwitch env r w = deploymentApply env r w"
    | (service) "T = apiCoreV1_Service" "defaults"
      "coll = Services \<and> namespaced \<and> v = ''v1''"
      "applySwitch env r w = serviceApply env r w"
    | (plain) listmsg where "applySwitch env r w
        = returnNil (applyResource env T coll defaults namespaced v listmsg r w)"
    by blast
  then show ?thesis
  proof cases
    case daemonset
    have "extends (\<lambda>e. \<not> protocol e) ?w3
            (snd (andThen (daemonsetReady env (defaultNamespace r) ?w3)
                    (\<lambda>ignored w''. (Value None :: error option outcome, w''))))"
      by (intro extends_andThen quiet_daemonsetReady) simp
    then show ?thesis
      unfolding daemonset(4) using result [of errorListing] daemonset(1-3)
      by (simp add: daemonSetApply_def andThen_def split: option.splits)
  next
    case deployment
    have "extends (\<lambda>e. \<not> protocol e) ?w3
            (snd (RetryUntilTrue (''applying deployment:'' @ Name r) (GlobalRetryCount env)
                    (deploymentReady env (defaultNamespace r)) ?w3))"
      unfolding RetryUntilTrue_def by (intro poll quiet_deploymentReady)
    then show ?thesis
      unfolding deployment(4) using result [of errorListing] deployment(1-3)
      by (simp add: deploymentApply_def andThen_def split: option.splits)
  next
    case service
    have "extends (\<lambda>e. \<not> protocol e) ?w3
            (snd (RetryUntilTrue (''applying service:'' @ Name r) (GlobalRetryCount env)
                    (serviceExists env (defaultNamespace r)) ?w3))"
      unfolding RetryUntilTrue_def by (intro poll quiet_serviceExists)
    then show ?thesis
      unfolding service(4) using result [of errorListing] service(1-3)
      by (simp add: serviceApply_def andThen_def split: option.splits)
  next
    case plain
    show ?thesis
      unfolding plain result by (simp add: returnNil_def andThen_def split: option.splits)
  qed
qed


text \<open>
  Claim C1. Every apply handler follows one protocol, whatever the cluster answers. It
  lists the collection of its kind, in the namespace of the resource for the namespaced
  kinds, and returns the wrapped error when the list is refused. When an item of the
  list has the name of the resource, it sends between one and five update requests for
  the same object (the conflict retry), then logs "resource updated" and returns
  \<^verbatim>\<open>nil\<close>, or returns the wrapped error of the last attempt. Otherwise it sends one
  create request; a refused create is returned wrapped, an accepted one is logged as
  "resource created" and followed by no further list, create or update. Hence, on a
  cluster that stores what it is given and starts empty, applying a batch of distinct,
  well-formed resources twice gives, for every resource in order, a list request, a
  create request and the line "resource created" in the first run, and a list request,
  an update request and the line "resource updated" in the second run: no resource is
  created twice, and the second run leaves the cluster as the first one left it. The
  \<^verbatim>\<open>switch\<close> of \<^verbatim>\<open>src/provider/k8s/k8s.go\<close> calls the same handlers; it differs
  only for the kind \<^verbatim>\<open>customresourcedefinition\<close>, which it does not know.
\<close>

theorem apply_creates_once_then_updates:
  "(target r = Some (coll, ns, req) \<and> clientList env coll ns w = (listed, w1) \<longrightarrow>
      trace w1 = trace w @ [Request (ListReq coll ns)]
      \<and> (case listed of
            Inl err \<Rightarrow>
              (\<exists>listmsg. applySwitch env r w
                           = (Value (Some (Wrapf (ApiError err) listmsg)), w1))
          | Inr items \<Rightarrow>
              if Name r \<in> set items then
                (\<exists>k u w2. 1 \<le> k \<and> k \<le> 5
                   \<and> RetryOnConflict DefaultRetry_Steps (clientUpdate env coll ns req) w1
                       = (u, w2)
                   \<and> trace w2 = trace w1 @ replicate k (Request (UpdateReq coll ns req))
                   \<and> applySwitch env r w
                       = (case u of
                            None \<Rightarrow>
                              (Value None,
                               emit (Printf (ResourceUpdated (Kind r) (Name r))) w2)
                          | Some err \<Rightarrow>
                              (Value (Some (Wrapf (ApiError err)
                                 (''resource update failed - kind: '' @ Kind r
                                  @ '', name: '' @ Name r))), w2)))
              else
                (\<exists>u w2. clientCreate env coll ns req w1 = (u, w2)
                   \<and> trace w2 = trace w1 @ [Request (CreateReq coll ns req)]
                   \<and> (case u of
                         None \<Rightarrow>
                           extends (\<lambda>e. \<not> protocol e)
                             (emit (Printf (ResourceCreated (Kind r) (Name r))) w2)
                             (snd (applySwitch env r w))
                       | Some err \<Rightarrow>
                           applySwitch env r w
                             = (Value (Some (Wrapf (ApiError err)
                                  (''resource creation failed - kind: '' @ Kind r
                                   @ '', name: '' @ Name r))), w2)))))
   \<and> ((\<forall>x \<in> set (concat (map Objects batch)). target x \<noteq> None)
        \<and> distinct (map (\<lambda>x. entryKey (the (target x))) (concat (map Objects batch)))
        \<and> (\<forall>item. hasPort (observe item)) \<longrightarrow>
      (\<exists>once twice.
           ResourceApply (store_env observe retries) batch (world0 []) = (Value None, once)
         \<and> ResourceApply (store_env observe retries) batch once = (Value None, twice)
         \<and> filter protocol (trace once) = concat (map creating (concat (map Objects batch)))
         \<and> filter protocol (trace twice)
             = concat (map creating (concat (map Objects batch)))
               @ concat (map updating (concat (map Objects batch)))
         \<and> cluster once = map (\<lambda>x. the (target x)) (concat (map Objects batch))
         \<and> cluster twice = cluster once))
   \<and> (ToLower (Kind r) \<noteq> ''customresourcedefinition'' \<longrightarrow>
        applySwitch_files env r w = applySwitch env r w)"
proof (intro conjI impI)
  assume "target r = Some (coll, ns, req) \<and> clientList env coll ns w = (listed, w1)"
  then have t: "target r = Some (coll, ns, req)"
    and l: "clientList env coll ns w = (listed, w1)" by simp_all
  from l show "trace w1 = trace w @ [Request (ListReq coll ns)]"
    by (auto simp: clientList_def split: prod.splits)
  show "case listed of
          Inl err \<Rightarrow>
            (\<exists>listmsg. applySwitch env r w
                         = (Value (Some (Wrapf (ApiError err) listmsg)), w1))
        | Inr items \<Rightarrow>
            if Name r \<in> set items then
              (\<exists>k u w2. 1 \<le> k \<and> k \<le> 5
                 \<and> RetryOnConflict DefaultRetry_Steps (clientUpdate env coll ns req) w1
                     = (u, w2)
                 \<and> trace w2 = trace w1 @ replicate k (Request (UpdateReq coll ns req))
                 \<and> applySwitch env r w
                     = (case u of
                          None \<Rightarrow>
                            (Value None,
                             emit (Printf (ResourceUpdated (Kind r) (Name r))) w2)
                        | Some err \<Rightarrow>
                            (Value (Some (Wrapf (ApiError err)
                               (''resource update failed - kind: '' @ Kind r
                                @ '', name: '' @ Name r))), w2)))
            else
              (\<exists>u w2. clientCreate env coll ns req w1 = (u, w2)
                 \<and> trace w2 = trace w1 @ [Request (CreateReq coll ns req)]
                 \<and> (case u of
                       None \<Rightarrow>
                         extends (\<lambda>e. \<not> protocol e)
                           (emit (Printf (ResourceCreated (Kind r) (Name r))) w2)
                           (snd (applySwitch env r w))
                     | Some err \<Rightarrow>
                         applySwitch env r w
                           = (Value (Some (Wrapf (ApiError err)
                                (''resource creation failed - kind: '' @ Kind r
                                 @ '', name: '' @ Name r))), w2)))"
  proof (cases listed)
    case (Inl err)
    with applySwitch_list_refused [OF t, of env w err w1] l show ?thesis by simp
  next
    case (Inr items)
    note listed = l [unfolded Inr]
    show ?thesis
    proof (cases "Name r \<in> set items")
      case True
      obtain u w2 where
        retry: "RetryOnConflict DefaultRetry_Steps (clientUpdate env coll ns req) w1 = (u, w2)"
        by (cases "RetryOnConflict DefaultRetry_Steps (clientUpdate env coll ns req) w1")
      from RetryOnConflict_requests [OF retry] obtain k where "1 \<le> k" "k \<le> 5"
        and "trace w2 = trace w1 @ replicate k (Request (UpdateReq coll ns req))"
        by blast
      with retry applySwitch_update_path [OF t listed True retry] Inr True
      show ?thesis by auto
    next
      case False
      obtain u w2 where create: "clientCreate env coll ns req w1 = (u, w2)"
        by (cases "clientCreate env coll ns req w1")
      then have "trace w2 = trace w1 @ [Request (CreateReq coll ns req)]"
        by (auto simp: clientCreate_def split: prod.splits)
      with create applySwitch_create_path [OF t listed False create] Inr False
      show ?thesis by (cases u) auto
    qed
  qed
next
  assume "(\<forall>x \<in> set (concat (map Objects batch)). target x \<noteq> None)
        \<and> distinct (map (\<lambda>x. entryKey (the (target x))) (concat (map Objects batch)))
        \<and> (\<forall>item. hasPort (observe item))"
  then have wf: "\<forall>x \<in> set (concat (map Objects batch)). target x \<noteq> None"
    and dist: "distinct (map (\<lambda>x. entryKey (the (target x))) (concat (map Objects batch)))"
    and port: "\<forall>item. hasPort (observe item)" by simp_all
  let ?env = "store_env observe retries"
  let ?objs = "concat (map Objects batch)"
  let ?key = "\<lambda>x. entryKey (the (target x))"
  have "\<forall>x \<in> set ?objs. ?key x \<notin> entryKey ` set (cluster (world0 ([] :: store)))"
    by (simp add: world0_def)
  from ResourceApply_creates [OF wf dist this port, of retries]
  obtain once where run1: "ResourceApply ?env batch (world0 []) = (Value None, once)"
    and c1: "cluster once = map (\<lambda>x. the (target x)) ?objs"
    and t1: "filter protocol (trace once) = concat (map creating ?objs)"
    by (auto simp: world0_def)
  have present: "\<forall>x \<in> set ?objs. target x \<noteq> None \<and> the (target x) \<in> set (cluster once)"
    using wf unfolding c1 by auto
  have inj: "inj_on ?key (set ?objs)"
    using dist by (simp add: distinct_map)
  have only: "\<forall>x \<in> set ?objs. \<forall>e \<in> set (cluster once).
                entryKey e = ?key x \<longrightarrow> e = the (target x)"
  proof (intro ballI impI)
    fix x e
    assume x: "x \<in> set ?objs" and "e \<in> set (cluster once)" and same: "entryKey e = ?key x"
    then obtain y where y: "y \<in> set ?objs" and e: "e = the (target y)"
      unfolding c1 by auto
    from same e have "?key y = ?key x" by simp
    with inj have "y = x" using y x by (rule inj_onD)
    with e show "e = the (target x)" by simp
  qed
  from ResourceApply_updates [OF present only, of observe retries]
  obtain twice where run2: "ResourceApply ?env batch once = (Value None, twice)"
    and c2: "cluster twice = cluster once"
    and t2: "filter protocol (trace twice)
               = filter protocol (trace once) @ concat (map updating ?objs)"
    by blast
  from run1 run2 t1 t2 c1 c2
  show "\<exists>once twice.
           ResourceApply ?env batch (world0 []) = (Value None, once)
         \<and> ResourceApply ?env batch once = (Value None, twice)
         \<and> filter protocol (trace once) = concat (map creating ?objs)
         \<and> filter protocol (trace twice)
             = concat (map creating ?objs) @ concat (map updating ?objs)
         \<and> cluster once = map (\<lambda>x. the (target x)) ?objs
         \<and> cluster twice = cluster once"
    by simp
next
  assume "ToLower (Kind r) \<noteq> ''customresourcedefinition''"
  then show "applySwitch_files env r w = applySwitch env r w"
    by (simp add: applySwitch_def applySwitch_files_def)
qed

lemma bench_targets:
  "target bench_namespace = Some (Namespaces, None, bench_namespace)"
  "target settings = Some (ConfigMaps, Some ''default'', settings\<lparr>Namespace := ''default''\<rparr>)"
  "target loadgen = Some (Deployments, Some ''bench-42'', loadgen)"
  "target node_exporter = Some (DaemonSets, Some ''bench-42'', node_exporter)"
  by (simp_all add: target_def clients_def sample_defs loadgen_def node_exporter_def
        defaultNamespace_def ToLower_def toLowerByte_def)

lemma bench_names:
  "Name bench_namespace = ''bench-42''" "Kind bench_namespace = ''Namespace''"
  "Name settings = ''settings''" "Kind settings = ''ConfigMap''"
  "Name loadgen = ''loadgen''" "Kind loadgen = ''Deployment''"
  "Name node_exporter = ''node-exporter''" "Kind node_exporter = ''DaemonSet''"
  by (simp_all add: sample_defs loadgen_def node_exporter_def)

lemma contended_updates:
  "RetryOnConflict DefaultRetry_Steps
     (clientUpdate (contended_env 2) DaemonSets (Some ''bench-42'') node_exporter)
     \<lparr>cluster = 0, trace = [Request (ListReq DaemonSets (Some ''bench-42''))]\<rparr>
   = (None,
      \<lparr>cluster = 3,
       trace = [Request (ListReq DaemonSets (Some ''bench-42'')),
                Request (UpdateReq DaemonSets (Some ''bench-42'') node_exporter),
                Request (UpdateReq DaemonSets (Some ''bench-42'') node_exporter),
                Request (UpdateReq DaemonSets (Some ''bench-42'') node_exporter)]\<rparr>)"
  by (simp add: RetryOnConflict_def DefaultRetry_Steps_def numeral_eq_Suc clientUpdate_def
        contended_env_def)

theorem apply_creates_once_then_updates_witness:
  "filter protocol
     (trace (snd (ResourceApply (store_env (reporting 3 0) 5) bench_batch
                    (snd (ResourceApply (store_env (reporting 3 0) 5) bench_batch
                            (world0 []))))))
   = [Request (ListReq Namespaces None),
      Request (CreateReq Namespaces None bench_namespace),
      Printf (ResourceCreated ''Namespace'' ''bench-42''),
      Request (ListReq ConfigMaps (Some ''default'')),
      Request (CreateReq ConfigMaps (Some ''default'') (settings\<lparr>Namespace := ''default''\<rparr>)),
      Printf (ResourceCreated ''ConfigMap'' ''settings''),
      Request (ListReq Deployments (Some ''bench-42'')),
      Request (CreateReq Deployments (Some ''bench-42'') loadgen),
      Printf (ResourceCreated ''Deployment'' ''loadgen''),
      Request (ListReq DaemonSets (Some ''bench-42'')),
      Request (CreateReq DaemonSets (Some ''bench-42'') node_exporter),
      Printf (ResourceCreated ''DaemonSet'' ''node-exporter''),
      Request (ListReq Namespaces None),
      Request (UpdateReq Namespaces None bench_namespace),
      Printf (ResourceUpdated ''Namespace'' ''bench-42''),
      Request (ListReq ConfigMaps (Some ''default'')),
      Request (UpdateReq ConfigMaps (Some ''default'') (settings\<lparr>Namespace := ''default''\<rparr>)),
      Printf (ResourceUpdated ''ConfigMap'' ''settings''),
      Request (ListReq Deployments (Some ''bench-42'')),
      Request (UpdateReq Deployments (Some ''bench-42'') loadgen),
      Printf (ResourceUpdated ''Deployment'' ''loadgen''),
      Request (ListReq DaemonSets (Some ''bench-42'')),
      Request (UpdateReq DaemonSets (Some ''bench-42'') node_exporter),
      Printf (ResourceUpdated ''DaemonSet'' ''node-exporter'')]
   \<and> cluster (snd (ResourceApply (store_env (reporting 3 0) 5) bench_batch
                      (snd (ResourceApply (store_env (reporting 3 0) 5) bench_batch
                              (world0 [])))))
   = [(Namespaces, None, bench_namespace),
      (ConfigMaps, Some ''default'', settings\<lparr>Namespace := ''default''\<rparr>),
      (Deployments, Some ''bench-42'', loadgen),
      (DaemonSets, Some ''bench-42'', node_exporter)]
   \<and> applySwitch (contended_env 2) node_exporter (world0 0)
   = (Value None,
      \<lparr>cluster = 3,
       trace = [Request (ListReq DaemonSets (Some ''bench-42'')),
                Request (UpdateReq DaemonSets (Some ''bench-42'') node_exporter),
                Request (UpdateReq DaemonSets (Some ''bench-42'') node_exporter),
                Request (UpdateReq DaemonSets (Some ''bench-42'') node_exporter),
                Printf (ResourceUpdated ''DaemonSet'' ''node-exporter'')]\<rparr>)"
proof -
  let ?env = "store_env (reporting 3 0) 5"
  have objs: "concat (map Objects bench_batch)
                = [bench_namespace, settings, loadgen, node_exporter]"
    by (simp add: bench_batch_def)
  have wf: "\<forall>r \<in> set (concat (map Objects bench_batch)). target r \<noteq> None"
    unfolding objs by (simp add: bench_targets)
  have dist: "distinct (map (\<lambda>r. entryKey (the (target r)))
                          (concat (map Objects bench_batch)))"
    unfolding objs by (simp add: bench_targets entryKey_def bench_names)
  have port: "\<forall>item. hasPort (reporting 3 0 item)"
    by (simp add: hasPort_def reporting_def emptyRemote_def)
  note twice = apply_creates_once_then_updates
                 [where batch = bench_batch and observe = "reporting 3 0" and retries = 5,
                  THEN conjunct2, THEN conjunct1, THEN mp,
                  OF conjI [OF wf conjI [OF dist port]]]
  then obtain w1 w2 where "ResourceApply ?env bench_batch (world0 []) = (Value None, w1)"
    and "ResourceApply ?env bench_batch w1 = (Value None, w2)"
    and "filter protocol (trace w2)
           = concat (map creating (concat (map Objects bench_batch)))
             @ concat (map updating (concat (map Objects bench_batch)))"
    and "cluster w1 = map (\<lambda>r. the (target r)) (concat (map Objects bench_batch))"
    and "cluster w2 = cluster w1"
    by blast
  then have runs: "filter protocol
     (trace (snd (ResourceApply ?env bench_batch (snd (ResourceApply ?env bench_batch
                                                        (world0 []))))))
     = concat (map creating [bench_namespace, settings, loadgen, node_exporter])
       @ concat (map updating [bench_namespace, settings, loadgen, node_exporter])"
    "cluster (snd (ResourceApply ?env bench_batch (snd (ResourceApply ?env bench_batch
                                                        (world0 [])))))
     = map (\<lambda>r. the (target r)) [bench_namespace, settings, loadgen, node_exporter]"
    unfolding objs by simp_all
  let ?w1 = "\<lparr>cluster = 0 :: nat,
             trace = [Request (ListReq DaemonSets (Some ''bench-42''))]\<rparr>"
  have listed: "clientList (contended_env 2) DaemonSets (Some ''bench-42'') (world0 0)
                  = (Inr [''node-exporter''], ?w1)"
    by (simp add: clientList_def contended_env_def world0_def)
  from apply_creates_once_then_updates
         [where r = node_exporter and coll = DaemonSets and ns = "Some ''bench-42''"
            and req = node_exporter and env = "contended_env 2" and w = "world0 0"
            and listed = "Inr [''node-exporter'']" and ?w1.0 = ?w1,
          THEN conjunct1, THEN mp, OF conjI [OF bench_targets(4) listed], THEN conjunct2]
  have contended: "applySwitch (contended_env 2) node_exporter (world0 0)
     = (Value None,
        \<lparr>cluster = 3,
         trace = [Request (ListReq DaemonSets (Some ''bench-42'')),
                  Request (UpdateReq DaemonSets (Some ''bench-42'') node_exporter),
                  Request (UpdateReq DaemonSets (Some ''bench-42'') node_exporter),
                  Request (UpdateReq DaemonSets (Some ''bench-42'') node_exporter),
                  Printf (ResourceUpdated ''DaemonSet'' ''node-exporter'')]\<rparr>)"
    by (auto simp: bench_names contended_updates emit_def)
  from runs contended show ?thesis
    by (simp add: creating_def updating_def bench_targets bench_names)
qed

subsection \<open>A kind without a handler in a whole run\<close>















































end
